theory Spec2Isabelle
  imports Main "HOL-Library.AList"
begin

section \<open>JavaScript values\<close>

text \<open>
  The bridge (\<^verbatim>\<open>CodexAppServerTransport\<close>) reads every peer message as \<^verbatim>\<open>any\<close>:
  the result of \<^verbatim>\<open>JSON.parse\<close>. A value is modelled as it is at run time, with
  \<^verbatim>\<open>undefined\<close> as a value of its own. Numbers are the integers (the identifiers and
  exit codes of the protocol); a number that is not an integer, or one whose decimal
  rendering needs an exponent, is outside the model. An object is its list of
  properties; a parsed object has every key once.
\<close>

datatype jsval =
    JUndefined
  | JNull
  | JBool bool
  | JNum int
  | JStr string
  | JArr "jsval list"
  | JObj "(string \<times> jsval) list"

text \<open>Property access \<^verbatim>\<open>v.k\<close> and \<^verbatim>\<open>v?.k\<close> on a value that is not null or undefined,
  and \<^verbatim>\<open>v?.k\<close> on one that is: a property that is absent reads as undefined. None of
  the property names the bridge reads is a property of a string, an array or a number.\<close>

fun field :: "jsval \<Rightarrow> string \<Rightarrow> jsval" where
  "field (JObj kvs) k = (case map_of kvs k of Some v \<Rightarrow> v | None \<Rightarrow> JUndefined)"
| "field _ k = JUndefined"

fun truthy :: "jsval \<Rightarrow> bool" where
  "truthy JUndefined = False"
| "truthy JNull = False"
| "truthy (JBool b) = b"
| "truthy (JNum n) = (n \<noteq> 0)"
| "truthy (JStr s) = (s \<noteq> [])"
| "truthy (JArr _) = True"
| "truthy (JObj _) = True"

fun nullish :: "jsval \<Rightarrow> bool" where
  "nullish JUndefined = True"
| "nullish JNull = True"
| "nullish _ = False"

text \<open>\<^verbatim>\<open>a ?? b\<close>\<close>

definition nc :: "jsval \<Rightarrow> jsval \<Rightarrow> jsval" where
  "nc a b = (if nullish a then b else a)"

text \<open>\<^verbatim>\<open>a || b || ... || z\<close>: the first truthy operand, and the last one when none is.\<close>

fun first_truthy :: "jsval list \<Rightarrow> jsval" where
  "first_truthy [] = JUndefined"
| "first_truthy [x] = x"
| "first_truthy (x # y # ys) = (if truthy x then x else first_truthy (y # ys))"

subsection \<open>Conversion to string\<close>

definition digit_char :: "nat \<Rightarrow> char" where
  "digit_char n = char_of (48 + n)"

function nat_digits :: "nat \<Rightarrow> string" where
  "nat_digits n = (if n < 10 then [digit_char n] else nat_digits (n div 10) @ [digit_char (n mod 10)])"
  by pat_completeness auto
termination
  by (relation "measure id") auto

declare nat_digits.simps [simp del]

definition number_to_string :: "int \<Rightarrow> string" where
  "number_to_string i = (if i < 0 then CHR ''-'' # nat_digits (nat (- i)) else nat_digits (nat i))"

fun join :: "string \<Rightarrow> string list \<Rightarrow> string" where
  "join sep [] = []"
| "join sep [x] = x"
| "join sep (x # y # ys) = x @ sep @ join sep (y # ys)"

text \<open>\<^verbatim>\<open>String(v)\<close>. An array is its elements joined by commas, a null or undefined
  element giving the empty string, as \<^verbatim>\<open>Array.prototype.join\<close> does.\<close>

fun js_String :: "jsval \<Rightarrow> string" where
  "js_String JUndefined = ''undefined''"
| "js_String JNull = ''null''"
| "js_String (JBool b) = (if b then ''true'' else ''false'')"
| "js_String (JNum n) = number_to_string n"
| "js_String (JStr s) = s"
| "js_String (JArr xs) = join '','' (map (\<lambda>x. if nullish x then [] else js_String x) xs)"
| "js_String (JObj kvs) = ''[object Object]''"

text \<open>\<^verbatim>\<open>xs.join(sep)\<close> on an array of values.\<close>

definition array_join :: "string \<Rightarrow> jsval list \<Rightarrow> string" where
  "array_join sep xs = join sep (map (\<lambda>x. if nullish x then [] else js_String x) xs)"

subsection \<open>String tests\<close>

fun startsWith :: "string \<Rightarrow> string \<Rightarrow> bool" where
  "startsWith s [] = True"
| "startsWith [] (c # p) = False"
| "startsWith (a # s) (c # p) = (a = c \<and> startsWith s p)"

text \<open>\<^verbatim>\<open>s.includes(p)\<close>\<close>

fun includes_str :: "string \<Rightarrow> string \<Rightarrow> bool" where
  "includes_str [] p = (p = [])"
| "includes_str (a # s) p = (startsWith (a # s) p \<or> includes_str s p)"

section \<open>Identity resolution\<close>

text \<open>\<^verbatim>\<open>resolveThreadId\<close>, \<^verbatim>\<open>resolveTurnId\<close>: the result is a string or undefined.\<close>

definition resolveThreadId :: "jsval \<Rightarrow> jsval" where
  "resolveThreadId params =
     (let v = first_truthy
                [field params ''threadId'',
                 field params ''thread_id'',
                 field (field params ''thread'') ''id'',
                 field params ''conversationId'',
                 field (field params ''item'') ''threadId'',
                 field (field params ''item'') ''thread_id'']
      in if nullish v then JUndefined else JStr (js_String v))"

definition resolveTurnId :: "jsval \<Rightarrow> jsval" where
  "resolveTurnId params =
     (let v = first_truthy
                [field params ''turnId'',
                 field params ''turn_id'',
                 field (field params ''turn'') ''id'',
                 field (field params ''item'') ''turnId'',
                 field (field params ''item'') ''turn_id'']
      in if nullish v then JUndefined else JStr (js_String v))"

definition extractCommand :: "jsval \<Rightarrow> jsval" where
  "extractCommand params =
     (let command = first_truthy
                [field params ''command'',
                 field (field params ''parsedCmd'') ''cmd'',
                 field params ''parsed_cmd'',
                 field (field params ''item'') ''command'',
                 field (field (field params ''item'') ''parsedCmd'') ''cmd'',
                 field (field params ''item'') ''parsed_cmd'']
      in if \<not> truthy command then JUndefined
         else (case command of
                 JArr xs \<Rightarrow> JStr (array_join '' '' xs)
               | JStr s \<Rightarrow> JStr s
               | _ \<Rightarrow> JUndefined))"

definition extractApprovalId :: "jsval \<Rightarrow> jsval" where
  "extractApprovalId params =
     (let i = first_truthy
                [field params ''approvalId'',
                 field params ''approval_id'',
                 field params ''requestId'',
                 field params ''request_id'',
                 field params ''id'']
      in if \<not> truthy i then JUndefined else JStr (js_String i))"

definition normalizeCommand :: "jsval \<Rightarrow> jsval" where
  "normalizeCommand command =
     (if \<not> truthy command then JUndefined
      else (case command of
              JArr xs \<Rightarrow> JStr (join '' '' (map js_String xs))
            | JStr s \<Rightarrow> JStr s
            | _ \<Rightarrow> JUndefined))"

datatype ApprovalDecision = approve_once | approve_always | deny_once | deny_always

fun decision_name :: "ApprovalDecision \<Rightarrow> string" where
  "decision_name approve_once = ''approve_once''"
| "decision_name approve_always = ''approve_always''"
| "decision_name deny_once = ''deny_once''"
| "decision_name deny_always = ''deny_always''"

definition mapDecision :: "ApprovalDecision \<Rightarrow> string" where
  "mapDecision decision = (if startsWith (decision_name decision) ''approve'' then ''accept'' else ''decline'')"

section \<open>Chunk decoding\<close>

text \<open>The character class \<^verbatim>\<open>[A-Za-z0-9+/]\<close>.\<close>

definition base64_char :: "char \<Rightarrow> bool" where
  "base64_char c =
     (c \<in> set ''ABCDEFGHIJKLMNOPQRSTUVWXYZabcdefghijklmnopqrstuvwxyz0123456789+/'')"

text \<open>\<^verbatim>\<open>/^[A-Za-z0-9+/]+={0,2}$/.test(chunk)\<close>. The class does not hold \<^verbatim>\<open>=\<close>, so the
  greedy match of the class is the only split that can succeed.\<close>

definition base64Pattern_test :: "string \<Rightarrow> bool" where
  "base64Pattern_test chunk =
     (let body = takeWhile base64_char chunk; pad = dropWhile base64_char chunk
      in body \<noteq> [] \<and> (pad = [] \<or> pad = ''='' \<or> pad = ''==''))"

text \<open>\<^verbatim>\<open>decodeChunk\<close>. \<^verbatim>\<open>Buffer.from(chunk, "base64").toString("utf8")\<close> is code of the
  Node.js runtime, not of this repository: it is the parameter \<open>dec\<close>. It does not throw
  on a string, so the \<^verbatim>\<open>catch\<close> branch of the source has no input.\<close>

definition decodeChunk :: "(string \<Rightarrow> string) \<Rightarrow> string \<Rightarrow> string" where
  "decodeChunk dec chunk =
     (if chunk = [] then []
      else if length chunk mod 4 = 0 \<and> base64Pattern_test chunk then dec chunk
      else chunk)"

section \<open>The state of the bridge\<close>

datatype error = Error string | TypeError string

text \<open>A promise is pending or settled.\<close>

datatype outcome = Pending | Resolved jsval | Rejected error

record WorkspaceContext =
  workspaceRoot :: string
  workspaceName :: "string option"
  systemPrompt :: "string option"
  ctx_sessionId :: "string option"

record CodexTransportOptions =
  opt_bin :: "string option"
  opt_model :: "string option"
  opt_sandbox :: "string option"
  opt_approvalPolicy :: "string option"

record ThreadContext =
  sessionId :: jsval
  cwd :: string

record CommandExecution =
  ce_threadId :: jsval
  ce_turnId :: jsval
  ce_command :: jsval
  ce_cwd :: jsval

text \<open>
  An \<^verbatim>\<open>async\<close> method of the bridge is suspended at an \<^verbatim>\<open>await\<close>. The frame that waits
  for the promise of an \<^verbatim>\<open>rpc\<close> call is a \<open>continuation\<close>: the method, the promise the
  method returned to its caller (a position in \<open>calls\<close>) and the locals the rest of the
  method reads. The frame that waits for \<^verbatim>\<open>this.ready\<close> is a \<open>waiter\<close>.
\<close>

datatype continuation =
    CreateThreadK nat WorkspaceContext
  | SendUserMessageK nat string
  | CancelK nat
  | RespondApprovalK nat

datatype waiter =
    CreateThreadW nat WorkspaceContext
  | SendUserMessageW nat string string "string list option"
  | CancelW nat string

text \<open>\<^verbatim>\<open>PendingRequest\<close>: \<^verbatim>\<open>resolve\<close> and \<^verbatim>\<open>reject\<close> settle the promise that \<^verbatim>\<open>rpc\<close> returned
  and so wake the frame that awaits it.\<close>

record PendingRequest =
  pr_method :: string
  awaiting :: continuation

datatype ready_state = ReadyPending | ReadyResolved | ReadyRejected error

text \<open>\<^verbatim>\<open>ApprovalRequestWithResponder\<close>; \<open>respond\<close> is the closure, which is the request
  id it captured. \<^verbatim>\<open>createdAt\<close> (the wall clock) is left out of every event.\<close>

record ApprovalRequestWithResponder =
  ap_id :: string
  ap_sessionId :: jsval
  ap_turnId :: jsval
  ap_kind :: string
  ap_title :: string
  ap_riskLevel :: string
  ap_details :: jsval
  ap_status :: string
  codexApprovalId :: string
  respond :: "jsval option"

datatype payload = Payload jsval | ApprovalPayload ApprovalRequestWithResponder

record TransportEvent =
  ev_type :: string
  ev_sessionId :: jsval
  ev_turnId :: jsval
  ev_payload :: payload

text \<open>
  The fields of the class, and what the class acts on: \<open>writable\<close> is
  \<^verbatim>\<open>proc.stdin.writable\<close>, \<open>sent\<close> the messages written to the peer, \<open>events\<close> the
  events handed to the listeners (a listener is taken not to throw), \<open>rpcPromises\<close> the
  promises \<^verbatim>\<open>rpc\<close> has returned, by request id, and \<open>calls\<close> the promises the public
  methods have returned, with the method's name. \<open>pendingRequests\<close> is a list, in
  insertion order, since \<^verbatim>\<open>failAll\<close> iterates it. The log file is not modelled.

  The tables keyed by an id (\<open>threadContexts\<close>, \<open>turnToThread\<close>, \<open>seenThreads\<close>,
  \<open>pendingThreadNotifications\<close>, \<open>agentMessageBuffers\<close>) hold the ids as the peer sent
  them and compare them as values. Node's \<^verbatim>\<open>Map\<close> and \<^verbatim>\<open>Set\<close> do so for the primitive
  values; they compare objects and arrays by identity. The ids of the protocol are
  strings: the model is the class for ids that are primitive values, and what is
  proved about these tables is stated for such ids.
\<close>

record state =
  writable :: bool
  sent :: "jsval list"
  events :: "TransportEvent list"
  pendingRequests :: "(int \<times> PendingRequest) list"
  pendingApprovals :: "string \<rightharpoonup> jsval"
  threadContexts :: "jsval \<rightharpoonup> ThreadContext"
  turnToThread :: "jsval \<rightharpoonup> jsval"
  pendingThreadNotifications :: "jsval set"
  pendingNotificationApprovals :: "string \<rightharpoonup> (string \<times> jsval)"
  agentMessageBuffers :: "jsval \<rightharpoonup> string"
  seenThreads :: "jsval set"
  commandExecutions :: "string \<rightharpoonup> CommandExecution"
  nextId :: int
  initRequestId :: "int option"
  ready :: ready_state
  waiters :: "waiter list"
  rpcPromises :: "int \<rightharpoonup> outcome"
  calls :: "(string \<times> outcome) list"
  model :: string
  sandbox :: string
  approvalPolicy :: string

section \<open>Sending, emitting, settling\<close>

definition send :: "jsval \<Rightarrow> state \<Rightarrow> error + state" where
  "send message st =
     (if \<not> writable st then Inl (Error ''codex app-server stdin is not writable'')
      else Inr (st\<lparr>sent := sent st @ [message]\<rparr>))"

definition emitEvent :: "TransportEvent \<Rightarrow> state \<Rightarrow> state" where
  "emitEvent event st = st\<lparr>events := events st @ [event]\<rparr>"

text \<open>Settling the promise of a public call; a promise that is settled stays as it is.\<close>

definition settle :: "nat \<Rightarrow> outcome \<Rightarrow> state \<Rightarrow> state" where
  "settle h out st =
     (if h < length (calls st) \<and> snd (calls st ! h) = Pending
      then st\<lparr>calls := (calls st)[h := (fst (calls st ! h), out)]\<rparr>
      else st)"

definition new_call :: "string \<Rightarrow> state \<Rightarrow> state" where
  "new_call name st = st\<lparr>calls := calls st @ [(name, Pending)]\<rparr>"

definition resolveSessionId :: "state \<Rightarrow> jsval \<Rightarrow> jsval \<Rightarrow> jsval" where
  "resolveSessionId st threadId turnId =
     (case (if truthy threadId then threadContexts st threadId else None) of
        Some c \<Rightarrow> sessionId c
      | None \<Rightarrow>
          (case (if truthy turnId then turnToThread st turnId else None) of
             Some thread \<Rightarrow>
               (case (if truthy thread then threadContexts st thread else None) of
                  Some c \<Rightarrow> sessionId c
                | None \<Rightarrow> nc thread turnId)
           | None \<Rightarrow> nc threadId (nc turnId (JStr ''unknown''))))"

definition emitThreadStarted :: "jsval \<Rightarrow> state \<Rightarrow> state" where
  "emitThreadStarted threadId st =
     (if threadId \<in> seenThreads st then st
      else
        (let st1 = st\<lparr>seenThreads := insert threadId (seenThreads st)\<rparr>;
             sid = resolveSessionId st1 threadId JUndefined
         in emitEvent \<lparr>ev_type = ''thread.started'', ev_sessionId = sid, ev_turnId = JUndefined,
                        ev_payload = Payload (JObj [(''threadId'', threadId)])\<rparr> st1))"

definition flushThreadNotification :: "jsval \<Rightarrow> state \<Rightarrow> state" where
  "flushThreadNotification threadId st =
     (if threadId \<in> pendingThreadNotifications st
      then emitThreadStarted threadId
             (st\<lparr>pendingThreadNotifications := pendingThreadNotifications st - {threadId}\<rparr>)
      else st)"

section \<open>Correlated calls\<close>

text \<open>\<^verbatim>\<open>rpc\<close>: the frame \<open>k\<close> awaits the promise. When \<^verbatim>\<open>send\<close> throws, the id is
  spent and no promise exists: the caller gets the error.\<close>

definition rpc :: "string \<Rightarrow> jsval \<Rightarrow> continuation \<Rightarrow> state \<Rightarrow> error option \<times> state" where
  "rpc method params k st =
     (let i = nextId st; st1 = st\<lparr>nextId := i + 1\<rparr>
      in case send (JObj [(''method'', JStr method), (''id'', JNum i), (''params'', params)]) st1 of
           Inl e \<Rightarrow> (Some e, st1)
         | Inr st2 \<Rightarrow>
             (None, st2\<lparr>pendingRequests :=
                           AList.update i \<lparr>pr_method = method, awaiting = k\<rparr> (pendingRequests st2),
                         rpcPromises := (rpcPromises st2)(i \<mapsto> Pending)\<rparr>))"

text \<open>
  The rest of each method after \<^verbatim>\<open>await this.rpc(...)\<close>, run when the promise settles.
  The handler that settles the promise (\<^verbatim>\<open>handleResponse\<close>, \<^verbatim>\<open>failAll\<close>) does nothing
  afterwards that the frame reads or writes, so the frame runs at the point of the settle.
  Node runs the frame as a microtask: lines that arrive in the same chunk as the
  response are handled before it. A run of the model takes the response where the
  frame runs.
\<close>

fun resume :: "continuation \<Rightarrow> error + jsval \<Rightarrow> state \<Rightarrow> state" where
  "resume (CreateThreadK h context) (Inl e) st = settle h (Rejected e) st"
| "resume (CreateThreadK h context) (Inr result) st =
     (let threadId = field (field result ''thread'') ''id''
      in if \<not> truthy threadId
         then settle h (Rejected (Error ''thread/start did not return a thread id'')) st
         else
           (let sid = (case ctx_sessionId context of Some s \<Rightarrow> JStr s | None \<Rightarrow> threadId);
                st1 = st\<lparr>threadContexts := (threadContexts st)
                           (threadId \<mapsto> \<lparr>sessionId = sid, cwd = workspaceRoot context\<rparr>)\<rparr>;
                st2 = flushThreadNotification threadId st1;
                st3 = emitThreadStarted threadId st2
            in settle h (Resolved threadId) st3))"
| "resume (SendUserMessageK h threadId) (Inl e) st = settle h (Rejected e) st"
| "resume (SendUserMessageK h threadId) (Inr result) st =
     (let turnId = field (field result ''turn'') ''id''
      in if \<not> truthy turnId
         then settle h (Rejected (Error ''turn/start did not return a turn id'')) st
         else settle h (Resolved turnId)
                (st\<lparr>turnToThread := (turnToThread st)(turnId \<mapsto> JStr threadId)\<rparr>))"
| "resume (CancelK h) r st = settle h (Resolved JUndefined) st"
| "resume (RespondApprovalK h) r st = settle h (Resolved JUndefined) st"

section \<open>Public operations\<close>

text \<open>
  Each public method is called from a task of its own. \<open>new_call\<close> is the promise it
  returns, at position \<open>length (calls st)\<close>. A method that awaits \<^verbatim>\<open>this.ready\<close> goes on
  at once when the promise is resolved, rejects with its error when it is rejected, and
  waits otherwise.
\<close>

definition createThread_body :: "nat \<Rightarrow> WorkspaceContext \<Rightarrow> state \<Rightarrow> state" where
  "createThread_body h context st =
     (case rpc ''thread/start''
             (JObj [(''model'', JStr (model st)), (''cwd'', JStr (workspaceRoot context)),
                    (''approvalPolicy'', JStr (approvalPolicy st)), (''sandbox'', JStr (sandbox st))])
             (CreateThreadK h context) st of
        (Some e, st') \<Rightarrow> settle h (Rejected e) st'
      | (None, st') \<Rightarrow> st')"

definition sendUserMessage_body :: "nat \<Rightarrow> string \<Rightarrow> string \<Rightarrow> string list option \<Rightarrow> state \<Rightarrow> state" where
  "sendUserMessage_body h threadId text attachments st =
     (let context = threadContexts st (JStr threadId);
          input = JObj [(''type'', JStr ''text''), (''text'', JStr text)] #
                  (case attachments of
                     None \<Rightarrow> []
                   | Some paths \<Rightarrow> map (\<lambda>p. JObj [(''type'', JStr ''file''), (''path'', JStr p)]) paths)
      in case rpc ''turn/start''
                (JObj [(''threadId'', JStr threadId),
                       (''cwd'', (case context of Some c \<Rightarrow> JStr (cwd c) | None \<Rightarrow> JUndefined)),
                       (''input'', JArr input)])
                (SendUserMessageK h threadId) st of
           (Some e, st') \<Rightarrow> settle h (Rejected e) st'
         | (None, st') \<Rightarrow> st')"

text \<open>The \<^verbatim>\<open>try\<close> of \<^verbatim>\<open>cancel\<close> holds the call of \<^verbatim>\<open>rpc\<close> and the \<^verbatim>\<open>await\<close> of its promise.\<close>

definition cancel_body :: "nat \<Rightarrow> string \<Rightarrow> state \<Rightarrow> state" where
  "cancel_body h targetId st =
     (case rpc ''turn/cancel'' (JObj [(''turnId'', JStr targetId)]) (CancelK h) st of
        (Some e, st') \<Rightarrow> settle h (Resolved JUndefined) st'
      | (None, st') \<Rightarrow> st')"

definition await_ready :: "nat \<Rightarrow> waiter \<Rightarrow> (state \<Rightarrow> state) \<Rightarrow> state \<Rightarrow> state" where
  "await_ready h w body st =
     (case ready st of
        ReadyPending \<Rightarrow> st\<lparr>waiters := waiters st @ [w]\<rparr>
      | ReadyRejected e \<Rightarrow> settle h (Rejected e) st
      | ReadyResolved \<Rightarrow> body st)"

definition createThread :: "WorkspaceContext \<Rightarrow> state \<Rightarrow> state" where
  "createThread context st =
     (let h = length (calls st)
      in await_ready h (CreateThreadW h context) (createThread_body h context)
           (new_call ''createThread'' st))"

definition sendUserMessage :: "string \<Rightarrow> string \<Rightarrow> string list option \<Rightarrow> state \<Rightarrow> state" where
  "sendUserMessage threadId text attachments st =
     (let h = length (calls st)
      in await_ready h (SendUserMessageW h threadId text attachments)
           (sendUserMessage_body h threadId text attachments)
           (new_call ''sendUserMessage'' st))"

definition cancel :: "string \<Rightarrow> state \<Rightarrow> state" where
  "cancel targetId st =
     (let h = length (calls st)
      in await_ready h (CancelW h targetId) (cancel_body h targetId) (new_call ''cancel'' st))"

text \<open>\<^verbatim>\<open>respondApproval\<close> does not await readiness. The responder of a request-backed
  ticket is \<^verbatim>\<open>send({ id: requestId, result: { decision } })\<close>; when it throws, the method
  rejects before the ticket is deleted.\<close>

definition respondApproval :: "string \<Rightarrow> ApprovalDecision \<Rightarrow> state \<Rightarrow> state" where
  "respondApproval approvalId decision st0 =
     (let h = length (calls st0); st = new_call ''respondApproval'' st0
      in case pendingApprovals st approvalId of
           Some requestId \<Rightarrow>
             (case send (JObj [(''id'', requestId),
                               (''result'', JObj [(''decision'', JStr (mapDecision decision))])]) st of
                Inl e \<Rightarrow> settle h (Rejected e) st
              | Inr st1 \<Rightarrow>
                  settle h (Resolved JUndefined)
                    (st1\<lparr>pendingApprovals := (pendingApprovals st1)(approvalId := None)\<rparr>))
         | None \<Rightarrow>
             (case pendingNotificationApprovals st approvalId of
                Some notification \<Rightarrow>
                  (case rpc ''approval/respond''
                          (JObj [(''approvalId'', JStr approvalId),
                                 (''decision'', JStr (mapDecision decision))])
                          (RespondApprovalK h) st of
                     (Some e, st') \<Rightarrow> settle h (Resolved JUndefined) st'
                   | (None, st') \<Rightarrow> st')
              | None \<Rightarrow> settle h (Resolved JUndefined) st))"

section \<open>Readiness and failure\<close>

fun run_waiter :: "waiter \<Rightarrow> state \<Rightarrow> state" where
  "run_waiter (CreateThreadW h context) st = createThread_body h context st"
| "run_waiter (SendUserMessageW h threadId text attachments) st =
     sendUserMessage_body h threadId text attachments st"
| "run_waiter (CancelW h targetId) st = cancel_body h targetId st"

fun waiter_call :: "waiter \<Rightarrow> nat" where
  "waiter_call (CreateThreadW h context) = h"
| "waiter_call (SendUserMessageW h threadId text attachments) = h"
| "waiter_call (CancelW h targetId) = h"

text \<open>\<^verbatim>\<open>readyResolve\<close> and \<^verbatim>\<open>readyReject\<close> settle \<^verbatim>\<open>this.ready\<close> once; the frames that
  await it go on in the order in which they began to wait.\<close>

definition readyResolve :: "state \<Rightarrow> state" where
  "readyResolve st =
     (if ready st = ReadyPending
      then fold run_waiter (waiters st) (st\<lparr>ready := ReadyResolved, waiters := []\<rparr>)
      else st)"

definition readyReject :: "error \<Rightarrow> state \<Rightarrow> state" where
  "readyReject e st =
     (if ready st = ReadyPending
      then fold (\<lambda>w. settle (waiter_call w) (Rejected e)) (waiters st)
             (st\<lparr>ready := ReadyRejected e, waiters := []\<rparr>)
      else st)"

definition reject_pending :: "error \<Rightarrow> int \<times> PendingRequest \<Rightarrow> state \<Rightarrow> state" where
  "reject_pending e p st =
     resume (awaiting (snd p)) (Inl e)
       (st\<lparr>rpcPromises := (rpcPromises st)(fst p \<mapsto> Rejected e)\<rparr>)"

definition failAll :: "error \<Rightarrow> state \<Rightarrow> state" where
  "failAll e st =
     (let st1 = readyReject e st;
          st2 = fold (reject_pending e) (pendingRequests st1) st1
      in st2\<lparr>pendingRequests := []\<rparr>)"

text \<open>The handler of the process's \<^verbatim>\<open>exit\<close> event, and of its \<^verbatim>\<open>error\<close> event.\<close>

definition exit_message :: "int option \<Rightarrow> string option \<Rightarrow> string" where
  "exit_message code signal =
     ''codex app-server exited (code='' @ (case code of Some c \<Rightarrow> number_to_string c | None \<Rightarrow> ''?'')
       @ '' signal='' @ (case signal of Some s \<Rightarrow> s | None \<Rightarrow> ''?'') @ '')''"

definition on_exit :: "int option \<Rightarrow> string option \<Rightarrow> state \<Rightarrow> state" where
  "on_exit code signal st =
     (let message = exit_message code signal
      in emitEvent \<lparr>ev_type = ''error'', ev_sessionId = JStr ''unknown'', ev_turnId = JStr ''unknown'',
                     ev_payload = Payload (JObj [(''message'', JStr message), (''recoverable'', JBool True)])\<rparr>
           (failAll (Error message) st))"

definition on_error :: "string \<Rightarrow> state \<Rightarrow> state" where
  "on_error message st = failAll (Error message) st"

section \<open>Inbound messages\<close>

text \<open>\<^verbatim>\<open>this.initRequestId === msg.id\<close>: a number against the id of the message, and
  \<^verbatim>\<open>null\<close> against it once the handshake is over.\<close>

definition is_init_id :: "int option \<Rightarrow> jsval \<Rightarrow> bool" where
  "is_init_id i v = (case i of Some n \<Rightarrow> v = JNum n | None \<Rightarrow> v = JNull)"

text \<open>\<^verbatim>\<open>new Error(msg.error?.message ?? fallback)\<close>\<close>

definition response_error :: "jsval \<Rightarrow> string \<Rightarrow> error" where
  "response_error msg fallback =
     Error (js_String (nc (field (field msg ''error'') ''message'') (JStr fallback)))"

text \<open>\<^verbatim>\<open>this.pendingRequests.get(msg.id)\<close>: the keys are numbers.\<close>

definition lookup_pending :: "state \<Rightarrow> jsval \<Rightarrow> (int \<times> PendingRequest) option" where
  "lookup_pending st v =
     (case v of
        JNum n \<Rightarrow> (case map_of (pendingRequests st) n of Some p \<Rightarrow> Some (n, p) | None \<Rightarrow> None)
      | _ \<Rightarrow> None)"

definition handleResponse :: "jsval \<Rightarrow> state \<Rightarrow> error + state" where
  "handleResponse msg st =
     (if is_init_id (initRequestId st) (field msg ''id'')
      then
        (if truthy (field msg ''error'')
         then Inr (readyReject (response_error msg ''initialize failed'') st)
         else
           (case send (JObj [(''method'', JStr ''initialized''), (''params'', JObj [])]) st of
              Inl e \<Rightarrow> Inl e
            | Inr st1 \<Rightarrow> Inr ((readyResolve st1)\<lparr>initRequestId := None\<rparr>)))
      else
        (case lookup_pending st (field msg ''id'') of
           None \<Rightarrow> Inr st
         | Some (n, pending) \<Rightarrow>
             (let st1 = st\<lparr>pendingRequests := AList.delete n (pendingRequests st)\<rparr>
              in if truthy (field msg ''error'')
                 then
                   (let e = response_error msg (''RPC error: '' @ pr_method pending)
                    in Inr (resume (awaiting pending) (Inl e)
                              (st1\<lparr>rpcPromises := (rpcPromises st1)(n \<mapsto> Rejected e)\<rparr>)))
                 else
                   Inr (resume (awaiting pending) (Inr (field msg ''result''))
                          (st1\<lparr>rpcPromises := (rpcPromises st1)(n \<mapsto> Resolved (field msg ''result''))\<rparr>)))))"

text \<open>\<^verbatim>\<open>emitApprovalRequest\<close>; \<open>now\<close> is \<^verbatim>\<open>Date.now()\<close>.\<close>

definition emitApprovalRequest :: "int \<Rightarrow> string \<Rightarrow> jsval \<Rightarrow> jsval \<Rightarrow> state \<Rightarrow> state" where
  "emitApprovalRequest now method params requestId st =
     (let threadId = resolveThreadId params;
          turnId = nc (resolveTurnId params) (JStr ''unknown'');
          sid = resolveSessionId st threadId turnId;
          extracted = extractApprovalId params;
          generate = (\<not> truthy requestId \<and> nullish extracted);
          approvalId =
            (if truthy requestId then js_String requestId
             else if nullish extracted
             then ''approval_'' @ number_to_string now @ ''_'' @ number_to_string (nextId st)
             else js_String extracted);
          st1 = (if generate then st\<lparr>nextId := nextId st + 1\<rparr> else st);
          kind = (if includes_str method ''commandExecution'' then ''command'' else ''file_write'');
          title = (if kind = ''command'' then ''Approve command?'' else ''Approve file edits?'');
          command = extractCommand params;
          details = JObj ([(''method'', JStr method), (''params'', params)] @
                          (if truthy command then [(''command'', command)] else []));
          approval = \<lparr>ap_id = approvalId, ap_sessionId = sid, ap_turnId = turnId, ap_kind = kind,
                       ap_title = title, ap_riskLevel = ''med'', ap_details = details,
                       ap_status = ''pending'', codexApprovalId = approvalId,
                       respond = (if truthy requestId then Some requestId else None)\<rparr>;
          st2 = (if truthy requestId
                 then st1\<lparr>pendingApprovals := (pendingApprovals st1)(approvalId \<mapsto> requestId)\<rparr>
                 else st1\<lparr>pendingNotificationApprovals :=
                            (pendingNotificationApprovals st1)(approvalId \<mapsto> (method, params))\<rparr>)
      in emitEvent \<lparr>ev_type = ''approval.request'', ev_sessionId = sid, ev_turnId = turnId,
                     ev_payload = ApprovalPayload approval\<rparr> st2)"

definition handleServerRequest :: "int \<Rightarrow> jsval \<Rightarrow> state \<Rightarrow> error + state" where
  "handleServerRequest now msg st =
     (let method = js_String (field msg ''method'');
          params = nc (field msg ''params'') (JObj []);
          isApproval = includes_str method ''requestApproval''
      in if isApproval then Inr (emitApprovalRequest now method params (field msg ''id'') st)
         else send (JObj [(''id'', field msg ''id''),
                          (''error'', JObj [(''code'', JNum (- 32000)),
                                            (''message'', JStr (''Unhandled request: '' @ method))])]) st)"

text \<open>\<^verbatim>\<open>String(msg.call_id ?? msg.callId ?? "")\<close>\<close>

definition call_id_of :: "jsval \<Rightarrow> string" where
  "call_id_of msg = js_String (nc (field msg ''call_id'') (nc (field msg ''callId'') (JStr [])))"

text \<open>The thread id and the turn id of a low-level event, as the first lines of
  \<^verbatim>\<open>handleCodexEvent\<close> read them.\<close>

definition event_msg :: "jsval \<Rightarrow> jsval" where
  "event_msg params = nc (field params ''msg'') (JObj [])"

definition event_threadId :: "jsval \<Rightarrow> jsval" where
  "event_threadId params = nc (resolveThreadId params) (resolveThreadId (event_msg params))"

definition event_turnId :: "jsval \<Rightarrow> jsval" where
  "event_turnId params =
     nc (resolveTurnId params)
        (nc (resolveTurnId (event_msg params)) (JStr (js_String (nc (field params ''id'') (JStr [])))))"

text \<open>The branches of \<^verbatim>\<open>handleCodexEvent\<close>, one definition each; \<open>msg\<close>, \<open>threadId\<close>
  and \<open>turnId\<close> are the locals of the function.\<close>

definition exec_command_begin :: "jsval \<Rightarrow> jsval \<Rightarrow> jsval \<Rightarrow> state \<Rightarrow> state" where
  "exec_command_begin msg threadId turnId st =
     (let callId = call_id_of msg;
          command = normalizeCommand
                      (nc (field msg ''command'') (nc (field msg ''parsed_cmd'') (field msg ''parsedCmd'')));
          st1 = st\<lparr>commandExecutions := (commandExecutions st)
                     (callId \<mapsto> \<lparr>ce_threadId = threadId, ce_turnId = turnId, ce_command = command,
                                 ce_cwd = (if truthy (field msg ''cwd'')
                                           then JStr (js_String (field msg ''cwd''))
                                           else JUndefined)\<rparr>)\<rparr>
      in emitEvent
           \<lparr>ev_type = ''item.started'', ev_sessionId = resolveSessionId st1 threadId turnId,
            ev_turnId = turnId,
            ev_payload = Payload (JObj
              [(''threadId'', threadId),
               (''item'', JObj [(''type'', JStr ''commandExecution''), (''id'', JStr callId),
                                (''command'', command),
                                (''cwd'', nc (field msg ''cwd'') JUndefined),
                                (''status'', JStr ''inProgress'')])])\<rparr> st1)"

definition exec_command_output_delta ::
  "(string \<Rightarrow> string) \<Rightarrow> jsval \<Rightarrow> jsval \<Rightarrow> jsval \<Rightarrow> state \<Rightarrow> state" where
  "exec_command_output_delta dec msg threadId turnId st =
     (let callId = call_id_of msg;
          chunk = (case field msg ''chunk'' of JStr s \<Rightarrow> s | _ \<Rightarrow> []);
          delta = decodeChunk dec chunk;
          context = commandExecutions st callId;
          resolvedThreadId = (case context of Some c \<Rightarrow> nc (ce_threadId c) threadId | None \<Rightarrow> threadId);
          resolvedTurnId = (case context of Some c \<Rightarrow> nc (ce_turnId c) turnId | None \<Rightarrow> turnId)
      in if delta = [] then st
         else emitEvent
           \<lparr>ev_type = ''item.delta'',
            ev_sessionId = resolveSessionId st resolvedThreadId resolvedTurnId,
            ev_turnId = resolvedTurnId,
            ev_payload = Payload (JObj
              [(''threadId'', resolvedThreadId), (''itemId'', JStr callId),
               (''kind'', JStr ''commandOutput''), (''delta'', JStr delta)])\<rparr> st)"

definition exec_command_end :: "jsval \<Rightarrow> jsval \<Rightarrow> jsval \<Rightarrow> state \<Rightarrow> state" where
  "exec_command_end msg threadId turnId st =
     (let callId = call_id_of msg;
          context = commandExecutions st callId;
          st1 = st\<lparr>commandExecutions := (commandExecutions st)(callId := None)\<rparr>;
          resolvedThreadId = (case context of Some c \<Rightarrow> nc (ce_threadId c) threadId | None \<Rightarrow> threadId);
          resolvedTurnId = (case context of Some c \<Rightarrow> nc (ce_turnId c) turnId | None \<Rightarrow> turnId)
      in emitEvent
           \<lparr>ev_type = ''item.completed'',
            ev_sessionId = resolveSessionId st1 resolvedThreadId resolvedTurnId,
            ev_turnId = resolvedTurnId,
            ev_payload = Payload (JObj
              [(''threadId'', resolvedThreadId),
               (''item'', JObj [(''type'', JStr ''commandExecution''), (''id'', JStr callId),
                                (''exitCode'', nc (field msg ''exit_code'') (nc (field msg ''exitCode'') JUndefined)),
                                (''durationMs'', nc (field msg ''duration_ms'') (nc (field msg ''durationMs'') JUndefined))])])\<rparr>
           st1)"

definition agent_message_delta :: "jsval \<Rightarrow> jsval \<Rightarrow> jsval \<Rightarrow> state \<Rightarrow> state" where
  "agent_message_delta msg threadId turnId st =
     (let delta = js_String (nc (field msg ''delta'') (nc (field msg ''content'') (nc (field msg ''text'') (JStr []))))
      in if delta = [] then st
         else emitEvent
           \<lparr>ev_type = ''item.delta'', ev_sessionId = resolveSessionId st threadId turnId,
            ev_turnId = turnId,
            ev_payload = Payload (JObj
              [(''threadId'', threadId), (''kind'', JStr ''agentMessage''), (''delta'', JStr delta)])\<rparr> st)"

definition handleCodexEvent :: "(string \<Rightarrow> string) \<Rightarrow> string \<Rightarrow> jsval \<Rightarrow> state \<Rightarrow> state" where
  "handleCodexEvent dec method params st =
     (let msg = event_msg params;
          threadId = event_threadId params;
          turnId = event_turnId params
      in if \<not> truthy threadId \<or> \<not> truthy turnId then st
         else if method = ''codex/event/exec_command_begin''
         then exec_command_begin msg threadId turnId st
         else if method = ''codex/event/exec_command_output_delta''
         then exec_command_output_delta dec msg threadId turnId st
         else if method = ''codex/event/exec_command_end''
         then exec_command_end msg threadId turnId st
         else if method = ''codex/event/agent_message_content_delta''
                 \<or> method = ''codex/event/agent_message_delta''
         then agent_message_delta msg threadId turnId st
         else st)"

text \<open>The branches of \<^verbatim>\<open>handleNotification\<close>, one definition each.\<close>

definition on_thread_started :: "jsval \<Rightarrow> state \<Rightarrow> state" where
  "on_thread_started params st =
     (let threadId = field (field params ''thread'') ''id''
      in if \<not> truthy threadId then st
         else if threadContexts st threadId = None
         then st\<lparr>pendingThreadNotifications := insert threadId (pendingThreadNotifications st)\<rparr>
         else emitThreadStarted threadId st)"

definition on_turn_started :: "jsval \<Rightarrow> state \<Rightarrow> state" where
  "on_turn_started params st =
     (let threadId = field params ''threadId'';
          turnId = field (field params ''turn'') ''id''
      in if \<not> truthy threadId \<or> \<not> truthy turnId then st
         else
           (let st1 = st\<lparr>turnToThread := (turnToThread st)(turnId \<mapsto> threadId)\<rparr>
            in emitEvent
                 \<lparr>ev_type = ''turn.started'', ev_sessionId = resolveSessionId st1 threadId JUndefined,
                  ev_turnId = turnId,
                  ev_payload = Payload (JObj [(''threadId'', threadId)])\<rparr> st1))"

definition on_turn_completed :: "jsval \<Rightarrow> state \<Rightarrow> state" where
  "on_turn_completed params st =
     (let threadId = field params ''threadId'';
          turn = field params ''turn''
      in if \<not> truthy threadId \<or> \<not> truthy (field turn ''id'') then st
         else emitEvent
                \<lparr>ev_type = ''turn.completed'', ev_sessionId = resolveSessionId st threadId JUndefined,
                 ev_turnId = JStr (js_String (field turn ''id'')),
                 ev_payload = Payload (JObj
                   [(''threadId'', threadId), (''status'', field turn ''status''),
                    (''error'', nc (field turn ''error'') JUndefined)])\<rparr> st)"

definition on_item :: "string \<Rightarrow> jsval \<Rightarrow> state \<Rightarrow> state" where
  "on_item method params st =
     (let threadId = field params ''threadId'';
          turnId = field params ''turnId'';
          item = field params ''item''
      in if \<not> truthy threadId \<or> \<not> truthy turnId \<or> \<not> truthy item then st
         else
           (let itemId = field item ''id'';
                st1 = (if method = ''item/completed'' \<and> field item ''type'' = JStr ''agentMessage''
                          \<and> truthy itemId \<and> agentMessageBuffers st itemId \<noteq> None
                       then st\<lparr>agentMessageBuffers := (agentMessageBuffers st)(itemId := None)\<rparr>
                       else st)
            in emitEvent
                 \<lparr>ev_type = (if method = ''item/started'' then ''item.started'' else ''item.completed''),
                  ev_sessionId = resolveSessionId st1 threadId JUndefined,
                  ev_turnId = turnId,
                  ev_payload = Payload (JObj [(''threadId'', threadId), (''item'', item)])\<rparr> st1))"

definition on_agent_message_delta :: "jsval \<Rightarrow> state \<Rightarrow> state" where
  "on_agent_message_delta params st =
     (let threadId = field params ''threadId'';
          turnId = field params ''turnId'';
          itemId = field params ''itemId'';
          delta = field params ''delta''
      in if \<not> truthy threadId \<or> \<not> truthy turnId \<or> \<not> truthy delta then st
         else
           (let st1 = (if truthy itemId
                       then st\<lparr>agentMessageBuffers := (agentMessageBuffers st)
                                (itemId \<mapsto> (case agentMessageBuffers st itemId of
                                               Some current \<Rightarrow> current | None \<Rightarrow> [])
                                            @ js_String delta)\<rparr>
                       else st)
            in emitEvent
                 \<lparr>ev_type = ''item.delta'', ev_sessionId = resolveSessionId st1 threadId JUndefined,
                  ev_turnId = turnId,
                  ev_payload = Payload (JObj
                    [(''threadId'', threadId), (''itemId'', itemId),
                     (''kind'', JStr ''agentMessage''), (''delta'', delta)])\<rparr> st1))"

definition on_command_output_delta :: "jsval \<Rightarrow> state \<Rightarrow> state" where
  "on_command_output_delta params st =
     (let threadId = field params ''threadId'';
          turnId = field params ''turnId'';
          itemId = field params ''itemId'';
          delta = field params ''delta''
      in if \<not> truthy threadId \<or> \<not> truthy turnId \<or> \<not> truthy delta then st
         else emitEvent
                \<lparr>ev_type = ''item.delta'', ev_sessionId = resolveSessionId st threadId JUndefined,
                 ev_turnId = turnId,
                 ev_payload = Payload (JObj
                   [(''threadId'', threadId), (''itemId'', itemId),
                    (''kind'', JStr ''commandOutput''), (''delta'', delta)])\<rparr> st)"

definition on_reasoning_summary_delta :: "jsval \<Rightarrow> state \<Rightarrow> state" where
  "on_reasoning_summary_delta params st =
     (let threadId = field params ''threadId'';
          turnId = field params ''turnId'';
          itemId = field params ''itemId'';
          delta = field params ''delta'';
          summaryIndex = field params ''summaryIndex''
      in if \<not> truthy threadId \<or> \<not> truthy turnId \<or> \<not> truthy delta then st
         else emitEvent
                \<lparr>ev_type = ''item.delta'', ev_sessionId = resolveSessionId st threadId JUndefined,
                 ev_turnId = turnId,
                 ev_payload = Payload (JObj
                   [(''threadId'', threadId), (''itemId'', itemId),
                    (''kind'', JStr ''reasoningSummary''), (''delta'', delta),
                    (''summaryIndex'', summaryIndex)])\<rparr> st)"

definition handleNotification :: "(string \<Rightarrow> string) \<Rightarrow> int \<Rightarrow> string \<Rightarrow> jsval \<Rightarrow> state \<Rightarrow> state" where
  "handleNotification dec now method params st =
     (if startsWith method ''codex/event/'' then handleCodexEvent dec method params st
      else if method = ''thread/started'' then on_thread_started params st
      else if method = ''turn/started'' then on_turn_started params st
      else if method = ''turn/completed'' then on_turn_completed params st
      else if method = ''item/started'' \<or> method = ''item/completed'' then on_item method params st
      else if method = ''item/agentMessage/delta'' then on_agent_message_delta params st
      else if method = ''item/commandExecution/outputDelta'' then on_command_output_delta params st
      else if method = ''item/reasoning/summaryTextDelta'' then on_reasoning_summary_delta params st
      else if method = ''item/commandExecution/requestApproval''
              \<or> method = ''item/fileChange/requestApproval''
      then emitApprovalRequest now method params JUndefined st
      else st)"

text \<open>\<^verbatim>\<open>handleLine\<close>, on the parsed line: \<open>None\<close> is a line that \<^verbatim>\<open>JSON.parse\<close> rejects.
  Reading a property of \<^verbatim>\<open>null\<close> throws, and so does \<^verbatim>\<open>method.startsWith\<close> when
  the method of a notification is not a string. A handler that throws has not
  changed the state.\<close>

definition handleLine :: "(string \<Rightarrow> string) \<Rightarrow> int \<Rightarrow> jsval option \<Rightarrow> state \<Rightarrow> error + state" where
  "handleLine dec now line st =
     (case line of
        None \<Rightarrow> Inr st
      | Some msg \<Rightarrow>
          if nullish msg then Inl (TypeError ''Cannot read properties of null'')
          else if truthy (field msg ''method'') \<and> field msg ''id'' \<noteq> JUndefined
          then handleServerRequest now msg st
          else if field msg ''id'' \<noteq> JUndefined then handleResponse msg st
          else if truthy (field msg ''method'') then
            (case field msg ''method'' of
               JStr method \<Rightarrow>
                 Inr (handleNotification dec now method (nc (field msg ''params'') (JObj [])) st)
             | _ \<Rightarrow> Inl (TypeError ''method.startsWith is not a function''))
          else Inr st)"

section \<open>Construction and runs\<close>

definition startHandshake :: "state \<Rightarrow> error + state" where
  "startHandshake st =
     (let i = nextId st; st1 = st\<lparr>nextId := i + 1, initRequestId := Some i\<rparr>
      in send (JObj [(''method'', JStr ''initialize''), (''id'', JNum i),
                     (''params'', JObj [(''clientInfo'',
                        JObj [(''name'', JStr ''sidekick''), (''title'', JStr ''Sidekick''),
                              (''version'', JStr ''0.1.0'')])])]) st1)"

text \<open>The constructor; \<open>w\<close> says whether the standard input of the spawned process can
  be written to. When the handshake cannot be sent, the constructor throws.\<close>

definition construct :: "CodexTransportOptions \<Rightarrow> bool \<Rightarrow> error + state" where
  "construct options w =
     startHandshake
       \<lparr>writable = w, sent = [], events = [], pendingRequests = [],
        pendingApprovals = Map.empty, threadContexts = Map.empty, turnToThread = Map.empty,
        pendingThreadNotifications = {}, pendingNotificationApprovals = Map.empty,
        agentMessageBuffers = Map.empty, seenThreads = {}, commandExecutions = Map.empty,
        nextId = 1, initRequestId = None, ready = ReadyPending, waiters = [],
        rpcPromises = Map.empty, calls = [],
        model = (case opt_model options of Some m \<Rightarrow> m | None \<Rightarrow> ''gpt-5.1-codex''),
        sandbox = (case opt_sandbox options of Some m \<Rightarrow> m | None \<Rightarrow> ''workspace-write''),
        approvalPolicy = (case opt_approvalPolicy options of Some m \<Rightarrow> m | None \<Rightarrow> ''on-request'')\<rparr>"

text \<open>
  What can happen to a bridge: a line of the peer arrives (with the reading of the
  clock), the process exits or fails, its input closes or opens, or a public method
  is called. An exception that leaves a line handler leaves the state as it was.
\<close>

datatype input =
    Line int "jsval option"
  | ProcExit "int option" "string option"
  | ProcError string
  | StdinWritable bool
  | CallCreateThread WorkspaceContext
  | CallSendUserMessage string string "string list option"
  | CallCancel string
  | CallRespondApproval string ApprovalDecision

fun step :: "(string \<Rightarrow> string) \<Rightarrow> input \<Rightarrow> state \<Rightarrow> state" where
  "step dec (Line now line) st = (case handleLine dec now line st of Inl e \<Rightarrow> st | Inr st' \<Rightarrow> st')"
| "step dec (ProcExit code signal) st = on_exit code signal st"
| "step dec (ProcError message) st = on_error message st"
| "step dec (StdinWritable w) st = st\<lparr>writable := w\<rparr>"
| "step dec (CallCreateThread context) st = createThread context st"
| "step dec (CallSendUserMessage threadId text attachments) st = sendUserMessage threadId text attachments st"
| "step dec (CallCancel targetId) st = cancel targetId st"
| "step dec (CallRespondApproval approvalId decision) st = respondApproval approvalId decision st"

definition run :: "(string \<Rightarrow> string) \<Rightarrow> input list \<Rightarrow> state \<Rightarrow> state" where
  "run dec ins st = fold (step dec) ins st"

section \<open>Vocabulary of the properties\<close>

text \<open>A property of the payload object of an event.\<close>

definition payload_field :: "TransportEvent \<Rightarrow> string \<Rightarrow> jsval" where
  "payload_field e k = (case ev_payload e of Payload v \<Rightarrow> field v k | ApprovalPayload a \<Rightarrow> JUndefined)"

text \<open>The language of \<^verbatim>\<open>^[A-Za-z0-9+/]+={0,2}$\<close>: one or more characters of the class,
  then at most two \<^verbatim>\<open>=\<close>.\<close>

definition matches_base64_shape :: "string \<Rightarrow> bool" where
  "matches_base64_shape s \<longleftrightarrow>
     (\<exists>body pad. s = body @ pad \<and> body \<noteq> [] \<and> (\<forall>c\<in>set body. base64_char c)
        \<and> (pad = [] \<or> pad = ''='' \<or> pad = ''==''))"

text \<open>A bridge built with no options on a process whose input is open.\<close>

definition default_options :: CodexTransportOptions where
  "default_options = \<lparr>opt_bin = None, opt_model = None, opt_sandbox = None, opt_approvalPolicy = None\<rparr>"

definition initialize_message :: jsval where
  "initialize_message =
     JObj [(''method'', JStr ''initialize''), (''id'', JNum 1),
           (''params'', JObj [(''clientInfo'',
              JObj [(''name'', JStr ''sidekick''), (''title'', JStr ''Sidekick''),
                    (''version'', JStr ''0.1.0'')])])]"

definition fresh_state :: state where
  "fresh_state =
     \<lparr>writable = True, sent = [initialize_message], events = [], pendingRequests = [],
      pendingApprovals = Map.empty, threadContexts = Map.empty, turnToThread = Map.empty,
      pendingThreadNotifications = {}, pendingNotificationApprovals = Map.empty,
      agentMessageBuffers = Map.empty, seenThreads = {}, commandExecutions = Map.empty,
      nextId = 2, initRequestId = Some 1, ready = ReadyPending, waiters = [],
      rpcPromises = Map.empty, calls = [],
      model = ''gpt-5.1-codex'', sandbox = ''workspace-write'', approvalPolicy = ''on-request''\<rparr>"

text \<open>The precedence of the specification for the session id of an event. A thread that
  has no recorded session stands for itself, as in \<^verbatim>\<open>createThread\<close>, where the session
  of a thread is \<^verbatim>\<open>context.sessionId ?? threadId\<close>.\<close>

definition spec_resolveSessionId :: "state \<Rightarrow> jsval \<Rightarrow> jsval \<Rightarrow> jsval" where
  "spec_resolveSessionId st threadId turnId =
     (case threadContexts st threadId of
        Some c \<Rightarrow> sessionId c
      | None \<Rightarrow>
          (case turnToThread st turnId of
             Some owner \<Rightarrow> (case threadContexts st owner of Some c \<Rightarrow> sessionId c | None \<Rightarrow> owner)
           | None \<Rightarrow>
               if \<not> nullish threadId then threadId
               else if \<not> nullish turnId then turnId
               else JStr ''unknown''))"

text \<open>The keys of the two tables are truthy, and no turn is owned by null or undefined.\<close>

definition ids_ok :: "state \<Rightarrow> bool" where
  "ids_ok st \<longleftrightarrow>
     (\<forall>k. threadContexts st k \<noteq> None \<longrightarrow> truthy k)
     \<and> (\<forall>k v. turnToThread st k = Some v \<longrightarrow> truthy k \<and> \<not> nullish v)"

text \<open>The \<^verbatim>\<open>thread.started\<close> event of a thread, and how often it has been emitted.\<close>

definition thread_started_event :: "jsval \<Rightarrow> TransportEvent \<Rightarrow> bool" where
  "thread_started_event t e \<longleftrightarrow>
     ev_type e = ''thread.started'' \<and> ev_payload e = Payload (JObj [(''threadId'', t)])"

definition started_count :: "state \<Rightarrow> jsval \<Rightarrow> nat" where
  "started_count st t = length (filter (thread_started_event t) (events st))"

definition counts_ok :: "state \<Rightarrow> bool" where
  "counts_ok st \<longleftrightarrow>
     (\<forall>t. started_count st t = (if t \<in> seenThreads st then 1 else 0))
     \<and> (\<forall>e\<in>set (events st). ev_type e = ''thread.started'' \<longrightarrow> (\<exists>t. thread_started_event t e))"

definition started_ok :: "state \<Rightarrow> bool" where
  "started_ok st \<longleftrightarrow> counts_ok st \<and> dom (threadContexts st) \<subseteq> seenThreads st"

text \<open>Every thread that has been seen has a context: the event of a thread is not
  emitted before \<^verbatim>\<open>createThread\<close> has registered the thread.\<close>

definition seen_ok :: "state \<Rightarrow> bool" where
  "seen_ok st \<longleftrightarrow> seenThreads st \<subseteq> dom (threadContexts st)"

text \<open>A step that emits no \<^verbatim>\<open>thread.started\<close> event and leaves the set of seen threads.\<close>

definition quiet_ext :: "state \<Rightarrow> state \<Rightarrow> bool" where
  "quiet_ext st st' \<longleftrightarrow>
     seenThreads st' = seenThreads st
     \<and> (\<exists>es. events st' = events st @ es \<and> (\<forall>e\<in>set es. ev_type e \<noteq> ''thread.started''))"

text \<open>Inputs and states of the scenarios.\<close>

definition handshake_ok :: input where
  "handshake_ok = Line 0 (Some (JObj [(''id'', JNum 1), (''result'', JObj [(''userAgent'', JObj [])])]))"

definition notification :: "string \<Rightarrow> jsval \<Rightarrow> input" where
  "notification m p = Line 0 (Some (JObj [(''method'', JStr m), (''params'', p)]))"

definition response :: "int \<Rightarrow> jsval \<Rightarrow> input" where
  "response i r = Line 0 (Some (JObj [(''id'', JNum i), (''result'', r)]))"

definition workspace :: WorkspaceContext where
  "workspace = \<lparr>workspaceRoot = ''/w'', workspaceName = None, systemPrompt = None,
                ctx_sessionId = Some ''S1''\<rparr>"

text \<open>The two orders of the creation of a thread.\<close>

definition peer_first :: "input list" where
  "peer_first = [handshake_ok, CallCreateThread workspace,
                 notification ''thread/started'' (JObj [(''thread'', JObj [(''id'', JStr ''T1'')])]),
                 response 2 (JObj [(''thread'', JObj [(''id'', JStr ''T1'')])])]"

definition local_first :: "input list" where
  "local_first = [handshake_ok, CallCreateThread workspace,
                  response 2 (JObj [(''thread'', JObj [(''id'', JStr ''T1'')])]),
                  notification ''thread/started'' (JObj [(''thread'', JObj [(''id'', JStr ''T1'')])])]"

text \<open>Messages, events and states of the scenarios.\<close>

definition error_event :: "string \<Rightarrow> TransportEvent" where
  "error_event message =
     \<lparr>ev_type = ''error'', ev_sessionId = JStr ''unknown'', ev_turnId = JStr ''unknown'',
      ev_payload = Payload (JObj [(''message'', JStr message), (''recoverable'', JBool True)])\<rparr>"

definition two_pending :: state where
  "two_pending = run id [handshake_ok, CallCreateThread workspace,
                         CallSendUserMessage ''T1'' ''hi'' None] fresh_state"

definition initialized_message :: jsval where
  "initialized_message = JObj [(''method'', JStr ''initialized''), (''params'', JObj [])]"

definition approval_respond_message :: "int \<Rightarrow> string \<Rightarrow> string \<Rightarrow> jsval" where
  "approval_respond_message i approvalId decision =
     JObj [(''method'', JStr ''approval/respond''), (''id'', JNum i),
           (''params'', JObj [(''approvalId'', JStr approvalId), (''decision'', JStr decision)])]"

text \<open>Every response with a result that the bridge has sent answers a request whose id
  is truthy, and so does every responder that waits.\<close>

definition resp_ok :: "state \<Rightarrow> bool" where
  "resp_ok st \<longleftrightarrow>
     (\<forall>m\<in>set (sent st). field m ''result'' \<noteq> JUndefined \<longrightarrow> truthy (field m ''id''))
     \<and> (\<forall>k v. pendingApprovals st k = Some v \<longrightarrow> truthy v)"

text \<open>A step that sends no response with a result.\<close>

definition adds_no_result :: "state \<Rightarrow> state \<Rightarrow> bool" where
  "adds_no_result st st' \<longleftrightarrow>
     (\<exists>ms. sent st' = sent st @ ms \<and> (\<forall>m\<in>set ms. field m ''result'' = JUndefined))"

definition approval_twice :: "input list" where
  "approval_twice =
     [handshake_ok,
      notification ''item/commandExecution/requestApproval'' (JObj [(''approvalId'', JStr ''a1'')]),
      CallRespondApproval ''a1'' approve_once,
      CallRespondApproval ''a1'' approve_once]"

definition zero_request :: jsval where
  "zero_request =
     JObj [(''method'', JStr ''item/commandExecution/requestApproval''), (''id'', JNum 0),
           (''params'', JObj [(''command'', JStr ''rm -rf /tmp/x'')])]"

text \<open>A low-level execution: its begin, an output chunk and an end that name another
  thread and turn, and an end that names none.\<close>

definition exec_begin :: jsval where
  "exec_begin = JObj [(''threadId'', JStr ''T1''), (''turnId'', JStr ''u1''),
                      (''msg'', JObj [(''call_id'', JStr ''c1''), (''command'', JArr [JStr ''ls''])])]"

definition exec_output_other :: jsval where
  "exec_output_other = JObj [(''conversationId'', JStr ''T9''), (''id'', JStr ''u9''),
                             (''msg'', JObj [(''call_id'', JStr ''c1''), (''chunk'', JStr ''total 0'')])]"

definition exec_end_other :: jsval where
  "exec_end_other = JObj [(''conversationId'', JStr ''T9''), (''id'', JStr ''u9''),
                          (''msg'', JObj [(''call_id'', JStr ''c1''), (''exit_code'', JNum 0)])]"

definition exec_end_bare :: jsval where
  "exec_end_bare = JObj [(''msg'', JObj [(''call_id'', JStr ''c1''), (''exit_code'', JNum 0)])]"

text \<open>Every execution context holds a thread id and a turn id that are truthy.\<close>

definition exec_ok :: "state \<Rightarrow> bool" where
  "exec_ok st \<longleftrightarrow>
     (\<forall>c x. commandExecutions st c = Some x \<longrightarrow> truthy (ce_threadId x) \<and> truthy (ce_turnId x))"

text \<open>
  Node's \<^verbatim>\<open>Map\<close> and \<^verbatim>\<open>Set\<close> compare keys that are objects or arrays by identity: the
  object of one parsed line is never the key that another line has stored. The tables
  of the model compare values. The two agree on the primitive values, and the ids of
  the protocol are strings; what is stated about a lookup is stated for primitive ids.
\<close>

fun primitive :: "jsval \<Rightarrow> bool" where
  "primitive (JArr xs) = False"
| "primitive (JObj kvs) = False"
| "primitive v = True"

text \<open>The lookups of \<^verbatim>\<open>resolveSessionId\<close> at a thread id and a turn id meet primitive
  values only: the two ids, and the thread that owns the turn when the turn is
  registered.\<close>

definition primitive_lookup :: "state \<Rightarrow> jsval \<Rightarrow> jsval \<Rightarrow> bool" where
  "primitive_lookup st threadId turnId \<longleftrightarrow>
     primitive threadId \<and> primitive turnId
     \<and> (case turnToThread st turnId of Some owner \<Rightarrow> primitive owner | None \<Rightarrow> True)"

text \<open>The thread id and the turn id that the handler of a notification reads from it
  and tests before it does anything else.\<close>

definition notification_threadId :: "string \<Rightarrow> jsval \<Rightarrow> jsval" where
  "notification_threadId method params =
     (if startsWith method ''codex/event/'' then event_threadId params
      else if method = ''thread/started'' then field (field params ''thread'') ''id''
      else field params ''threadId'')"

definition notification_turnId :: "string \<Rightarrow> jsval \<Rightarrow> jsval" where
  "notification_turnId method params =
     (if startsWith method ''codex/event/'' then event_turnId params
      else if method = ''turn/started'' \<or> method = ''turn/completed''
      then field (field params ''turn'') ''id''
      else field params ''turnId'')"

text \<open>The thread id and the turn id with which the event of a notification goes out:
  those its handler has read or, for the output and the end of an execution whose
  begin was seen, those captured at the begin. A \<^verbatim>\<open>thread.started\<close> event has no turn
  id, and the handler of \<^verbatim>\<open>turn/completed\<close> converts the turn id to a string.\<close>

definition emitted_threadId :: "state \<Rightarrow> string \<Rightarrow> jsval \<Rightarrow> jsval" where
  "emitted_threadId st method params =
     (if method = ''codex/event/exec_command_output_delta'' \<or> method = ''codex/event/exec_command_end''
      then (case commandExecutions st (call_id_of (event_msg params)) of
              Some x \<Rightarrow> ce_threadId x
            | None \<Rightarrow> event_threadId params)
      else notification_threadId method params)"

definition emitted_turnId :: "state \<Rightarrow> string \<Rightarrow> jsval \<Rightarrow> jsval" where
  "emitted_turnId st method params =
     (if method = ''codex/event/exec_command_output_delta'' \<or> method = ''codex/event/exec_command_end''
      then (case commandExecutions st (call_id_of (event_msg params)) of
              Some x \<Rightarrow> ce_turnId x
            | None \<Rightarrow> event_turnId params)
      else if method = ''thread/started'' then JUndefined
      else if method = ''turn/completed'' then JStr (js_String (notification_turnId method params))
      else notification_turnId method params)"

text \<open>The turn id that the handler of a notification passes to \<^verbatim>\<open>resolveSessionId\<close>,
  read off the event: the handler of a low-level event passes the turn id of the
  event, every other handler passes the thread id alone.\<close>

definition passed_turnId :: "string \<Rightarrow> TransportEvent \<Rightarrow> jsval" where
  "passed_turnId method e = (if startsWith method ''codex/event/'' then ev_turnId e else JUndefined)"

text \<open>A notification that is not an approval request.\<close>

definition plain_notification :: "string \<Rightarrow> bool" where
  "plain_notification method \<longleftrightarrow>
     method \<noteq> ''item/commandExecution/requestApproval'' \<and> method \<noteq> ''item/fileChange/requestApproval''"

text \<open>What a handler appends to the events: every event carries the ids of the
  notification, and a session id that \<^verbatim>\<open>resolveSessionId\<close> gives for them.\<close>

definition emits_from :: "state \<Rightarrow> state \<Rightarrow> string \<Rightarrow> jsval \<Rightarrow> bool" where
  "emits_from st st' method params \<longleftrightarrow>
     (\<exists>es. events st' = events st @ es
        \<and> (\<forall>e\<in>set es.
              payload_field e ''threadId'' = emitted_threadId st method params
              \<and> ev_turnId e = emitted_turnId st method params
              \<and> truthy (payload_field e ''threadId'')
              \<and> (method \<noteq> ''thread/started'' \<longrightarrow> \<not> nullish (ev_turnId e))
              \<and> ev_sessionId e = resolveSessionId st' (payload_field e ''threadId'') (passed_turnId method e)))"



text \<open>A thread with the session \<open>S1\<close> and a turn of it; then an item, a low-level
  execution and an approval request that name that turn and a thread that is not
  registered, and an approval request that names a turn only.\<close>

definition turn_registered :: "input list" where
  "turn_registered =
     [handshake_ok, CallCreateThread workspace,
      response 2 (JObj [(''thread'', JObj [(''id'', JStr ''T1'')])]),
      notification ''turn/started'' (JObj [(''threadId'', JStr ''T1''), (''turn'', JObj [(''id'', JStr ''u1'')])])]"

definition item_other_thread :: jsval where
  "item_other_thread =
     JObj [(''threadId'', JStr ''T9''), (''turnId'', JStr ''u1''),
           (''item'', JObj [(''type'', JStr ''commandExecution''), (''id'', JStr ''i1'')])]"

definition exec_begin_other_thread :: jsval where
  "exec_begin_other_thread =
     JObj [(''threadId'', JStr ''T9''), (''turnId'', JStr ''u1''),
           (''msg'', JObj [(''call_id'', JStr ''c1''), (''command'', JArr [JStr ''ls''])])]"

definition approval_turn_only :: jsval where
  "approval_turn_only = JObj [(''turnId'', JStr ''u9''), (''command'', JStr ''ls'')]"

definition turn_of_other_thread :: "input list" where
  "turn_of_other_thread = turn_registered @ [notification ''item/started'' item_other_thread]"

text \<open>The methods whose promises \<open>calls\<close> holds, in the order of the calls.\<close>

definition names :: "state \<Rightarrow> string list" where
  "names st = map fst (calls st)"



definition cancel_rejected :: "state \<Rightarrow> nat \<Rightarrow> error \<Rightarrow> bool" where
  "cancel_rejected st h e \<longleftrightarrow> h < length (calls st) \<and> calls st ! h = (''cancel'', Rejected e)"




section \<open>Construction\<close>

lemma construct_default: "construct default_options True = Inr fresh_state"
  by (simp add: construct_def startHandshake_def send_def default_options_def fresh_state_def
      initialize_message_def)

section \<open>What each operation leaves unchanged\<close>

lemma emitEvent_fields [simp]:
  "sent (emitEvent ev st) = sent st"
  "calls (emitEvent ev st) = calls st"
  "ready (emitEvent ev st) = ready st"
  "waiters (emitEvent ev st) = waiters st"
  "pendingRequests (emitEvent ev st) = pendingRequests st"
  "rpcPromises (emitEvent ev st) = rpcPromises st"
  "threadContexts (emitEvent ev st) = threadContexts st"
  "turnToThread (emitEvent ev st) = turnToThread st"
  "seenThreads (emitEvent ev st) = seenThreads st"
  "pendingApprovals (emitEvent ev st) = pendingApprovals st"
  "commandExecutions (emitEvent ev st) = commandExecutions st"
  "writable (emitEvent ev st) = writable st"
  "events (emitEvent ev st) = events st @ [ev]"
  by (simp_all add: emitEvent_def)

lemma settle_fields [simp]:
  "sent (settle h out st) = sent st"
  "events (settle h out st) = events st"
  "ready (settle h out st) = ready st"
  "waiters (settle h out st) = waiters st"
  "pendingRequests (settle h out st) = pendingRequests st"
  "rpcPromises (settle h out st) = rpcPromises st"
  "threadContexts (settle h out st) = threadContexts st"
  "turnToThread (settle h out st) = turnToThread st"
  "seenThreads (settle h out st) = seenThreads st"
  "pendingApprovals (settle h out st) = pendingApprovals st"
  "commandExecutions (settle h out st) = commandExecutions st"
  "writable (settle h out st) = writable st"
  by (simp_all add: settle_def)

lemma new_call_fields [simp]:
  "sent (new_call n st) = sent st"
  "events (new_call n st) = events st"
  "ready (new_call n st) = ready st"
  "waiters (new_call n st) = waiters st"
  "pendingRequests (new_call n st) = pendingRequests st"
  "rpcPromises (new_call n st) = rpcPromises st"
  "threadContexts (new_call n st) = threadContexts st"
  "turnToThread (new_call n st) = turnToThread st"
  "seenThreads (new_call n st) = seenThreads st"
  "pendingApprovals (new_call n st) = pendingApprovals st"
  "commandExecutions (new_call n st) = commandExecutions st"
  "writable (new_call n st) = writable st"
  "calls (new_call n st) = calls st @ [(n, Pending)]"
  by (simp_all add: new_call_def)

lemma emitThreadStarted_fields [simp]:
  "sent (emitThreadStarted t st) = sent st"
  "calls (emitThreadStarted t st) = calls st"
  "ready (emitThreadStarted t st) = ready st"
  "waiters (emitThreadStarted t st) = waiters st"
  "pendingRequests (emitThreadStarted t st) = pendingRequests st"
  "rpcPromises (emitThreadStarted t st) = rpcPromises st"
  "threadContexts (emitThreadStarted t st) = threadContexts st"
  "turnToThread (emitThreadStarted t st) = turnToThread st"
  "pendingApprovals (emitThreadStarted t st) = pendingApprovals st"
  "commandExecutions (emitThreadStarted t st) = commandExecutions st"
  "writable (emitThreadStarted t st) = writable st"
  by (simp_all add: emitThreadStarted_def Let_def)

lemma flushThreadNotification_fields [simp]:
  "sent (flushThreadNotification t st) = sent st"
  "calls (flushThreadNotification t st) = calls st"
  "ready (flushThreadNotification t st) = ready st"
  "waiters (flushThreadNotification t st) = waiters st"
  "pendingRequests (flushThreadNotification t st) = pendingRequests st"
  "rpcPromises (flushThreadNotification t st) = rpcPromises st"
  "threadContexts (flushThreadNotification t st) = threadContexts st"
  "turnToThread (flushThreadNotification t st) = turnToThread st"
  "pendingApprovals (flushThreadNotification t st) = pendingApprovals st"
  "commandExecutions (flushThreadNotification t st) = commandExecutions st"
  "writable (flushThreadNotification t st) = writable st"
  by (simp_all add: flushThreadNotification_def)

lemma rpc_eq:
  "rpc method params k st =
     (if writable st
      then (None, st\<lparr>nextId := nextId st + 1,
                      sent := sent st @ [JObj [(''method'', JStr method), (''id'', JNum (nextId st)),
                                               (''params'', params)]],
                      pendingRequests :=
                        AList.update (nextId st) \<lparr>pr_method = method, awaiting = k\<rparr> (pendingRequests st),
                      rpcPromises := (rpcPromises st)(nextId st \<mapsto> Pending)\<rparr>)
      else (Some (Error ''codex app-server stdin is not writable''), st\<lparr>nextId := nextId st + 1\<rparr>))"
  by (simp add: rpc_def send_def Let_def)

lemma rpc_fields [simp]:
  "events (snd (rpc m p k st)) = events st"
  "calls (snd (rpc m p k st)) = calls st"
  "ready (snd (rpc m p k st)) = ready st"
  "waiters (snd (rpc m p k st)) = waiters st"
  "threadContexts (snd (rpc m p k st)) = threadContexts st"
  "turnToThread (snd (rpc m p k st)) = turnToThread st"
  "seenThreads (snd (rpc m p k st)) = seenThreads st"
  "pendingApprovals (snd (rpc m p k st)) = pendingApprovals st"
  "commandExecutions (snd (rpc m p k st)) = commandExecutions st"
  "writable (snd (rpc m p k st)) = writable st"
  by (simp_all add: rpc_eq)

lemma resume_fields [simp]:
  "sent (resume k r st) = sent st"
  "ready (resume k r st) = ready st"
  "waiters (resume k r st) = waiters st"
  "pendingRequests (resume k r st) = pendingRequests st"
  "rpcPromises (resume k r st) = rpcPromises st"
  "pendingApprovals (resume k r st) = pendingApprovals st"
  "commandExecutions (resume k r st) = commandExecutions st"
  "writable (resume k r st) = writable st"
  by (cases k; cases r; simp add: Let_def)+

lemma createThread_body_fields [simp]:
  "events (createThread_body h c st) = events st"
  "ready (createThread_body h c st) = ready st"
  "waiters (createThread_body h c st) = waiters st"
  "threadContexts (createThread_body h c st) = threadContexts st"
  "turnToThread (createThread_body h c st) = turnToThread st"
  "seenThreads (createThread_body h c st) = seenThreads st"
  "pendingApprovals (createThread_body h c st) = pendingApprovals st"
  "commandExecutions (createThread_body h c st) = commandExecutions st"
  "writable (createThread_body h c st) = writable st"
  by (simp_all add: createThread_body_def rpc_eq)

lemma sendUserMessage_body_fields [simp]:
  "events (sendUserMessage_body h t x a st) = events st"
  "ready (sendUserMessage_body h t x a st) = ready st"
  "waiters (sendUserMessage_body h t x a st) = waiters st"
  "threadContexts (sendUserMessage_body h t x a st) = threadContexts st"
  "turnToThread (sendUserMessage_body h t x a st) = turnToThread st"
  "seenThreads (sendUserMessage_body h t x a st) = seenThreads st"
  "pendingApprovals (sendUserMessage_body h t x a st) = pendingApprovals st"
  "commandExecutions (sendUserMessage_body h t x a st) = commandExecutions st"
  "writable (sendUserMessage_body h t x a st) = writable st"
  by (simp_all add: sendUserMessage_body_def rpc_eq Let_def)

lemma cancel_body_fields [simp]:
  "events (cancel_body h t st) = events st"
  "ready (cancel_body h t st) = ready st"
  "waiters (cancel_body h t st) = waiters st"
  "threadContexts (cancel_body h t st) = threadContexts st"
  "turnToThread (cancel_body h t st) = turnToThread st"
  "seenThreads (cancel_body h t st) = seenThreads st"
  "pendingApprovals (cancel_body h t st) = pendingApprovals st"
  "commandExecutions (cancel_body h t st) = commandExecutions st"
  "writable (cancel_body h t st) = writable st"
  by (simp_all add: cancel_body_def rpc_eq)

lemma run_waiter_fields [simp]:
  "events (run_waiter w st) = events st"
  "ready (run_waiter w st) = ready st"
  "waiters (run_waiter w st) = waiters st"
  "threadContexts (run_waiter w st) = threadContexts st"
  "turnToThread (run_waiter w st) = turnToThread st"
  "seenThreads (run_waiter w st) = seenThreads st"
  "pendingApprovals (run_waiter w st) = pendingApprovals st"
  "commandExecutions (run_waiter w st) = commandExecutions st"
  "writable (run_waiter w st) = writable st"
  by (cases w; simp)+

lemma fold_run_waiter_fields [simp]:
  "events (fold run_waiter ws st) = events st"
  "ready (fold run_waiter ws st) = ready st"
  "waiters (fold run_waiter ws st) = waiters st"
  "threadContexts (fold run_waiter ws st) = threadContexts st"
  "turnToThread (fold run_waiter ws st) = turnToThread st"
  "seenThreads (fold run_waiter ws st) = seenThreads st"
  "pendingApprovals (fold run_waiter ws st) = pendingApprovals st"
  "commandExecutions (fold run_waiter ws st) = commandExecutions st"
  "writable (fold run_waiter ws st) = writable st"
  by (induction ws arbitrary: st; simp)+

lemma createThread_fields [simp]:
  "events (createThread c st) = events st"
  "ready (createThread c st) = ready st"
  "threadContexts (createThread c st) = threadContexts st"
  "turnToThread (createThread c st) = turnToThread st"
  "seenThreads (createThread c st) = seenThreads st"
  "pendingApprovals (createThread c st) = pendingApprovals st"
  "commandExecutions (createThread c st) = commandExecutions st"
  "writable (createThread c st) = writable st"
  by (simp_all add: createThread_def await_ready_def Let_def split: ready_state.splits)

lemma sendUserMessage_fields [simp]:
  "events (sendUserMessage t x a st) = events st"
  "ready (sendUserMessage t x a st) = ready st"
  "threadContexts (sendUserMessage t x a st) = threadContexts st"
  "turnToThread (sendUserMessage t x a st) = turnToThread st"
  "seenThreads (sendUserMessage t x a st) = seenThreads st"
  "pendingApprovals (sendUserMessage t x a st) = pendingApprovals st"
  "commandExecutions (sendUserMessage t x a st) = commandExecutions st"
  "writable (sendUserMessage t x a st) = writable st"
  by (simp_all add: sendUserMessage_def await_ready_def Let_def split: ready_state.splits)

lemma cancel_fields [simp]:
  "events (cancel t st) = events st"
  "ready (cancel t st) = ready st"
  "threadContexts (cancel t st) = threadContexts st"
  "turnToThread (cancel t st) = turnToThread st"
  "seenThreads (cancel t st) = seenThreads st"
  "pendingApprovals (cancel t st) = pendingApprovals st"
  "commandExecutions (cancel t st) = commandExecutions st"
  "writable (cancel t st) = writable st"
  by (simp_all add: cancel_def await_ready_def Let_def split: ready_state.splits)

lemma respondApproval_fields [simp]:
  "events (respondApproval a d st) = events st"
  "ready (respondApproval a d st) = ready st"
  "waiters (respondApproval a d st) = waiters st"
  "threadContexts (respondApproval a d st) = threadContexts st"
  "turnToThread (respondApproval a d st) = turnToThread st"
  "seenThreads (respondApproval a d st) = seenThreads st"
  "commandExecutions (respondApproval a d st) = commandExecutions st"
  "writable (respondApproval a d st) = writable st"
  by (simp_all add: respondApproval_def Let_def send_def rpc_eq split: option.splits)

lemma readyResolve_fields [simp]:
  "events (readyResolve st) = events st"
  "threadContexts (readyResolve st) = threadContexts st"
  "turnToThread (readyResolve st) = turnToThread st"
  "seenThreads (readyResolve st) = seenThreads st"
  "pendingApprovals (readyResolve st) = pendingApprovals st"
  "commandExecutions (readyResolve st) = commandExecutions st"
  "writable (readyResolve st) = writable st"
  by (simp_all add: readyResolve_def)

lemma fold_settle_fields [simp]:
  "sent (fold (\<lambda>w. settle (f w) out) ws st) = sent st"
  "events (fold (\<lambda>w. settle (f w) out) ws st) = events st"
  "ready (fold (\<lambda>w. settle (f w) out) ws st) = ready st"
  "waiters (fold (\<lambda>w. settle (f w) out) ws st) = waiters st"
  "pendingRequests (fold (\<lambda>w. settle (f w) out) ws st) = pendingRequests st"
  "rpcPromises (fold (\<lambda>w. settle (f w) out) ws st) = rpcPromises st"
  "threadContexts (fold (\<lambda>w. settle (f w) out) ws st) = threadContexts st"
  "turnToThread (fold (\<lambda>w. settle (f w) out) ws st) = turnToThread st"
  "seenThreads (fold (\<lambda>w. settle (f w) out) ws st) = seenThreads st"
  "pendingApprovals (fold (\<lambda>w. settle (f w) out) ws st) = pendingApprovals st"
  "commandExecutions (fold (\<lambda>w. settle (f w) out) ws st) = commandExecutions st"
  "writable (fold (\<lambda>w. settle (f w) out) ws st) = writable st"
  by (induction ws arbitrary: st; simp)+

lemma readyReject_fields [simp]:
  "sent (readyReject e st) = sent st"
  "events (readyReject e st) = events st"
  "pendingRequests (readyReject e st) = pendingRequests st"
  "rpcPromises (readyReject e st) = rpcPromises st"
  "threadContexts (readyReject e st) = threadContexts st"
  "turnToThread (readyReject e st) = turnToThread st"
  "seenThreads (readyReject e st) = seenThreads st"
  "pendingApprovals (readyReject e st) = pendingApprovals st"
  "commandExecutions (readyReject e st) = commandExecutions st"
  "writable (readyReject e st) = writable st"
  by (simp_all add: readyReject_def)

lemma resume_Inl: "\<exists>h out. resume k (Inl e) st = settle h out st"
  by (cases k) auto

lemma reject_pending_eq:
  "\<exists>h out. reject_pending e p st = settle h out (st\<lparr>rpcPromises := (rpcPromises st)(fst p \<mapsto> Rejected e)\<rparr>)"
  unfolding reject_pending_def by (rule resume_Inl)

lemma reject_pending_fields [simp]:
  "sent (reject_pending e p st) = sent st"
  "events (reject_pending e p st) = events st"
  "ready (reject_pending e p st) = ready st"
  "waiters (reject_pending e p st) = waiters st"
  "pendingRequests (reject_pending e p st) = pendingRequests st"
  "threadContexts (reject_pending e p st) = threadContexts st"
  "turnToThread (reject_pending e p st) = turnToThread st"
  "seenThreads (reject_pending e p st) = seenThreads st"
  "pendingApprovals (reject_pending e p st) = pendingApprovals st"
  "commandExecutions (reject_pending e p st) = commandExecutions st"
  "writable (reject_pending e p st) = writable st"
  "rpcPromises (reject_pending e p st) = (rpcPromises st)(fst p \<mapsto> Rejected e)"
  using reject_pending_eq[of e p st] by auto

lemma fold_reject_pending_fields [simp]:
  "sent (fold (reject_pending e) ps st) = sent st"
  "events (fold (reject_pending e) ps st) = events st"
  "ready (fold (reject_pending e) ps st) = ready st"
  "waiters (fold (reject_pending e) ps st) = waiters st"
  "pendingRequests (fold (reject_pending e) ps st) = pendingRequests st"
  "threadContexts (fold (reject_pending e) ps st) = threadContexts st"
  "turnToThread (fold (reject_pending e) ps st) = turnToThread st"
  "seenThreads (fold (reject_pending e) ps st) = seenThreads st"
  "pendingApprovals (fold (reject_pending e) ps st) = pendingApprovals st"
  "commandExecutions (fold (reject_pending e) ps st) = commandExecutions st"
  "writable (fold (reject_pending e) ps st) = writable st"
  by (induction ps arbitrary: st; simp)+

lemma failAll_fields [simp]:
  "sent (failAll e st) = sent st"
  "events (failAll e st) = events st"
  "threadContexts (failAll e st) = threadContexts st"
  "turnToThread (failAll e st) = turnToThread st"
  "seenThreads (failAll e st) = seenThreads st"
  "pendingApprovals (failAll e st) = pendingApprovals st"
  "commandExecutions (failAll e st) = commandExecutions st"
  "writable (failAll e st) = writable st"
  "pendingRequests (failAll e st) = []"
  by (simp_all add: failAll_def Let_def)

lemma on_exit_fields [simp]:
  "sent (on_exit c s st) = sent st"
  "threadContexts (on_exit c s st) = threadContexts st"
  "turnToThread (on_exit c s st) = turnToThread st"
  "seenThreads (on_exit c s st) = seenThreads st"
  "pendingApprovals (on_exit c s st) = pendingApprovals st"
  "commandExecutions (on_exit c s st) = commandExecutions st"
  "writable (on_exit c s st) = writable st"
  "pendingRequests (on_exit c s st) = []"
  by (simp_all add: on_exit_def Let_def)

lemma on_error_fields [simp]:
  "sent (on_error m st) = sent st"
  "events (on_error m st) = events st"
  "threadContexts (on_error m st) = threadContexts st"
  "turnToThread (on_error m st) = turnToThread st"
  "seenThreads (on_error m st) = seenThreads st"
  "pendingApprovals (on_error m st) = pendingApprovals st"
  "commandExecutions (on_error m st) = commandExecutions st"
  "writable (on_error m st) = writable st"
  "pendingRequests (on_error m st) = []"
  by (simp_all add: on_error_def)

lemma emitApprovalRequest_fields [simp]:
  "sent (emitApprovalRequest now m p r st) = sent st"
  "calls (emitApprovalRequest now m p r st) = calls st"
  "ready (emitApprovalRequest now m p r st) = ready st"
  "waiters (emitApprovalRequest now m p r st) = waiters st"
  "pendingRequests (emitApprovalRequest now m p r st) = pendingRequests st"
  "rpcPromises (emitApprovalRequest now m p r st) = rpcPromises st"
  "threadContexts (emitApprovalRequest now m p r st) = threadContexts st"
  "turnToThread (emitApprovalRequest now m p r st) = turnToThread st"
  "seenThreads (emitApprovalRequest now m p r st) = seenThreads st"
  "commandExecutions (emitApprovalRequest now m p r st) = commandExecutions st"
  "writable (emitApprovalRequest now m p r st) = writable st"
  "\<not> truthy r \<Longrightarrow> pendingApprovals (emitApprovalRequest now m p r st) = pendingApprovals st"
  by (simp_all add: emitApprovalRequest_def Let_def)

lemma exec_command_begin_fields [simp]:
  "sent (exec_command_begin msg t u st) = sent st"
  "calls (exec_command_begin msg t u st) = calls st"
  "ready (exec_command_begin msg t u st) = ready st"
  "waiters (exec_command_begin msg t u st) = waiters st"
  "pendingRequests (exec_command_begin msg t u st) = pendingRequests st"
  "rpcPromises (exec_command_begin msg t u st) = rpcPromises st"
  "threadContexts (exec_command_begin msg t u st) = threadContexts st"
  "turnToThread (exec_command_begin msg t u st) = turnToThread st"
  "seenThreads (exec_command_begin msg t u st) = seenThreads st"
  "pendingApprovals (exec_command_begin msg t u st) = pendingApprovals st"
  "writable (exec_command_begin msg t u st) = writable st"
  by (simp_all add: exec_command_begin_def Let_def)

lemma exec_command_output_delta_fields [simp]:
  "sent (exec_command_output_delta dec msg t u st) = sent st"
  "calls (exec_command_output_delta dec msg t u st) = calls st"
  "ready (exec_command_output_delta dec msg t u st) = ready st"
  "waiters (exec_command_output_delta dec msg t u st) = waiters st"
  "pendingRequests (exec_command_output_delta dec msg t u st) = pendingRequests st"
  "rpcPromises (exec_command_output_delta dec msg t u st) = rpcPromises st"
  "threadContexts (exec_command_output_delta dec msg t u st) = threadContexts st"
  "turnToThread (exec_command_output_delta dec msg t u st) = turnToThread st"
  "seenThreads (exec_command_output_delta dec msg t u st) = seenThreads st"
  "pendingApprovals (exec_command_output_delta dec msg t u st) = pendingApprovals st"
  "writable (exec_command_output_delta dec msg t u st) = writable st"
  by (simp_all add: exec_command_output_delta_def Let_def)

lemma exec_command_end_fields [simp]:
  "sent (exec_command_end msg t u st) = sent st"
  "calls (exec_command_end msg t u st) = calls st"
  "ready (exec_command_end msg t u st) = ready st"
  "waiters (exec_command_end msg t u st) = waiters st"
  "pendingRequests (exec_command_end msg t u st) = pendingRequests st"
  "rpcPromises (exec_command_end msg t u st) = rpcPromises st"
  "threadContexts (exec_command_end msg t u st) = threadContexts st"
  "turnToThread (exec_command_end msg t u st) = turnToThread st"
  "seenThreads (exec_command_end msg t u st) = seenThreads st"
  "pendingApprovals (exec_command_end msg t u st) = pendingApprovals st"
  "writable (exec_command_end msg t u st) = writable st"
  by (simp_all add: exec_command_end_def Let_def)

lemma agent_message_delta_fields [simp]:
  "sent (agent_message_delta msg t u st) = sent st"
  "calls (agent_message_delta msg t u st) = calls st"
  "ready (agent_message_delta msg t u st) = ready st"
  "waiters (agent_message_delta msg t u st) = waiters st"
  "pendingRequests (agent_message_delta msg t u st) = pendingRequests st"
  "rpcPromises (agent_message_delta msg t u st) = rpcPromises st"
  "threadContexts (agent_message_delta msg t u st) = threadContexts st"
  "turnToThread (agent_message_delta msg t u st) = turnToThread st"
  "seenThreads (agent_message_delta msg t u st) = seenThreads st"
  "pendingApprovals (agent_message_delta msg t u st) = pendingApprovals st"
  "writable (agent_message_delta msg t u st) = writable st"
  by (simp_all add: agent_message_delta_def Let_def)

lemma handleCodexEvent_fields [simp]:
  "sent (handleCodexEvent dec m p st) = sent st"
  "calls (handleCodexEvent dec m p st) = calls st"
  "ready (handleCodexEvent dec m p st) = ready st"
  "waiters (handleCodexEvent dec m p st) = waiters st"
  "pendingRequests (handleCodexEvent dec m p st) = pendingRequests st"
  "rpcPromises (handleCodexEvent dec m p st) = rpcPromises st"
  "threadContexts (handleCodexEvent dec m p st) = threadContexts st"
  "turnToThread (handleCodexEvent dec m p st) = turnToThread st"
  "seenThreads (handleCodexEvent dec m p st) = seenThreads st"
  "pendingApprovals (handleCodexEvent dec m p st) = pendingApprovals st"
  "writable (handleCodexEvent dec m p st) = writable st"
  by (simp_all add: handleCodexEvent_def Let_def)

lemma on_thread_started_fields [simp]:
  "sent (on_thread_started p st) = sent st"
  "calls (on_thread_started p st) = calls st"
  "ready (on_thread_started p st) = ready st"
  "waiters (on_thread_started p st) = waiters st"
  "pendingRequests (on_thread_started p st) = pendingRequests st"
  "rpcPromises (on_thread_started p st) = rpcPromises st"
  "threadContexts (on_thread_started p st) = threadContexts st"
  "turnToThread (on_thread_started p st) = turnToThread st"
  "pendingApprovals (on_thread_started p st) = pendingApprovals st"
  "commandExecutions (on_thread_started p st) = commandExecutions st"
  "writable (on_thread_started p st) = writable st"
  by (simp_all add: on_thread_started_def Let_def)

lemma on_turn_started_fields [simp]:
  "sent (on_turn_started p st) = sent st"
  "calls (on_turn_started p st) = calls st"
  "ready (on_turn_started p st) = ready st"
  "waiters (on_turn_started p st) = waiters st"
  "pendingRequests (on_turn_started p st) = pendingRequests st"
  "rpcPromises (on_turn_started p st) = rpcPromises st"
  "threadContexts (on_turn_started p st) = threadContexts st"
  "seenThreads (on_turn_started p st) = seenThreads st"
  "pendingApprovals (on_turn_started p st) = pendingApprovals st"
  "commandExecutions (on_turn_started p st) = commandExecutions st"
  "writable (on_turn_started p st) = writable st"
  by (simp_all add: on_turn_started_def Let_def)

lemma on_turn_completed_fields [simp]:
  "sent (on_turn_completed p st) = sent st"
  "calls (on_turn_completed p st) = calls st"
  "ready (on_turn_completed p st) = ready st"
  "waiters (on_turn_completed p st) = waiters st"
  "pendingRequests (on_turn_completed p st) = pendingRequests st"
  "rpcPromises (on_turn_completed p st) = rpcPromises st"
  "threadContexts (on_turn_completed p st) = threadContexts st"
  "turnToThread (on_turn_completed p st) = turnToThread st"
  "seenThreads (on_turn_completed p st) = seenThreads st"
  "pendingApprovals (on_turn_completed p st) = pendingApprovals st"
  "commandExecutions (on_turn_completed p st) = commandExecutions st"
  "writable (on_turn_completed p st) = writable st"
  by (simp_all add: on_turn_completed_def Let_def)

lemma on_item_fields [simp]:
  "sent (on_item m p st) = sent st"
  "calls (on_item m p st) = calls st"
  "ready (on_item m p st) = ready st"
  "waiters (on_item m p st) = waiters st"
  "pendingRequests (on_item m p st) = pendingRequests st"
  "rpcPromises (on_item m p st) = rpcPromises st"
  "threadContexts (on_item m p st) = threadContexts st"
  "turnToThread (on_item m p st) = turnToThread st"
  "seenThreads (on_item m p st) = seenThreads st"
  "pendingApprovals (on_item m p st) = pendingApprovals st"
  "commandExecutions (on_item m p st) = commandExecutions st"
  "writable (on_item m p st) = writable st"
  by (simp_all add: on_item_def Let_def)

lemma on_agent_message_delta_fields [simp]:
  "sent (on_agent_message_delta p st) = sent st"
  "calls (on_agent_message_delta p st) = calls st"
  "ready (on_agent_message_delta p st) = ready st"
  "waiters (on_agent_message_delta p st) = waiters st"
  "pendingRequests (on_agent_message_delta p st) = pendingRequests st"
  "rpcPromises (on_agent_message_delta p st) = rpcPromises st"
  "threadContexts (on_agent_message_delta p st) = threadContexts st"
  "turnToThread (on_agent_message_delta p st) = turnToThread st"
  "seenThreads (on_agent_message_delta p st) = seenThreads st"
  "pendingApprovals (on_agent_message_delta p st) = pendingApprovals st"
  "commandExecutions (on_agent_message_delta p st) = commandExecutions st"
  "writable (on_agent_message_delta p st) = writable st"
  by (simp_all add: on_agent_message_delta_def Let_def)

lemma on_command_output_delta_fields [simp]:
  "sent (on_command_output_delta p st) = sent st"
  "calls (on_command_output_delta p st) = calls st"
  "ready (on_command_output_delta p st) = ready st"
  "waiters (on_command_output_delta p st) = waiters st"
  "pendingRequests (on_command_output_delta p st) = pendingRequests st"
  "rpcPromises (on_command_output_delta p st) = rpcPromises st"
  "threadContexts (on_command_output_delta p st) = threadContexts st"
  "turnToThread (on_command_output_delta p st) = turnToThread st"
  "seenThreads (on_command_output_delta p st) = seenThreads st"
  "pendingApprovals (on_command_output_delta p st) = pendingApprovals st"
  "commandExecutions (on_command_output_delta p st) = commandExecutions st"
  "writable (on_command_output_delta p st) = writable st"
  by (simp_all add: on_command_output_delta_def Let_def)

lemma on_reasoning_summary_delta_fields [simp]:
  "sent (on_reasoning_summary_delta p st) = sent st"
  "calls (on_reasoning_summary_delta p st) = calls st"
  "ready (on_reasoning_summary_delta p st) = ready st"
  "waiters (on_reasoning_summary_delta p st) = waiters st"
  "pendingRequests (on_reasoning_summary_delta p st) = pendingRequests st"
  "rpcPromises (on_reasoning_summary_delta p st) = rpcPromises st"
  "threadContexts (on_reasoning_summary_delta p st) = threadContexts st"
  "turnToThread (on_reasoning_summary_delta p st) = turnToThread st"
  "seenThreads (on_reasoning_summary_delta p st) = seenThreads st"
  "pendingApprovals (on_reasoning_summary_delta p st) = pendingApprovals st"
  "commandExecutions (on_reasoning_summary_delta p st) = commandExecutions st"
  "writable (on_reasoning_summary_delta p st) = writable st"
  by (simp_all add: on_reasoning_summary_delta_def Let_def)

lemma handleNotification_fields [simp]:
  "sent (handleNotification dec now m p st) = sent st"
  "calls (handleNotification dec now m p st) = calls st"
  "ready (handleNotification dec now m p st) = ready st"
  "waiters (handleNotification dec now m p st) = waiters st"
  "pendingRequests (handleNotification dec now m p st) = pendingRequests st"
  "rpcPromises (handleNotification dec now m p st) = rpcPromises st"
  "threadContexts (handleNotification dec now m p st) = threadContexts st"
  "pendingApprovals (handleNotification dec now m p st) = pendingApprovals st"
  "writable (handleNotification dec now m p st) = writable st"
  by (simp_all add: handleNotification_def)

section \<open>Runs\<close>

lemma run_invariant:
  assumes "P st" and "\<And>i s. P s \<Longrightarrow> P (step dec i s)"
  shows "P (run dec ins st)"
  using assms(1) unfolding run_def
  by (induction ins arbitrary: st) (simp_all add: assms(2))

lemma construct_Inr:
  assumes "construct options w = Inr st"
  shows "threadContexts st = Map.empty" "turnToThread st = Map.empty" "events st = []"
    "seenThreads st = {}" "calls st = []" "waiters st = []" "pendingRequests st = []"
    "ready st = ReadyPending" "pendingApprovals st = Map.empty" "commandExecutions st = Map.empty"
    "sent st = [initialize_message]" "writable st" "initRequestId st = Some 1"
  using assms
  by (auto simp: construct_def startHandshake_def send_def Let_def initialize_message_def split: if_splits)

lemma handleServerRequest_cases:
  assumes "handleServerRequest now msg st = Inr st'"
  obtains m p r where "st' = emitApprovalRequest now m p r st" "r = field msg ''id''"
  | m where "writable st" "st' = st\<lparr>sent := sent st @ [m]\<rparr>" "field m ''result'' = JUndefined"
  using assms unfolding handleServerRequest_def Let_def send_def
  by (auto split: if_splits)

lemma handleResponse_cases:
  assumes "handleResponse msg st = Inr st'"
  obtains e where "st' = readyReject e st"
  | "writable st" "st' = (readyResolve (st\<lparr>sent := sent st @ [JObj [(''method'', JStr ''initialized''), (''params'', JObj [])]]\<rparr>))\<lparr>initRequestId := None\<rparr>"
  | "st' = st"
  | n p r where "map_of (pendingRequests st) n = Some p"
      "st' = resume (awaiting p) r (st\<lparr>pendingRequests := AList.delete n (pendingRequests st),
                                        rpcPromises := (rpcPromises st)(n \<mapsto> (case r of Inl e \<Rightarrow> Rejected e | Inr v \<Rightarrow> Resolved v))\<rparr>)"
proof -
  show ?thesis
  proof (cases "is_init_id (initRequestId st) (field msg ''id'')")
    case True
    then show ?thesis
      using assms that(1,2) unfolding handleResponse_def send_def
      by (auto split: if_splits)
  next
    case False
    show ?thesis
    proof (cases "lookup_pending st (field msg ''id'')")
      case None
      then show ?thesis using assms False that(3) unfolding handleResponse_def by simp
    next
      case (Some np)
      obtain n p where np: "np = (n, p)" by (cases np)
      have m: "map_of (pendingRequests st) n = Some p"
        using Some np unfolding lookup_pending_def by (auto split: jsval.splits option.splits)
      show ?thesis
      proof (cases "truthy (field msg ''error'')")
        case True
        then show ?thesis
          using assms False Some np m that(4)[of n p "Inl (response_error msg (''RPC error: '' @ pr_method p))"]
          unfolding handleResponse_def by (simp add: Let_def)
      next
        case f: False
        then show ?thesis
          using assms False Some np m that(4)[of n p "Inr (field msg ''result'')"]
          unfolding handleResponse_def by (simp add: Let_def)
      qed
    qed
  qed
qed

lemma handleLine_cases:
  assumes "handleLine dec now line st = Inr st'"
  obtains "st' = st"
  | msg where "handleServerRequest now msg st = Inr st'"
  | msg where "handleResponse msg st = Inr st'"
  | m p where "st' = handleNotification dec now m p st"
proof (cases line)
  case None
  then show ?thesis using assms that(1) by (simp add: handleLine_def)
next
  case (Some msg)
  have n: "\<not> nullish msg"
    using assms Some by (auto simp: handleLine_def split: if_splits)
  consider (req) "truthy (field msg ''method'')" "field msg ''id'' \<noteq> JUndefined"
    | (resp) "\<not> truthy (field msg ''method'')" "field msg ''id'' \<noteq> JUndefined"
    | (ntf) "truthy (field msg ''method'')" "field msg ''id'' = JUndefined"
    | (none) "\<not> truthy (field msg ''method'')" "field msg ''id'' = JUndefined"
    by blast
  then show ?thesis
  proof cases
    case req
    then show ?thesis using assms Some n that(2)[of msg] by (simp add: handleLine_def)
  next
    case resp
    then show ?thesis using assms Some n that(3)[of msg] by (simp add: handleLine_def)
  next
    case ntf
    show ?thesis
    proof (cases "field msg ''method''")
      case (JStr m)
      then show ?thesis
        using assms Some n ntf that(4)[of m "nc (field msg ''params'') (JObj [])"]
        by (simp add: handleLine_def)
    qed (use assms Some n ntf in \<open>simp_all add: handleLine_def\<close>)
  next
    case none
    then show ?thesis using assms Some n that(1) by (simp add: handleLine_def)
  qed
qed

section \<open>Session ids\<close>

lemma resolveSessionId_spec:
  "ids_ok st \<Longrightarrow> resolveSessionId st t u = spec_resolveSessionId st t u"
  unfolding ids_ok_def resolveSessionId_def spec_resolveSessionId_def
  by (auto simp: nc_def split: option.splits)

lemma ids_ok_frame:
  "ids_ok st \<Longrightarrow> threadContexts st' = threadContexts st \<Longrightarrow> turnToThread st' = turnToThread st \<Longrightarrow>
   ids_ok st'"
  by (simp add: ids_ok_def)

lemma ids_ok_resume: "ids_ok st \<Longrightarrow> ids_ok (resume k r st)"
  by (cases k; cases r) (auto simp: ids_ok_def Let_def)

lemma ids_ok_on_turn_started: "ids_ok st \<Longrightarrow> ids_ok (on_turn_started p st)"
  by (cases "field p ''threadId''") (auto simp: ids_ok_def on_turn_started_def Let_def)

lemma ids_ok_handleNotification: "ids_ok st \<Longrightarrow> ids_ok (handleNotification dec now m p st)"
  using ids_ok_on_turn_started[of st p] by (simp add: handleNotification_def ids_ok_def)

lemma ids_ok_handleResponse:
  assumes "ids_ok st" "handleResponse msg st = Inr st'"
  shows "ids_ok st'"
  using assms(2)
proof (cases rule: handleResponse_cases)
  case (4 n p r)
  have "ids_ok (st\<lparr>pendingRequests := AList.delete n (pendingRequests st),
             rpcPromises := (rpcPromises st)(n \<mapsto> (case r of Inl e \<Rightarrow> Rejected e | Inr v \<Rightarrow> Resolved v))\<rparr>)"
    using assms(1) by (simp add: ids_ok_def)
  then show ?thesis unfolding 4(2) by (rule ids_ok_resume)
qed (use assms(1) in \<open>simp_all add: ids_ok_def\<close>)

lemma ids_ok_step: "ids_ok st \<Longrightarrow> ids_ok (step dec i st)"
proof (cases i)
  case (Line now line)
  assume a: "ids_ok st"
  show ?thesis
  proof (cases "handleLine dec now line st")
    case (Inl e)
    then show ?thesis using a Line by simp
  next
    case (Inr st')
    have "ids_ok st'"
      using Inr
    proof (cases rule: handleLine_cases)
      case (2 msg)
      then show ?thesis
        using a by (cases rule: handleServerRequest_cases) (simp_all add: ids_ok_def)
    next
      case (3 msg)
      then show ?thesis using a ids_ok_handleResponse by blast
    next
      case (4 m p)
      then show ?thesis using a ids_ok_handleNotification by simp
    qed (use a in simp)
    then show ?thesis using Line Inr by simp
  qed
qed (simp_all add: ids_ok_def)

lemma ids_ok_reachable:
  assumes "construct options w = Inr st0"
  shows "ids_ok (run dec ins st0)"
proof (rule run_invariant)
  show "ids_ok st0" by (simp add: ids_ok_def construct_Inr[OF assms])
qed (rule ids_ok_step)


section \<open>Output chunks\<close>

lemma not_base64_eq: "\<not> base64_char CHR ''=''"
  by (simp add: base64_char_def)

lemma takeWhile_body_pad:
  assumes "\<forall>c\<in>set body. base64_char c" "pad = [] \<or> pad = ''='' \<or> pad = ''==''"
  shows "takeWhile base64_char (body @ pad) = body" "dropWhile base64_char (body @ pad) = pad"
  using assms not_base64_eq by auto

text \<open>The test the source runs is the regular expression of the specification.\<close>

lemma base64Pattern_test_iff: "base64Pattern_test s = matches_base64_shape s"
proof
  assume "base64Pattern_test s"
  then have b: "takeWhile base64_char s \<noteq> []"
    and p: "dropWhile base64_char s = [] \<or> dropWhile base64_char s = ''=''
            \<or> dropWhile base64_char s = ''==''"
    by (simp_all add: base64Pattern_test_def Let_def)
  have "s = takeWhile base64_char s @ dropWhile base64_char s" by simp
  moreover have "\<forall>c\<in>set (takeWhile base64_char s). base64_char c"
    by (auto dest: set_takeWhileD)
  ultimately show "matches_base64_shape s"
    unfolding matches_base64_shape_def using b p by blast
next
  assume "matches_base64_shape s"
  then obtain body pad where s: "s = body @ pad" and b: "body \<noteq> []"
    and c: "\<forall>c\<in>set body. base64_char c" and p: "pad = [] \<or> pad = ''='' \<or> pad = ''==''"
    unfolding matches_base64_shape_def by blast
  show "base64Pattern_test s"
    unfolding base64Pattern_test_def Let_def s takeWhile_body_pad[OF c p]
    using b p by simp
qed

lemma handleCodexEvent_dropped:
  "\<not> truthy (event_threadId params) \<or> \<not> truthy (event_turnId params) \<Longrightarrow>
   handleCodexEvent dec method params st = st"
  unfolding handleCodexEvent_def by (auto simp: Let_def)

lemma handleCodexEvent_output_delta:
  assumes "truthy (event_threadId params)" "truthy (event_turnId params)"
  shows "handleCodexEvent dec ''codex/event/exec_command_output_delta'' params st =
           exec_command_output_delta dec (event_msg params) (event_threadId params) (event_turnId params) st"
  using assms unfolding handleCodexEvent_def by (simp add: Let_def)

text \<open>
  C5. For an output chunk of a low-level execution event whose thread and turn resolve:
  a chunk of the shape \<^verbatim>\<open>^[A-Za-z0-9+/]+={0,2}$\<close> whose length is a multiple of four is
  decoded (base64, then UTF-8: the decoder of the runtime, \<open>dec\<close>); any other chunk that
  is not empty is the delta as it is; the event emitted carries that delta, and no event
  is emitted when the delta is empty.
\<close>

theorem output_chunk_delta:
  assumes "truthy (event_threadId params)" and "truthy (event_turnId params)"
    and "field (event_msg params) ''chunk'' = JStr chunk"
  shows "(matches_base64_shape chunk \<and> length chunk mod 4 = 0 \<longrightarrow> decodeChunk dec chunk = dec chunk)
       \<and> (chunk \<noteq> [] \<and> \<not> (matches_base64_shape chunk \<and> length chunk mod 4 = 0)
             \<longrightarrow> decodeChunk dec chunk = chunk)
       \<and> (let st' = handleCodexEvent dec ''codex/event/exec_command_output_delta'' params st;
               delta = decodeChunk dec chunk
          in if delta = [] then events st' = events st
             else (\<exists>e. events st' = events st @ [e] \<and> ev_type e = ''item.delta''
                       \<and> payload_field e ''kind'' = JStr ''commandOutput''
                       \<and> payload_field e ''delta'' = JStr delta))"
proof -
  have shape_ne: "matches_base64_shape chunk \<Longrightarrow> chunk \<noteq> []"
    unfolding matches_base64_shape_def by auto
  have 1: "matches_base64_shape chunk \<and> length chunk mod 4 = 0 \<longrightarrow> decodeChunk dec chunk = dec chunk"
    using shape_ne by (auto simp: decodeChunk_def base64Pattern_test_iff)
  have 2: "chunk \<noteq> [] \<and> \<not> (matches_base64_shape chunk \<and> length chunk mod 4 = 0)
             \<longrightarrow> decodeChunk dec chunk = chunk"
    by (auto simp: decodeChunk_def base64Pattern_test_iff)
  have 3: "(let st' = handleCodexEvent dec ''codex/event/exec_command_output_delta'' params st;
               delta = decodeChunk dec chunk
          in if delta = [] then events st' = events st
             else (\<exists>e. events st' = events st @ [e] \<and> ev_type e = ''item.delta''
                       \<and> payload_field e ''kind'' = JStr ''commandOutput''
                       \<and> payload_field e ''delta'' = JStr delta))"
    unfolding handleCodexEvent_output_delta[OF assms(1,2)] exec_command_output_delta_def Let_def assms(3)
    by (simp add: emitEvent_def payload_field_def)
  from 1 2 3 show ?thesis by blast
qed

theorem output_chunk_delta_witness:
  "truthy (event_threadId (JObj [(''threadId'', JStr ''T1''), (''turnId'', JStr ''u1''),
                                 (''msg'', JObj [(''call_id'', JStr ''c1''), (''chunk'', JStr ''aGk='')])]))
   \<and> matches_base64_shape ''aGk=''
   \<and> decodeChunk (\<lambda>s. ''hi'') ''aGk='' = ''hi''
   \<and> decodeChunk (\<lambda>s. ''hi'') ''ls -l'' = ''ls -l''
   \<and> (\<exists>e. events (handleCodexEvent (\<lambda>s. ''hi'') ''codex/event/exec_command_output_delta''
                     (JObj [(''threadId'', JStr ''T1''), (''turnId'', JStr ''u1''),
                            (''msg'', JObj [(''call_id'', JStr ''c1''), (''chunk'', JStr ''aGk='')])])
                     fresh_state) = [e]
           \<and> payload_field e ''delta'' = JStr ''hi'')"
proof -
  let ?p = "JObj [(''threadId'', JStr ''T1''), (''turnId'', JStr ''u1''),
                  (''msg'', JObj [(''call_id'', JStr ''c1''), (''chunk'', JStr ''aGk='')])]"
  have h1: "truthy (event_threadId ?p)"
    by (simp add: event_threadId_def resolveThreadId_def nc_def)
  have h2: "truthy (event_turnId ?p)"
    by (simp add: event_turnId_def resolveTurnId_def nc_def)
  have h3: "field (event_msg ?p) ''chunk'' = JStr ''aGk=''"
    by (simp add: event_msg_def nc_def)
  have m: "matches_base64_shape ''aGk=''"
    unfolding base64Pattern_test_iff[symmetric]
    by (simp add: base64Pattern_test_def base64_char_def)
  have d: "decodeChunk (\<lambda>s. ''hi'') ''ls -l'' = ''ls -l''"
    by (simp add: decodeChunk_def)
  have e: "events fresh_state = []"
    by (simp add: fresh_state_def)
  show ?thesis
    using output_chunk_delta[OF h1 h2 h3, of "\<lambda>s. ''hi''" fresh_state] h1 m d e
    by (auto simp: Let_def)
qed

section \<open>Thread started, once\<close>

lemma counts_ok_quiet:
  assumes "counts_ok st" "quiet_ext st st'"
  shows "counts_ok st'"
proof -
  obtain es where s: "seenThreads st' = seenThreads st" and e: "events st' = events st @ es"
    and q: "\<forall>e\<in>set es. ev_type e \<noteq> ''thread.started''"
    using assms(2) unfolding quiet_ext_def by blast
  have "filter (thread_started_event t) es = []" for t
    using q by (auto simp: filter_empty_conv thread_started_event_def)
  then show ?thesis
    using assms(1) q unfolding counts_ok_def started_count_def s e by auto
qed

lemma counts_ok_frame:
  "counts_ok st \<Longrightarrow> events st' = events st \<Longrightarrow> seenThreads st' = seenThreads st \<Longrightarrow> counts_ok st'"
  by (simp add: counts_ok_def started_count_def)

lemma quiet_ext_emitEvent:
  "ev_type ev \<noteq> ''thread.started'' \<Longrightarrow> seenThreads s = seenThreads st \<Longrightarrow> events s = events st \<Longrightarrow>
   quiet_ext st (emitEvent ev s)"
  by (simp add: quiet_ext_def)

lemma quiet_ext_refl:
  "seenThreads s = seenThreads st \<Longrightarrow> events s = events st \<Longrightarrow> quiet_ext st s"
  by (simp add: quiet_ext_def)

lemma quiet_ext_on_exit: "quiet_ext st (on_exit c s st)"
  by (simp add: on_exit_def Let_def quiet_ext_emitEvent)

lemma quiet_ext_emitApprovalRequest: "quiet_ext st (emitApprovalRequest now m p r st)"
  by (simp add: emitApprovalRequest_def Let_def quiet_ext_emitEvent)

lemma quiet_ext_handleCodexEvent: "quiet_ext st (handleCodexEvent dec m p st)"
  by (simp add: handleCodexEvent_def exec_command_begin_def exec_command_output_delta_def
      exec_command_end_def agent_message_delta_def Let_def quiet_ext_emitEvent quiet_ext_refl)

lemma quiet_ext_on_turn_started: "quiet_ext st (on_turn_started p st)"
  by (simp add: on_turn_started_def Let_def quiet_ext_emitEvent quiet_ext_refl)

lemma quiet_ext_on_turn_completed: "quiet_ext st (on_turn_completed p st)"
  by (simp add: on_turn_completed_def Let_def quiet_ext_emitEvent quiet_ext_refl)

lemma quiet_ext_on_item: "quiet_ext st (on_item m p st)"
  by (simp add: on_item_def Let_def quiet_ext_emitEvent quiet_ext_refl)

lemma quiet_ext_on_agent_message_delta: "quiet_ext st (on_agent_message_delta p st)"
  by (simp add: on_agent_message_delta_def Let_def quiet_ext_emitEvent quiet_ext_refl)

lemma quiet_ext_on_command_output_delta: "quiet_ext st (on_command_output_delta p st)"
  by (simp add: on_command_output_delta_def Let_def quiet_ext_emitEvent quiet_ext_refl)

lemma quiet_ext_on_reasoning_summary_delta: "quiet_ext st (on_reasoning_summary_delta p st)"
  by (simp add: on_reasoning_summary_delta_def Let_def quiet_ext_emitEvent quiet_ext_refl)

lemma counts_ok_emitThreadStarted: "counts_ok st \<Longrightarrow> counts_ok (emitThreadStarted t st)"
  unfolding counts_ok_def started_count_def emitThreadStarted_def Let_def
  by (auto simp: emitEvent_def thread_started_event_def)

lemma seenThreads_emitThreadStarted: "seenThreads (emitThreadStarted t st) = insert t (seenThreads st)"
  by (auto simp: emitThreadStarted_def Let_def emitEvent_def)

lemma counts_ok_flushThreadNotification: "counts_ok st \<Longrightarrow> counts_ok (flushThreadNotification t st)"
  unfolding flushThreadNotification_def
  by (auto intro!: counts_ok_emitThreadStarted elim: counts_ok_frame)

lemma seenThreads_flushThreadNotification: "seenThreads st \<subseteq> seenThreads (flushThreadNotification t st)"
  by (auto simp: flushThreadNotification_def seenThreads_emitThreadStarted)

lemma started_ok_emitThreadStarted: "started_ok st \<Longrightarrow> started_ok (emitThreadStarted t st)"
  by (auto simp: started_ok_def counts_ok_emitThreadStarted seenThreads_emitThreadStarted)

lemma started_ok_frame:
  "started_ok st \<Longrightarrow> events st' = events st \<Longrightarrow> seenThreads st' = seenThreads st \<Longrightarrow>
   threadContexts st' = threadContexts st \<Longrightarrow> started_ok st'"
  unfolding started_ok_def using counts_ok_frame by auto

lemma started_ok_quiet:
  "started_ok st \<Longrightarrow> quiet_ext st st' \<Longrightarrow> threadContexts st' = threadContexts st \<Longrightarrow> started_ok st'"
  unfolding started_ok_def using counts_ok_quiet by (auto simp: quiet_ext_def)

lemma started_ok_settle: "started_ok st \<Longrightarrow> started_ok (settle h out st)"
  by (erule started_ok_frame) simp_all

lemma started_ok_resume: "started_ok st \<Longrightarrow> started_ok (resume k r st)"
proof (cases k)
  case (CreateThreadK h c)
  assume a: "started_ok st"
  show ?thesis
  proof (cases r)
    case (Inl e)
    then show ?thesis using a CreateThreadK by (simp add: started_ok_settle)
  next
    case (Inr v)
    let ?t = "field (field v ''thread'') ''id''"
    show ?thesis
    proof (cases "truthy ?t")
      case False
      then show ?thesis using a CreateThreadK Inr by (simp add: started_ok_settle)
    next
      case True
      let ?sid = "case ctx_sessionId c of Some s \<Rightarrow> JStr s | None \<Rightarrow> ?t"
      let ?st1 = "st\<lparr>threadContexts := (threadContexts st)(?t \<mapsto> \<lparr>sessionId = ?sid, cwd = workspaceRoot c\<rparr>)\<rparr>"
      let ?st3 = "emitThreadStarted ?t (flushThreadNotification ?t ?st1)"
      have c1: "counts_ok ?st1" using a by (auto simp: started_ok_def elim: counts_ok_frame)
      have c3: "counts_ok ?st3"
        by (intro counts_ok_emitThreadStarted counts_ok_flushThreadNotification c1)
      have s: "insert ?t (seenThreads st) \<subseteq> seenThreads ?st3"
        using seenThreads_flushThreadNotification[of ?st1 ?t]
        by (auto simp: seenThreads_emitThreadStarted)
      have d: "dom (threadContexts ?st3) \<subseteq> seenThreads ?st3"
        using a s by (auto simp: started_ok_def)
      have "started_ok ?st3" using c3 d by (simp add: started_ok_def)
      then show ?thesis
        using CreateThreadK Inr True by (simp add: Let_def started_ok_settle)
    qed
  qed
next
  case (SendUserMessageK h t)
  assume a: "started_ok st"
  show ?thesis
    using SendUserMessageK
    by (cases r) (auto simp: Let_def intro!: started_ok_settle started_ok_frame[OF a])
qed (auto intro!: started_ok_settle)

lemma started_ok_on_thread_started: "started_ok st \<Longrightarrow> started_ok (on_thread_started p st)"
  unfolding on_thread_started_def Let_def
  by (auto intro!: started_ok_emitThreadStarted elim: started_ok_frame)

lemma started_ok_branches:
  assumes "started_ok st"
  shows "started_ok (handleCodexEvent dec m p st)"
    "started_ok (on_turn_started p st)"
    "started_ok (on_turn_completed p st)"
    "started_ok (on_item m p st)"
    "started_ok (on_agent_message_delta p st)"
    "started_ok (on_command_output_delta p st)"
    "started_ok (on_reasoning_summary_delta p st)"
    "started_ok (emitApprovalRequest now m p r st)"
    "started_ok (on_exit c s st)"
  by (rule started_ok_quiet[OF assms];
      simp add: quiet_ext_handleCodexEvent quiet_ext_on_turn_started quiet_ext_on_turn_completed
        quiet_ext_on_item quiet_ext_on_agent_message_delta quiet_ext_on_command_output_delta
        quiet_ext_on_reasoning_summary_delta quiet_ext_emitApprovalRequest quiet_ext_on_exit)+

lemma started_ok_handleNotification:
  assumes "started_ok st"
  shows "started_ok (handleNotification dec now m p st)"
  unfolding handleNotification_def
  by (simp add: assms started_ok_branches[OF assms] started_ok_on_thread_started[OF assms])

lemma started_ok_handleResponse:
  assumes "started_ok st" "handleResponse msg st = Inr st'"
  shows "started_ok st'"
  using assms(2)
proof (cases rule: handleResponse_cases)
  case (1 e)
  then show ?thesis using assms(1) by (auto elim: started_ok_frame)
next
  case 2
  then show ?thesis using assms(1) by (auto elim: started_ok_frame)
next
  case 3
  then show ?thesis using assms(1) by simp
next
  case (4 n p r)
  show ?thesis unfolding 4(2)
    by (rule started_ok_resume) (auto intro: started_ok_frame[OF assms(1)])
qed

lemma started_ok_step: "started_ok st \<Longrightarrow> started_ok (step dec i st)"
proof (cases i)
  case (Line now line)
  assume a: "started_ok st"
  show ?thesis
  proof (cases "handleLine dec now line st")
    case (Inl e)
    then show ?thesis using a Line by simp
  next
    case (Inr st')
    have "started_ok st'"
      using Inr
    proof (cases rule: handleLine_cases)
      case (2 msg)
      then show ?thesis
      proof (cases rule: handleServerRequest_cases)
        case (1 m p r)
        then show ?thesis using started_ok_branches(8)[OF a] by simp
      next
        case (2 m)
        then show ?thesis using a by (auto elim: started_ok_frame)
      qed
    next
      case (3 msg)
      then show ?thesis using a started_ok_handleResponse by blast
    next
      case (4 m p)
      then show ?thesis using a started_ok_handleNotification by simp
    qed (use a in simp)
    then show ?thesis using Line Inr by simp
  qed
next
  case (ProcExit c s)
  assume "started_ok st"
  then show ?thesis using ProcExit started_ok_branches(9) by simp
qed (auto elim: started_ok_frame)

lemma started_ok_reachable:
  assumes "construct options w = Inr st0"
  shows "started_ok (run dec ins st0)"
proof (rule run_invariant)
  show "started_ok st0"
    by (simp add: started_ok_def counts_ok_def started_count_def construct_Inr[OF assms])
qed (rule started_ok_step)

section \<open>Thread started, after the creation\<close>

lemma seen_ok_frame:
  "seen_ok st \<Longrightarrow> seenThreads st' = seenThreads st \<Longrightarrow> threadContexts st' = threadContexts st \<Longrightarrow>
   seen_ok st'"
  by (simp add: seen_ok_def)

lemma seen_ok_quiet:
  "seen_ok st \<Longrightarrow> quiet_ext st st' \<Longrightarrow> threadContexts st' = threadContexts st \<Longrightarrow> seen_ok st'"
  by (simp add: seen_ok_def quiet_ext_def)

lemma seen_ok_settle: "seen_ok st \<Longrightarrow> seen_ok (settle h out st)"
  by (erule seen_ok_frame) (simp_all add: settle_def)

lemma seen_ok_resume: "seen_ok st \<Longrightarrow> seen_ok (resume k r st)"
proof (cases k)
  case (CreateThreadK h c)
  assume a: "seen_ok st"
  show ?thesis
  proof (cases r)
    case (Inl e)
    then show ?thesis using a CreateThreadK by (simp add: seen_ok_settle)
  next
    case (Inr v)
    let ?t = "field (field v ''thread'') ''id''"
    show ?thesis
    proof (cases "truthy ?t")
      case False
      then show ?thesis using a CreateThreadK Inr by (simp add: seen_ok_settle)
    next
      case True
      let ?sid = "case ctx_sessionId c of Some s \<Rightarrow> JStr s | None \<Rightarrow> ?t"
      let ?st1 = "st\<lparr>threadContexts := (threadContexts st)(?t \<mapsto> \<lparr>sessionId = ?sid, cwd = workspaceRoot c\<rparr>)\<rparr>"
      let ?st3 = "emitThreadStarted ?t (flushThreadNotification ?t ?st1)"
      have s: "seenThreads ?st3 \<subseteq> insert ?t (seenThreads st)"
        by (auto simp: seenThreads_emitThreadStarted flushThreadNotification_def)
      have "seen_ok ?st3"
        using a s by (auto simp: seen_ok_def)
      then show ?thesis
        using CreateThreadK Inr True by (simp add: Let_def seen_ok_settle)
    qed
  qed
next
  case (SendUserMessageK h t)
  assume a: "seen_ok st"
  show ?thesis
    using SendUserMessageK
    by (cases r) (auto simp: Let_def intro!: seen_ok_settle seen_ok_frame[OF a])
qed (auto intro!: seen_ok_settle)

lemma seen_ok_on_thread_started: "seen_ok st \<Longrightarrow> seen_ok (on_thread_started p st)"
  unfolding on_thread_started_def Let_def
  by (auto simp: seen_ok_def seenThreads_emitThreadStarted)

lemma seen_ok_branches:
  assumes "seen_ok st"
  shows "seen_ok (handleCodexEvent dec m p st)"
    "seen_ok (on_turn_started p st)"
    "seen_ok (on_turn_completed p st)"
    "seen_ok (on_item m p st)"
    "seen_ok (on_agent_message_delta p st)"
    "seen_ok (on_command_output_delta p st)"
    "seen_ok (on_reasoning_summary_delta p st)"
    "seen_ok (emitApprovalRequest now m p r st)"
    "seen_ok (on_exit c s st)"
  by (rule seen_ok_quiet[OF assms];
      simp add: quiet_ext_handleCodexEvent quiet_ext_on_turn_started quiet_ext_on_turn_completed
        quiet_ext_on_item quiet_ext_on_agent_message_delta quiet_ext_on_command_output_delta
        quiet_ext_on_reasoning_summary_delta quiet_ext_emitApprovalRequest quiet_ext_on_exit)+

lemma seen_ok_handleNotification:
  assumes "seen_ok st"
  shows "seen_ok (handleNotification dec now m p st)"
  unfolding handleNotification_def
  by (simp add: assms seen_ok_branches[OF assms] seen_ok_on_thread_started[OF assms])

lemma seen_ok_handleResponse:
  assumes "seen_ok st" "handleResponse msg st = Inr st'"
  shows "seen_ok st'"
  using assms(2)
proof (cases rule: handleResponse_cases)
  case (1 e)
  then show ?thesis using assms(1) by (auto elim: seen_ok_frame)
next
  case 2
  then show ?thesis using assms(1) by (auto elim: seen_ok_frame)
next
  case 3
  then show ?thesis using assms(1) by simp
next
  case (4 n p r)
  show ?thesis unfolding 4(2)
    by (rule seen_ok_resume) (auto intro: seen_ok_frame[OF assms(1)])
qed

lemma seen_ok_step: "seen_ok st \<Longrightarrow> seen_ok (step dec i st)"
proof (cases i)
  case (Line now line)
  assume a: "seen_ok st"
  show ?thesis
  proof (cases "handleLine dec now line st")
    case (Inl e)
    then show ?thesis using a Line by simp
  next
    case (Inr st')
    have "seen_ok st'"
      using Inr
    proof (cases rule: handleLine_cases)
      case (2 msg)
      then show ?thesis
      proof (cases rule: handleServerRequest_cases)
        case (1 m p r)
        then show ?thesis using seen_ok_branches(8)[OF a] by simp
      next
        case (2 m)
        then show ?thesis using a by (auto elim: seen_ok_frame)
      qed
    next
      case (3 msg)
      then show ?thesis using a seen_ok_handleResponse by blast
    next
      case (4 m p)
      then show ?thesis using a seen_ok_handleNotification by simp
    qed (use a in simp)
    then show ?thesis using Line Inr by simp
  qed
next
  case (ProcExit c s)
  assume "seen_ok st"
  then show ?thesis using ProcExit seen_ok_branches(9) by simp
qed (auto elim: seen_ok_frame)

lemma seen_ok_reachable:
  assumes "construct options w = Inr st0"
  shows "seen_ok (run dec ins st0)"
proof (rule run_invariant)
  show "seen_ok st0"
    by (simp add: seen_ok_def construct_Inr[OF assms])
qed (rule seen_ok_step)

lemma on_thread_started_deferred:
  assumes "field (field p ''thread'') ''id'' = t" "truthy t" "threadContexts st t = None"
  shows "handleNotification dec now ''thread/started'' p st
           = st\<lparr>pendingThreadNotifications := insert t (pendingThreadNotifications st)\<rparr>"
  using assms by (simp add: handleNotification_def on_thread_started_def)

text \<open>
  C6. In every state a bridge can reach, and for every thread id that is a primitive
  value (the ids of the protocol are strings), the \<^verbatim>\<open>thread.started\<close> event of the
  thread has been emitted at most once: exactly once when the thread context exists
  (\<^verbatim>\<open>createThread\<close> has registered the thread), and not at all before, whatever the
  order of the peer's notification and of the response to \<^verbatim>\<open>thread/start\<close>. The peer's
  notification of a thread that has no context yet emits nothing: the thread id is put
  aside in \<open>pendingThreadNotifications\<close>.
\<close>

theorem thread_started_once:
  assumes "construct options w = Inr st0" and "st = run dec ins st0" and "primitive t"
  shows "started_count st t \<le> 1
       \<and> (threadContexts st t \<noteq> None \<longrightarrow> started_count st t = 1)
       \<and> (threadContexts st t = None \<longrightarrow> started_count st t = 0)
       \<and> (field (field params ''thread'') ''id'' = t \<and> truthy t \<and> threadContexts st t = None
            \<longrightarrow> handleNotification dec now ''thread/started'' params st
                  = st\<lparr>pendingThreadNotifications := insert t (pendingThreadNotifications st)\<rparr>)"
proof -
  have a: "started_ok st" unfolding assms(2) by (rule started_ok_reachable[OF assms(1)])
  have b: "seen_ok st" unfolding assms(2) by (rule seen_ok_reachable[OF assms(1)])
  have c: "started_count st t = (if t \<in> seenThreads st then 1 else 0)"
    using a unfolding started_ok_def counts_ok_def by blast
  have 1: "started_count st t \<le> 1" using c by simp
  have 2: "threadContexts st t \<noteq> None \<longrightarrow> started_count st t = 1"
    using a c unfolding started_ok_def by (auto simp: dom_def subset_eq)
  have 3: "threadContexts st t = None \<longrightarrow> started_count st t = 0"
    using b c unfolding seen_ok_def by (auto simp: dom_def subset_eq)
  have 4: "field (field params ''thread'') ''id'' = t \<and> truthy t \<and> threadContexts st t = None
            \<longrightarrow> handleNotification dec now ''thread/started'' params st
                  = st\<lparr>pendingThreadNotifications := insert t (pendingThreadNotifications st)\<rparr>"
    using on_thread_started_deferred by blast
  show ?thesis by (rule conjI[OF 1 conjI[OF 2 conjI[OF 3 4]]])
qed

theorem thread_started_once_witness:
  "primitive (JStr ''T1'')
   \<and> threadContexts (run id peer_first fresh_state) (JStr ''T1'') \<noteq> None
   \<and> started_count (run id peer_first fresh_state) (JStr ''T1'') = 1
   \<and> threadContexts (run id local_first fresh_state) (JStr ''T1'') \<noteq> None
   \<and> started_count (run id local_first fresh_state) (JStr ''T1'') = 1
   \<and> threadContexts (run id (take 3 peer_first) fresh_state) (JStr ''T1'') = None
   \<and> started_count (run id (take 3 peer_first) fresh_state) (JStr ''T1'') = 0
   \<and> JStr ''T1'' \<in> pendingThreadNotifications (run id (take 3 peer_first) fresh_state)"
proof -
  let ?p = "JObj [(''thread'', JObj [(''id'', JStr ''T1'')])]"
  have p: "primitive (JStr ''T1'')" by simp
  have a: "threadContexts (run id peer_first fresh_state) (JStr ''T1'') \<noteq> None" by code_simp
  have b: "threadContexts (run id local_first fresh_state) (JStr ''T1'') \<noteq> None" by code_simp
  have c: "threadContexts (run id (take 2 peer_first) fresh_state) (JStr ''T1'') = None" by code_simp
  have d: "threadContexts (run id (take 3 peer_first) fresh_state) (JStr ''T1'') = None" by code_simp
  have s: "run id (take 3 peer_first) fresh_state
             = handleNotification id 0 ''thread/started'' ?p (run id (take 2 peer_first) fresh_state)"
    by (simp add: peer_first_def run_def notification_def handleLine_def nc_def)
  have f: "field (field ?p ''thread'') ''id'' = JStr ''T1'' \<and> truthy (JStr ''T1'')" by simp
  note t1 = thread_started_once[OF construct_default refl p, of id peer_first]
  note t2 = thread_started_once[OF construct_default refl p, of id local_first]
  note t3 = thread_started_once[OF construct_default refl p, of id "take 3 peer_first"]
  note t4 = thread_started_once[OF construct_default refl p, of id "take 2 peer_first" ?p 0]
  have e: "JStr ''T1'' \<in> pendingThreadNotifications (run id (take 3 peer_first) fresh_state)"
    unfolding s using t4 c f by simp
  show ?thesis
    using t1 t2 t3 a b d e p by simp
qed

section \<open>Process exit\<close>

lemma fold_reject_pending_promises:
  "rpcPromises (fold (reject_pending e) ps st) i =
     (if i \<in> fst ` set ps then Some (Rejected e) else rpcPromises st i)"
  by (induction ps arbitrary: st) auto

lemma readyReject_ready:
  "ready (readyReject e st) = (if ready st = ReadyPending then ReadyRejected e else ready st)"
  by (simp add: readyReject_def)

text \<open>
  C7. When the process exits, the promise of every pending call is rejected with an
  error that names the exit code and the signal, the table of pending calls is empty,
  and one event is emitted: an \<^verbatim>\<open>error\<close> event with \<^verbatim>\<open>recoverable: true\<close>. A readiness
  that was pending is rejected with the same error.
\<close>

theorem process_exit_fails_pending:
  "let e = Error (exit_message code signal); st' = on_exit code signal st
   in (\<forall>p\<in>set (pendingRequests st). rpcPromises st' (fst p) = Some (Rejected e))
      \<and> pendingRequests st' = []
      \<and> events st' = events st @ [error_event (exit_message code signal)]
      \<and> payload_field (error_event (exit_message code signal)) ''recoverable'' = JBool True
      \<and> (ready st = ReadyPending \<longrightarrow> ready st' = ReadyRejected e)"
  by (simp add: Let_def on_exit_def failAll_def error_event_def payload_field_def
      fold_reject_pending_promises readyReject_ready)

theorem process_exit_fails_pending_witness:
  "map fst (pendingRequests two_pending) = [2, 3]
   \<and> rpcPromises (on_exit (Some 1) None two_pending) 2
       = Some (Rejected (Error ''codex app-server exited (code=1 signal=?)''))
   \<and> rpcPromises (on_exit (Some 1) None two_pending) 3
       = Some (Rejected (Error ''codex app-server exited (code=1 signal=?)''))
   \<and> pendingRequests (on_exit (Some 1) None two_pending) = []
   \<and> events (on_exit (Some 1) None two_pending)
       = [error_event ''codex app-server exited (code=1 signal=?)'']"
proof -
  have p: "map fst (pendingRequests two_pending) = [2, 3]" by code_simp
  have m: "exit_message (Some 1) None = ''codex app-server exited (code=1 signal=?)''" by code_simp
  have ev: "events two_pending = []" by code_simp
  have "set (map fst (pendingRequests two_pending)) = {2, 3}"
    unfolding p by simp
  then have "2 \<in> fst ` set (pendingRequests two_pending)" "3 \<in> fst ` set (pendingRequests two_pending)"
    by simp_all
  then have "\<exists>p\<in>set (pendingRequests two_pending). fst p = 2"
    "\<exists>p\<in>set (pendingRequests two_pending). fst p = 3" by force+
  then show ?thesis
    using process_exit_fails_pending[of "Some 1" None two_pending] p ev
    unfolding m Let_def by auto
qed

section \<open>Handshake\<close>

lemma field_defined_not_nullish: "field msg k \<noteq> JUndefined \<Longrightarrow> \<not> nullish msg"
  by (cases msg) simp_all

lemma sent_run_waiter: "\<exists>rest. sent (run_waiter w st) = sent st @ rest"
  by (cases w) (simp_all add: createThread_body_def sendUserMessage_body_def cancel_body_def rpc_eq Let_def)

lemma sent_fold_run_waiter: "\<exists>rest. sent (fold run_waiter ws st) = sent st @ rest"
proof (induction ws arbitrary: st)
  case Nil
  then show ?case by simp
next
  case (Cons w ws)
  obtain r1 where r1: "sent (run_waiter w st) = sent st @ r1" using sent_run_waiter by blast
  obtain r2 where "sent (fold run_waiter ws (run_waiter w st)) = sent (run_waiter w st) @ r2"
    using Cons.IH by blast
  then show ?case using r1 by simp
qed

lemma waiters_fold_run_waiter: "waiters (fold run_waiter ws st) = waiters st"
  by simp

lemma createThread_when_ready:
  assumes "ready st = ReadyResolved" "writable st"
  shows "sent (createThread c st) =
           sent st @ [JObj [(''method'', JStr ''thread/start''), (''id'', JNum (nextId st)),
                            (''params'', JObj [(''model'', JStr (model st)), (''cwd'', JStr (workspaceRoot c)),
                                               (''approvalPolicy'', JStr (approvalPolicy st)),
                                               (''sandbox'', JStr (sandbox st))])]]"
  using assms
  by (simp add: createThread_def await_ready_def createThread_body_def rpc_eq new_call_def Let_def)

text \<open>
  C8. While the handshake is pending and the input of the process is open, the
  response whose id is the recorded id of \<^verbatim>\<open>initialize\<close>: without an error, the bridge
  sends \<^verbatim>\<open>initialized\<close> and readiness is resolved, so that \<^verbatim>\<open>createThread\<close> sends its
  \<^verbatim>\<open>thread/start\<close> call at once; with an error, nothing is sent and readiness is
  rejected with the error of the response.
\<close>

theorem handshake_response:
  assumes "initRequestId st = Some n" and "ready st = ReadyPending" and "writable st"
    and "field msg ''id'' = JNum n" and "\<not> truthy (field msg ''method'')"
  shows "(\<not> truthy (field msg ''error'') \<longrightarrow>
           (\<exists>st' rest. handleLine dec now (Some msg) st = Inr st'
              \<and> sent st' = sent st @ initialized_message # rest
              \<and> ready st' = ReadyResolved \<and> waiters st' = []
              \<and> (\<forall>c. \<exists>m. sent (createThread c st') = sent st' @ [m]
                          \<and> field m ''method'' = JStr ''thread/start'')))
       \<and> (truthy (field msg ''error'') \<longrightarrow>
           (\<exists>st'. handleLine dec now (Some msg) st = Inr st'
              \<and> sent st' = sent st
              \<and> ready st' = ReadyRejected (response_error msg ''initialize failed'')))"
proof -
  have nn: "\<not> nullish msg" using assms(4) field_defined_not_nullish[of msg "''id''"] by simp
  have hl: "handleLine dec now (Some msg) st = handleResponse msg st"
    using nn assms(4,5) by (simp add: handleLine_def)
  have init: "is_init_id (initRequestId st) (field msg ''id'')"
    using assms(1,4) by (simp add: is_init_id_def)
  show ?thesis
  proof (cases "truthy (field msg ''error'')")
    case True
    then show ?thesis
      using hl init assms(2) by (simp add: handleResponse_def readyReject_ready)
  next
    case False
    let ?s1 = "st\<lparr>sent := sent st @ [initialized_message]\<rparr>"
    let ?st' = "(readyResolve ?s1)\<lparr>initRequestId := None\<rparr>"
    have r: "handleLine dec now (Some msg) st = Inr ?st'"
      using hl init False assms(3) by (simp add: handleResponse_def send_def initialized_message_def)
    have rr: "readyResolve ?s1 = fold run_waiter (waiters st) (?s1\<lparr>ready := ReadyResolved, waiters := []\<rparr>)"
      using assms(2) by (simp add: readyResolve_def)
    obtain rest where rest: "sent (readyResolve ?s1) = (sent st @ [initialized_message]) @ rest"
      unfolding rr using sent_fold_run_waiter[of "waiters st" "?s1\<lparr>ready := ReadyResolved, waiters := []\<rparr>"]
      by auto
    have rd: "ready ?st' = ReadyResolved" "waiters ?st' = []" "writable ?st'"
      unfolding rr using assms(3) by simp_all
    have ct: "\<forall>c. \<exists>m. sent (createThread c ?st') = sent ?st' @ [m] \<and> field m ''method'' = JStr ''thread/start''"
      using createThread_when_ready[OF rd(1) rd(3)] by simp
    show ?thesis
      using False r rest rd ct by auto
  qed
qed

theorem handshake_response_witness:
  "initRequestId fresh_state = Some 1 \<and> ready fresh_state = ReadyPending \<and> writable fresh_state
   \<and> (\<exists>st' rest.
         handleLine id 0 (Some (JObj [(''id'', JNum 1), (''result'', JObj [(''userAgent'', JObj [])])])) fresh_state
           = Inr st'
         \<and> sent st' = sent fresh_state @ initialized_message # rest
         \<and> ready st' = ReadyResolved)
   \<and> (\<exists>st'. handleLine id 0 (Some (JObj [(''id'', JNum 1), (''error'', JObj [(''message'', JStr ''no'')])])) fresh_state
           = Inr st'
         \<and> ready st' = ReadyRejected (Error ''no''))"
proof -
  have h: "initRequestId fresh_state = Some 1" "ready fresh_state = ReadyPending" "writable fresh_state"
    by (simp_all add: fresh_state_def)
  have e: "response_error (JObj [(''id'', JNum 1), (''error'', JObj [(''message'', JStr ''no'')])]) ''initialize failed''
           = Error ''no''"
    by (simp add: response_error_def nc_def)
  show ?thesis
    using handshake_response[OF h, of "JObj [(''id'', JNum 1), (''result'', JObj [(''userAgent'', JObj [])])]" id 0]
      handshake_response[OF h, of "JObj [(''id'', JNum 1), (''error'', JObj [(''message'', JStr ''no'')])]" id 0]
      h e
    by auto
qed


section \<open>Approvals\<close>

lemma adds_no_result_refl: "sent st' = sent st \<Longrightarrow> adds_no_result st st'"
  by (simp add: adds_no_result_def)

lemma adds_no_result_trans:
  "adds_no_result st st' \<Longrightarrow> adds_no_result st' st'' \<Longrightarrow> adds_no_result st st''"
  unfolding adds_no_result_def by auto

lemma resp_ok_adds:
  "resp_ok st \<Longrightarrow> adds_no_result st st' \<Longrightarrow> pendingApprovals st' = pendingApprovals st \<Longrightarrow> resp_ok st'"
  unfolding resp_ok_def adds_no_result_def by auto

lemma adds_no_result_run_waiter: "adds_no_result st (run_waiter w st)"
  by (cases w)
     (simp_all add: adds_no_result_def createThread_body_def sendUserMessage_body_def cancel_body_def
        rpc_eq Let_def)

lemma adds_no_result_fold_run_waiter: "adds_no_result st (fold run_waiter ws st)"
proof (induction ws arbitrary: st)
  case Nil
  then show ?case by (simp add: adds_no_result_def)
next
  case (Cons w ws)
  show ?case
    using adds_no_result_trans[OF adds_no_result_run_waiter[of st w] Cons.IH[of "run_waiter w st"]]
    by simp
qed

lemma adds_no_result_readyResolve: "adds_no_result st (readyResolve st)"
proof (cases "ready st = ReadyPending")
  case True
  have "adds_no_result (st\<lparr>ready := ReadyResolved, waiters := []\<rparr>)
          (fold run_waiter (waiters st) (st\<lparr>ready := ReadyResolved, waiters := []\<rparr>))"
    by (rule adds_no_result_fold_run_waiter)
  then show ?thesis using True by (simp add: readyResolve_def adds_no_result_def)
next
  case False
  then show ?thesis by (simp add: readyResolve_def adds_no_result_def)
qed

lemma adds_no_result_public:
  "adds_no_result st (createThread c st)"
  "adds_no_result st (sendUserMessage t x a st)"
  "adds_no_result st (cancel t st)"
  by (simp_all add: adds_no_result_def createThread_def sendUserMessage_def cancel_def await_ready_def
      createThread_body_def sendUserMessage_body_def cancel_body_def rpc_eq Let_def new_call_def
      split: ready_state.splits)

lemma resp_ok_respondApproval: "resp_ok st \<Longrightarrow> resp_ok (respondApproval a d st)"
  unfolding resp_ok_def respondApproval_def Let_def
  by (auto simp: send_def rpc_eq new_call_def split: option.splits if_splits)

lemma resp_ok_emitApprovalRequest: "resp_ok st \<Longrightarrow> resp_ok (emitApprovalRequest now m p r st)"
  unfolding resp_ok_def emitApprovalRequest_def Let_def
  by (auto simp: emitEvent_def split: if_splits)

lemma resp_ok_frame:
  "resp_ok st \<Longrightarrow> sent st' = sent st \<Longrightarrow> pendingApprovals st' = pendingApprovals st \<Longrightarrow> resp_ok st'"
  by (simp add: resp_ok_def)

lemma resp_ok_handleResponse:
  assumes "resp_ok st" "handleResponse msg st = Inr st'"
  shows "resp_ok st'"
  using assms(2)
proof (cases rule: handleResponse_cases)
  case (1 e)
  then show ?thesis using assms(1) by (auto elim: resp_ok_frame)
next
  case 2
  let ?s1 = "st\<lparr>sent := sent st @ [JObj [(''method'', JStr ''initialized''), (''params'', JObj [])]]\<rparr>"
  have a: "adds_no_result st ?s1" by (simp add: adds_no_result_def)
  have "adds_no_result st (readyResolve ?s1)"
    by (rule adds_no_result_trans[OF a adds_no_result_readyResolve])
  then have "adds_no_result st st'" unfolding 2(2) by (simp add: adds_no_result_def)
  then show ?thesis using assms(1) 2(2) by (auto elim: resp_ok_adds)
next
  case 3
  then show ?thesis using assms(1) by simp
next
  case (4 n p r)
  then show ?thesis using assms(1) by (auto elim: resp_ok_frame)
qed

lemma resp_ok_step: "resp_ok st \<Longrightarrow> resp_ok (step dec i st)"
proof (cases i)
  case (Line now line)
  assume a: "resp_ok st"
  show ?thesis
  proof (cases "handleLine dec now line st")
    case (Inl e)
    then show ?thesis using a Line by simp
  next
    case (Inr st')
    have "resp_ok st'"
      using Inr
    proof (cases rule: handleLine_cases)
      case (2 msg)
      then show ?thesis
      proof (cases rule: handleServerRequest_cases)
        case (1 m p r)
        then show ?thesis using resp_ok_emitApprovalRequest[OF a] by simp
      next
        case (2 m)
        then show ?thesis using a by (auto simp: resp_ok_def)
      qed
    next
      case (3 msg)
      then show ?thesis using a resp_ok_handleResponse by blast
    next
      case (4 m p)
      then show ?thesis using a by (auto elim: resp_ok_frame)
    qed (use a in simp)
    then show ?thesis using Line Inr by simp
  qed
next
  case (CallCreateThread c)
  assume "resp_ok st"
  then show ?thesis using CallCreateThread adds_no_result_public(1) by (auto elim: resp_ok_adds)
next
  case (CallSendUserMessage t x a)
  assume "resp_ok st"
  then show ?thesis using CallSendUserMessage adds_no_result_public(2) by (auto elim: resp_ok_adds)
next
  case (CallCancel t)
  assume "resp_ok st"
  then show ?thesis using CallCancel adds_no_result_public(3) by (auto elim: resp_ok_adds)
next
  case (CallRespondApproval a d)
  assume "resp_ok st"
  then show ?thesis using CallRespondApproval resp_ok_respondApproval by simp
qed (auto elim: resp_ok_frame)

lemma resp_ok_reachable:
  assumes "construct options w = Inr st0"
  shows "resp_ok (run dec ins st0)"
proof (rule run_invariant)
  show "resp_ok st0"
    by (simp add: resp_ok_def construct_Inr[OF assms] initialize_message_def)
qed (rule resp_ok_step)

lemma emitApprovalRequest_falsy:
  assumes "\<not> truthy r"
  shows "\<exists>a. events (emitApprovalRequest now m p r st) =
               events st @ [\<lparr>ev_type = ''approval.request'', ev_sessionId = ap_sessionId a,
                             ev_turnId = ap_turnId a, ev_payload = ApprovalPayload a\<rparr>]
           \<and> respond a = None
           \<and> ap_id a = (if nullish (extractApprovalId p)
                        then ''approval_'' @ number_to_string now @ ''_'' @ number_to_string (nextId st)
                        else js_String (extractApprovalId p))
           \<and> ap_turnId a = nc (resolveTurnId p) (JStr ''unknown'')
           \<and> ap_sessionId a = resolveSessionId st (resolveThreadId p) (nc (resolveTurnId p) (JStr ''unknown''))"
  using assms
  by (cases "nullish (extractApprovalId p)")
     (simp_all add: emitApprovalRequest_def Let_def emitEvent_def)

lemma respondApproval_notification:
  assumes "pendingApprovals st a = None" "pendingNotificationApprovals st a = Some x" "writable st"
  shows "sent (respondApproval a d st) = sent st @ [approval_respond_message (nextId st) a (mapDecision d)]"
    "pendingNotificationApprovals (respondApproval a d st) = pendingNotificationApprovals st"
    "pendingApprovals (respondApproval a d st) = pendingApprovals st"
  using assms
  by (simp_all add: respondApproval_def Let_def rpc_eq new_call_def approval_respond_message_def)

text \<open>The request-backed path consumes its ticket: the second decision sends nothing.\<close>

lemma respondApproval_request_once:
  assumes "pendingApprovals st a = Some rid" "pendingNotificationApprovals st a = None" "writable st"
  shows "sent (respondApproval a d' (respondApproval a d st)) =
           sent st @ [JObj [(''id'', rid), (''result'', JObj [(''decision'', JStr (mapDecision d))])]]"
  using assms
  by (simp add: respondApproval_def Let_def send_def new_call_def settle_def)

text \<open>
  C1, at a notification-backed ticket: the ticket is not removed when it is answered,
  and the second decision for the same identifier sends a second
  \<^verbatim>\<open>approval/respond\<close> call.
\<close>

theorem notification_ticket_answered_twice:
  "sent (run id approval_twice fresh_state) =
     [initialize_message, initialized_message,
      approval_respond_message 2 ''a1'' ''accept'',
      approval_respond_message 3 ''a1'' ''accept'']"
  by code_simp

text \<open>
  C10. A peer call that asks for an approval with the id 0: nothing is sent, no
  responder is registered, the ticket is registered as notification-backed under the
  identifier of the params (or a generated one), and the event carries no responder.
  A decision for the ticket is sent as an \<^verbatim>\<open>approval/respond\<close> call, and in no run does
  the bridge send a response with a result whose id is 0.
\<close>

theorem approval_call_with_id_zero:
  assumes "construct options w = Inr st0"
    and "field msg ''id'' = JNum 0"
    and "includes_str (js_String (field msg ''method'')) ''requestApproval''"
  shows "(\<exists>st' a. handleServerRequest now msg st = Inr st'
           \<and> sent st' = sent st
           \<and> pendingApprovals st' = pendingApprovals st
           \<and> events st' = events st @ [\<lparr>ev_type = ''approval.request'', ev_sessionId = ap_sessionId a,
                                         ev_turnId = ap_turnId a, ev_payload = ApprovalPayload a\<rparr>]
           \<and> respond a = None
           \<and> ap_id a = (let x = extractApprovalId (nc (field msg ''params'') (JObj []))
                        in if nullish x
                           then ''approval_'' @ number_to_string now @ ''_'' @ number_to_string (nextId st)
                           else js_String x)
           \<and> pendingNotificationApprovals st' (ap_id a)
                = Some (js_String (field msg ''method''), nc (field msg ''params'') (JObj []))
           \<and> (pendingApprovals st (ap_id a) = None \<and> writable st \<longrightarrow>
                (\<forall>d. sent (respondApproval (ap_id a) d st')
                       = sent st' @ [approval_respond_message (nextId st') (ap_id a) (mapDecision d)])))
       \<and> (\<forall>m\<in>set (sent (run dec ins st0)).
            field m ''result'' \<noteq> JUndefined \<longrightarrow> field m ''id'' \<noteq> JNum 0)"
proof -
  let ?meth = "js_String (field msg ''method'')"
  let ?params = "nc (field msg ''params'') (JObj [])"
  let ?st' = "emitApprovalRequest now ?meth ?params (JNum 0) st"
  let ?x = "extractApprovalId ?params"
  let ?id = "if nullish ?x then ''approval_'' @ number_to_string now @ ''_'' @ number_to_string (nextId st)
             else js_String ?x"
  have r: "handleServerRequest now msg st = Inr ?st'"
    using assms(2,3) by (simp add: handleServerRequest_def Let_def)
  obtain a where a:
      "events ?st' = events st @ [\<lparr>ev_type = ''approval.request'', ev_sessionId = ap_sessionId a,
                                         ev_turnId = ap_turnId a, ev_payload = ApprovalPayload a\<rparr>]"
      "respond a = None" "ap_id a = ?id"
    using emitApprovalRequest_falsy[of "JNum 0" now ?meth ?params st] by auto
  have pn: "pendingNotificationApprovals ?st' ?id = Some (?meth, ?params)"
    by (simp add: emitApprovalRequest_def Let_def emitEvent_def)
  have pa: "pendingApprovals ?st' = pendingApprovals st" by simp
  have w: "writable ?st' = writable st" by simp
  have resp: "pendingApprovals st (ap_id a) = None \<and> writable st \<longrightarrow>
                (\<forall>d. sent (respondApproval (ap_id a) d ?st')
                       = sent ?st' @ [approval_respond_message (nextId ?st') (ap_id a) (mapDecision d)])"
    using respondApproval_notification(1)[of ?st' "ap_id a" "(?meth, ?params)"] pn pa w a(3)
    by auto
  have 1: "\<exists>st' a. handleServerRequest now msg st = Inr st'
           \<and> sent st' = sent st
           \<and> pendingApprovals st' = pendingApprovals st
           \<and> events st' = events st @ [\<lparr>ev_type = ''approval.request'', ev_sessionId = ap_sessionId a,
                                         ev_turnId = ap_turnId a, ev_payload = ApprovalPayload a\<rparr>]
           \<and> respond a = None
           \<and> ap_id a = (let x = extractApprovalId (nc (field msg ''params'') (JObj []))
                        in if nullish x
                           then ''approval_'' @ number_to_string now @ ''_'' @ number_to_string (nextId st)
                           else js_String x)
           \<and> pendingNotificationApprovals st' (ap_id a)
                = Some (js_String (field msg ''method''), nc (field msg ''params'') (JObj []))
           \<and> (pendingApprovals st (ap_id a) = None \<and> writable st \<longrightarrow>
                (\<forall>d. sent (respondApproval (ap_id a) d st')
                       = sent st' @ [approval_respond_message (nextId st') (ap_id a) (mapDecision d)]))"
    apply (rule exI[of _ ?st'], rule exI[of _ a])
    using r a pn pa resp by (simp add: Let_def)
  have 2: "\<forall>m\<in>set (sent (run dec ins st0)). field m ''result'' \<noteq> JUndefined \<longrightarrow> field m ''id'' \<noteq> JNum 0"
    using resp_ok_reachable[OF assms(1), of dec ins] unfolding resp_ok_def by auto
  from 1 2 show ?thesis by blast
qed

theorem approval_call_with_id_zero_witness:
  "field zero_request ''id'' = JNum 0
   \<and> includes_str (js_String (field zero_request ''method'')) ''requestApproval''
   \<and> (\<exists>st' (a :: ApprovalRequestWithResponder). handleServerRequest 5 zero_request fresh_state = Inr st'
          \<and> sent st' = sent fresh_state \<and> respond a = None \<and> ap_id a = ''approval_5_2''
          \<and> pendingApprovals st' = pendingApprovals fresh_state
          \<and> sent (respondApproval (ap_id a) approve_once st')
               = sent st' @ [approval_respond_message (nextId st') (ap_id a) ''accept''])
   \<and> sent (run id [handshake_ok, Line 5 (Some zero_request),
                     CallRespondApproval ''approval_5_2'' approve_once] fresh_state)
       = [initialize_message, initialized_message,
          approval_respond_message 3 ''approval_5_2'' ''accept'']"
proof -
  have h1: "field zero_request ''id'' = JNum 0" by (simp add: zero_request_def)
  have h2: "includes_str (js_String (field zero_request ''method'')) ''requestApproval''"
    by code_simp
  have g: "(let x = extractApprovalId (nc (field zero_request ''params'') (JObj []))
            in if nullish x
               then ''approval_'' @ number_to_string 5 @ ''_'' @ number_to_string (nextId fresh_state)
               else js_String x) = ''approval_5_2''"
    by code_simp
  have p: "pendingApprovals fresh_state ''approval_5_2'' = None" "writable fresh_state"
    by (simp_all add: fresh_state_def)
  have d: "mapDecision approve_once = ''accept''" by (simp add: mapDecision_def)
  note t = approval_call_with_id_zero[OF construct_default h1 h2, of 5 fresh_state id
        "[handshake_ok, Line 5 (Some zero_request), CallRespondApproval ''approval_5_2'' approve_once]"]
  note t' = t[unfolded g]
  from t' obtain st' and a :: ApprovalRequestWithResponder
    where x: "handleServerRequest 5 zero_request fresh_state = Inr st'"
      "sent st' = sent fresh_state" "pendingApprovals st' = pendingApprovals fresh_state"
      "respond a = None" "ap_id a = ''approval_5_2''"
      "pendingApprovals fresh_state (ap_id a) = None \<and> writable fresh_state \<longrightarrow>
         (\<forall>d. sent (respondApproval (ap_id a) d st')
                = sent st' @ [approval_respond_message (nextId st') (ap_id a) (mapDecision d)])"
    by blast
  have i: "ap_id a = ''approval_5_2''" using x(5) by simp
  have "\<forall>d. sent (respondApproval (ap_id a) d st')
                = sent st' @ [approval_respond_message (nextId st') (ap_id a) (mapDecision d)]"
    using x(6) p i by simp
  then have r: "sent (respondApproval (ap_id a) approve_once st')
                = sent st' @ [approval_respond_message (nextId st') (ap_id a) ''accept'']"
    unfolding d[symmetric] by blast
  have "\<exists>st' (a :: ApprovalRequestWithResponder). handleServerRequest 5 zero_request fresh_state = Inr st'
          \<and> sent st' = sent fresh_state \<and> respond a = None \<and> ap_id a = ''approval_5_2''
          \<and> pendingApprovals st' = pendingApprovals fresh_state
          \<and> sent (respondApproval (ap_id a) approve_once st')
               = sent st' @ [approval_respond_message (nextId st') (ap_id a) ''accept'']"
    using x(1,2,3,4) i r by blast
  moreover have "sent (run id [handshake_ok, Line 5 (Some zero_request),
                     CallRespondApproval ''approval_5_2'' approve_once] fresh_state)
       = [initialize_message, initialized_message,
          approval_respond_message 3 ''approval_5_2'' ''accept'']"
    by code_simp
  ultimately show ?thesis using h1 h2 by blast
qed


section \<open>Command executions\<close>

lemma nc_not_nullish [simp]: "\<not> nullish a \<Longrightarrow> nc a b = a"
  by (simp add: nc_def)

lemma truthy_not_nullish: "truthy a \<Longrightarrow> \<not> nullish a"
  by (cases a) simp_all

lemma exec_begin_context:
  assumes "truthy (event_threadId p)" "truthy (event_turnId p)"
  shows "\<exists>x. commandExecutions (handleCodexEvent dec ''codex/event/exec_command_begin'' p st)
               (call_id_of (event_msg p)) = Some x
             \<and> ce_threadId x = event_threadId p \<and> ce_turnId x = event_turnId p"
  using assms by (simp add: handleCodexEvent_def exec_command_begin_def Let_def)

lemma exec_output_delta_attributed:
  assumes "commandExecutions st (call_id_of (event_msg p)) = Some x"
    and "\<not> nullish (ce_threadId x)" "\<not> nullish (ce_turnId x)"
  shows "commandExecutions (handleCodexEvent dec ''codex/event/exec_command_output_delta'' p st)
           = commandExecutions st"
    and "\<exists>es. events (handleCodexEvent dec ''codex/event/exec_command_output_delta'' p st) = events st @ es
            \<and> (\<forall>e\<in>set es. ev_turnId e = ce_turnId x \<and> payload_field e ''threadId'' = ce_threadId x)"
  using assms
  by (simp_all add: handleCodexEvent_def exec_command_output_delta_def Let_def payload_field_def)

lemma exec_output_deltas_attributed:
  assumes "commandExecutions st c = Some x" "\<not> nullish (ce_threadId x)" "\<not> nullish (ce_turnId x)"
    and "\<forall>p\<in>set ps. call_id_of (event_msg p) = c"
  shows "commandExecutions (fold (handleCodexEvent dec ''codex/event/exec_command_output_delta'') ps st) c = Some x
       \<and> (\<exists>es. events (fold (handleCodexEvent dec ''codex/event/exec_command_output_delta'') ps st) = events st @ es
            \<and> (\<forall>e\<in>set es. ev_turnId e = ce_turnId x \<and> payload_field e ''threadId'' = ce_threadId x))"
  using assms(1,4)
proof (induction ps arbitrary: st)
  case Nil
  then show ?case by simp
next
  case (Cons p ps)
  let ?s = "handleCodexEvent dec ''codex/event/exec_command_output_delta'' p st"
  have c: "commandExecutions st (call_id_of (event_msg p)) = Some x" using Cons.prems by simp
  have k: "commandExecutions ?s c = Some x"
    using exec_output_delta_attributed(1)[OF c assms(2,3), of dec] Cons.prems(1) by simp
  obtain es1 where e1: "events ?s = events st @ es1"
      "\<forall>e\<in>set es1. ev_turnId e = ce_turnId x \<and> payload_field e ''threadId'' = ce_threadId x"
    using exec_output_delta_attributed(2)[OF c assms(2,3), of dec] by blast
  obtain es2 where e2: "commandExecutions (fold (handleCodexEvent dec ''codex/event/exec_command_output_delta'') ps ?s) c = Some x"
      "events (fold (handleCodexEvent dec ''codex/event/exec_command_output_delta'') ps ?s) = events ?s @ es2"
      "\<forall>e\<in>set es2. ev_turnId e = ce_turnId x \<and> payload_field e ''threadId'' = ce_threadId x"
    using Cons.IH[OF k] Cons.prems(2) by auto
  show ?case
    using e1 e2 by (auto intro!: exI[of _ "es1 @ es2"])
qed

lemma exec_end_attributed:
  assumes "commandExecutions st (call_id_of (event_msg p)) = Some x"
    and "\<not> nullish (ce_threadId x)" "\<not> nullish (ce_turnId x)"
  shows "\<exists>es. events (handleCodexEvent dec ''codex/event/exec_command_end'' p st) = events st @ es
            \<and> (\<forall>e\<in>set es. ev_turnId e = ce_turnId x \<and> payload_field e ''threadId'' = ce_threadId x)
            \<and> (truthy (event_threadId p) \<and> truthy (event_turnId p) \<longrightarrow>
                  length es = 1 \<and> ev_type (hd es) = ''item.completed'')"
  using assms
  by (simp add: handleCodexEvent_def exec_command_end_def Let_def payload_field_def)

text \<open>
  C3, as the code has it. After a begin notification whose thread and turn resolve,
  every event emitted for the output and end notifications of the same call carries
  the thread id and the turn id of the begin notification, whatever thread and turn
  the later notifications name; an end notification whose own thread and turn resolve
  emits one \<^verbatim>\<open>item.completed\<close> event. A low-level notification from which no thread
  id or no turn id can be read is dropped, and changes nothing.
\<close>

theorem exec_events_carry_begin_ids:
  assumes "truthy (event_threadId p0)" and "truthy (event_turnId p0)"
    and "\<forall>p\<in>set ps. call_id_of (event_msg p) = call_id_of (event_msg p0)"
    and "call_id_of (event_msg pe) = call_id_of (event_msg p0)"
  shows "(let st1 = handleCodexEvent dec ''codex/event/exec_command_begin'' p0 st;
              st2 = fold (handleCodexEvent dec ''codex/event/exec_command_output_delta'') ps st1;
              st3 = handleCodexEvent dec ''codex/event/exec_command_end'' pe st2
          in \<exists>es. events st3 = events st1 @ es
               \<and> (\<forall>e\<in>set es. ev_turnId e = event_turnId p0
                               \<and> payload_field e ''threadId'' = event_threadId p0)
               \<and> (truthy (event_threadId pe) \<and> truthy (event_turnId pe) \<longrightarrow>
                     es \<noteq> [] \<and> ev_type (last es) = ''item.completed''))
       \<and> (\<forall>method p s. \<not> truthy (event_threadId p) \<or> \<not> truthy (event_turnId p)
              \<longrightarrow> handleCodexEvent dec method p s = s)"
proof -
  let ?c = "call_id_of (event_msg p0)"
  let ?st1 = "handleCodexEvent dec ''codex/event/exec_command_begin'' p0 st"
  let ?st2 = "fold (handleCodexEvent dec ''codex/event/exec_command_output_delta'') ps ?st1"
  let ?st3 = "handleCodexEvent dec ''codex/event/exec_command_end'' pe ?st2"
  obtain x where x: "commandExecutions ?st1 ?c = Some x"
      "ce_threadId x = event_threadId p0" "ce_turnId x = event_turnId p0"
    using exec_begin_context[OF assms(1,2)] by blast
  have n: "\<not> nullish (ce_threadId x)" "\<not> nullish (ce_turnId x)"
    using x(2,3) assms(1,2) truthy_not_nullish by simp_all
  obtain es2 where e2: "commandExecutions ?st2 ?c = Some x" "events ?st2 = events ?st1 @ es2"
      "\<forall>e\<in>set es2. ev_turnId e = ce_turnId x \<and> payload_field e ''threadId'' = ce_threadId x"
    using exec_output_deltas_attributed[OF x(1) n assms(3), of dec] by blast
  have c3: "commandExecutions ?st2 (call_id_of (event_msg pe)) = Some x"
    using e2(1) assms(4) by simp
  obtain es3 where e3: "events ?st3 = events ?st2 @ es3"
      "\<forall>e\<in>set es3. ev_turnId e = ce_turnId x \<and> payload_field e ''threadId'' = ce_threadId x"
      "truthy (event_threadId pe) \<and> truthy (event_turnId pe) \<longrightarrow>
         length es3 = 1 \<and> ev_type (hd es3) = ''item.completed''"
    using exec_end_attributed[OF c3 n, of dec] by blast
  have l: "truthy (event_threadId pe) \<and> truthy (event_turnId pe) \<longrightarrow>
             es2 @ es3 \<noteq> [] \<and> ev_type (last (es2 @ es3)) = ''item.completed''"
  proof (intro impI)
    assume "truthy (event_threadId pe) \<and> truthy (event_turnId pe)"
    then have "length es3 = 1" "ev_type (hd es3) = ''item.completed''" using e3(3) by simp_all
    then obtain e where "es3 = [e]" "ev_type e = ''item.completed''"
      by (cases es3) auto
    then show "es2 @ es3 \<noteq> [] \<and> ev_type (last (es2 @ es3)) = ''item.completed''" by simp
  qed
  have 1: "\<exists>es. events ?st3 = events ?st1 @ es
               \<and> (\<forall>e\<in>set es. ev_turnId e = event_turnId p0
                               \<and> payload_field e ''threadId'' = event_threadId p0)
               \<and> (truthy (event_threadId pe) \<and> truthy (event_turnId pe) \<longrightarrow>
                     es \<noteq> [] \<and> ev_type (last es) = ''item.completed'')"
    apply (rule exI[of _ "es2 @ es3"])
    using e2(2,3) e3(1,2) l x(2,3) by auto
  have 2: "\<forall>method p s. \<not> truthy (event_threadId p) \<or> \<not> truthy (event_turnId p)
              \<longrightarrow> handleCodexEvent dec method p s = s"
    using handleCodexEvent_dropped by blast
  show ?thesis unfolding Let_def using 1 2 by blast
qed

theorem exec_events_carry_begin_ids_witness:
  "truthy (event_threadId exec_begin) \<and> truthy (event_turnId exec_begin)
   \<and> event_threadId exec_output_other = JStr ''T9''
   \<and> (\<exists>es. events (handleCodexEvent id ''codex/event/exec_command_end'' exec_end_other
                      (fold (handleCodexEvent id ''codex/event/exec_command_output_delta'') [exec_output_other]
                         (handleCodexEvent id ''codex/event/exec_command_begin'' exec_begin fresh_state)))
             = events (handleCodexEvent id ''codex/event/exec_command_begin'' exec_begin fresh_state) @ es
           \<and> es \<noteq> []
           \<and> (\<forall>e\<in>set es. ev_turnId e = JStr ''u1'' \<and> payload_field e ''threadId'' = JStr ''T1''))
   \<and> handleCodexEvent id ''codex/event/exec_command_end'' exec_end_bare fresh_state = fresh_state"
proof -
  have h: "truthy (event_threadId exec_begin)" "truthy (event_turnId exec_begin)"
      "\<forall>p\<in>set [exec_output_other]. call_id_of (event_msg p) = call_id_of (event_msg exec_begin)"
      "call_id_of (event_msg exec_end_other) = call_id_of (event_msg exec_begin)"
    by code_simp+
  have v: "event_threadId exec_begin = JStr ''T1''" "event_turnId exec_begin = JStr ''u1''"
      "event_threadId exec_output_other = JStr ''T9''"
      "truthy (event_threadId exec_end_other) \<and> truthy (event_turnId exec_end_other)"
      "\<not> truthy (event_threadId exec_end_bare)"
    by code_simp+
  show ?thesis
    using exec_events_carry_begin_ids[OF h, of id fresh_state] h(1,2) v
    unfolding Let_def by (auto simp del: fold_simps)
qed

text \<open>
  C3, as the claim states it, fails where the end notification names no thread and no
  turn: no \<^verbatim>\<open>item.completed\<close> event is emitted for it.
\<close>

theorem exec_end_without_ids_emits_nothing:
  "map ev_type (events (run id [notification ''codex/event/exec_command_begin'' exec_begin,
                                notification ''codex/event/exec_command_end'' exec_end_bare] fresh_state))
     = [''item.started'']"
  by code_simp


section \<open>The events of a notification\<close>

lemma resolveSessionId_cong:
  assumes a: "threadContexts st' = threadContexts st" and b: "turnToThread st' = turnToThread st"
  shows "resolveSessionId st' = resolveSessionId st"
  by (intro ext) (simp only: resolveSessionId_def a b)

lemma exec_ok_frame: "exec_ok st \<Longrightarrow> commandExecutions st' = commandExecutions st \<Longrightarrow> exec_ok st'"
  by (simp add: exec_ok_def)

lemma exec_ok_handleCodexEvent: "exec_ok st \<Longrightarrow> exec_ok (handleCodexEvent dec m p st)"
  unfolding exec_ok_def handleCodexEvent_def Let_def
  by (auto simp: exec_command_begin_def exec_command_end_def exec_command_output_delta_def
      agent_message_delta_def Let_def split: if_splits)

lemma exec_ok_handleNotification: "exec_ok st \<Longrightarrow> exec_ok (handleNotification dec now m p st)"
  using exec_ok_handleCodexEvent[of st dec m p]
  by (simp add: handleNotification_def exec_ok_def)

lemma exec_ok_handleResponse:
  assumes "exec_ok st" "handleResponse msg st = Inr st'"
  shows "exec_ok st'"
  using assms(2) by (cases rule: handleResponse_cases) (use assms(1) in \<open>auto elim: exec_ok_frame\<close>)

lemma exec_ok_step: "exec_ok st \<Longrightarrow> exec_ok (step dec i st)"
proof (cases i)
  case (Line now line)
  assume a: "exec_ok st"
  show ?thesis
  proof (cases "handleLine dec now line st")
    case (Inl e)
    then show ?thesis using a Line by simp
  next
    case (Inr st')
    have "exec_ok st'"
      using Inr
    proof (cases rule: handleLine_cases)
      case (2 msg)
      then show ?thesis
        using a by (cases rule: handleServerRequest_cases) (auto elim: exec_ok_frame)
    next
      case (3 msg)
      then show ?thesis using a exec_ok_handleResponse by blast
    next
      case (4 m p)
      then show ?thesis using a exec_ok_handleNotification by simp
    qed (use a in simp)
    then show ?thesis using Line Inr by simp
  qed
qed (auto elim: exec_ok_frame)

lemma exec_ok_reachable:
  assumes "construct options w = Inr st0"
  shows "exec_ok (run dec ins st0)"
proof (rule run_invariant)
  show "exec_ok st0" by (simp add: exec_ok_def construct_Inr[OF assms])
qed (rule exec_ok_step)

lemma truthy_nc: "truthy a \<Longrightarrow> nc a b = a"
  by (cases a) (simp_all add: nc_def)

lemma emits_from_refl: "events st' = events st \<Longrightarrow> emits_from st st' m p"
  by (simp add: emits_from_def)

lemma emits_from_emitEvent:
  assumes "events s = events st"
    and "payload_field ev ''threadId'' = emitted_threadId st m p"
    and "ev_turnId ev = emitted_turnId st m p"
    and "truthy (payload_field ev ''threadId'')"
    and "m \<noteq> ''thread/started'' \<longrightarrow> \<not> nullish (ev_turnId ev)"
    and "ev_sessionId ev = resolveSessionId s (payload_field ev ''threadId'') (passed_turnId m ev)"
  shows "emits_from st (emitEvent ev s) m p"
proof -
  have "resolveSessionId (emitEvent ev s) = resolveSessionId s"
    by (rule resolveSessionId_cong) simp_all
  then show ?thesis using assms by (simp add: emits_from_def)
qed

lemma emits_from_exec_command_begin:
  assumes "truthy (event_threadId p)" "truthy (event_turnId p)"
  shows "emits_from st (exec_command_begin msg (event_threadId p) (event_turnId p) st)
           ''codex/event/exec_command_begin'' p"
  unfolding exec_command_begin_def Let_def
  by (rule emits_from_emitEvent)
     (simp_all add: payload_field_def assms emitted_threadId_def emitted_turnId_def
        notification_threadId_def notification_turnId_def passed_turnId_def truthy_not_nullish)

lemma emits_from_exec_command_output_delta:
  assumes "exec_ok st" "truthy (event_threadId p)" "truthy (event_turnId p)"
  shows "emits_from st (exec_command_output_delta dec (event_msg p) (event_threadId p) (event_turnId p) st)
           ''codex/event/exec_command_output_delta'' p"
proof (cases "commandExecutions st (call_id_of (event_msg p))")
  case None
  show ?thesis
    unfolding exec_command_output_delta_def Let_def None
    by (simp add: emits_from_emitEvent emits_from_refl payload_field_def assms(2,3) None
        emitted_threadId_def emitted_turnId_def passed_turnId_def truthy_not_nullish)
next
  case (Some x)
  then have x: "truthy (ce_threadId x)" "truthy (ce_turnId x)"
    using assms(1) unfolding exec_ok_def by blast+
  show ?thesis
    unfolding exec_command_output_delta_def Let_def Some
    by (simp add: emits_from_emitEvent emits_from_refl payload_field_def x truthy_nc Some
        emitted_threadId_def emitted_turnId_def passed_turnId_def truthy_not_nullish)
qed

lemma emits_from_exec_command_end:
  assumes "exec_ok st" "truthy (event_threadId p)" "truthy (event_turnId p)"
  shows "emits_from st (exec_command_end (event_msg p) (event_threadId p) (event_turnId p) st)
           ''codex/event/exec_command_end'' p"
proof (cases "commandExecutions st (call_id_of (event_msg p))")
  case None
  show ?thesis
    unfolding exec_command_end_def Let_def None
    by (rule emits_from_emitEvent)
       (simp_all add: payload_field_def assms(2,3) None
          emitted_threadId_def emitted_turnId_def passed_turnId_def truthy_not_nullish)
next
  case (Some x)
  then have x: "truthy (ce_threadId x)" "truthy (ce_turnId x)"
    using assms(1) unfolding exec_ok_def by blast+
  show ?thesis
    unfolding exec_command_end_def Let_def Some
    by (rule emits_from_emitEvent)
       (simp_all add: payload_field_def x truthy_nc Some
          emitted_threadId_def emitted_turnId_def passed_turnId_def truthy_not_nullish)
qed

lemma emits_from_agent_message_delta:
  assumes "truthy (event_threadId p)" "truthy (event_turnId p)"
    and "m = ''codex/event/agent_message_content_delta'' \<or> m = ''codex/event/agent_message_delta''"
  shows "emits_from st (agent_message_delta msg (event_threadId p) (event_turnId p) st) m p"
  unfolding agent_message_delta_def Let_def
  using assms(3)
  by (auto simp: emits_from_emitEvent emits_from_refl payload_field_def assms(1,2)
      emitted_threadId_def emitted_turnId_def notification_threadId_def notification_turnId_def
      passed_turnId_def truthy_not_nullish)

lemma emits_from_handleCodexEvent:
  assumes "exec_ok st"
  shows "emits_from st (handleCodexEvent dec m p st) m p"
proof (cases "truthy (event_threadId p) \<and> truthy (event_turnId p)")
  case False
  then show ?thesis by (auto simp: handleCodexEvent_dropped emits_from_refl)
next
  case True
  then have t: "truthy (event_threadId p)" "truthy (event_turnId p)" by simp_all
  consider (b) "m = ''codex/event/exec_command_begin''"
    | (d) "m = ''codex/event/exec_command_output_delta''"
    | (e) "m = ''codex/event/exec_command_end''"
    | (a) "m = ''codex/event/agent_message_content_delta'' \<or> m = ''codex/event/agent_message_delta''"
    | (o) "m \<noteq> ''codex/event/exec_command_begin''" "m \<noteq> ''codex/event/exec_command_output_delta''"
          "m \<noteq> ''codex/event/exec_command_end''" "m \<noteq> ''codex/event/agent_message_content_delta''"
          "m \<noteq> ''codex/event/agent_message_delta''"
    by blast
  then show ?thesis
  proof cases
    case b
    show ?thesis unfolding handleCodexEvent_def Let_def b
      using emits_from_exec_command_begin[OF t] by (simp add: t)
  next
    case d
    show ?thesis unfolding handleCodexEvent_def Let_def d
      using emits_from_exec_command_output_delta[OF assms t] by (simp add: t)
  next
    case e
    show ?thesis unfolding handleCodexEvent_def Let_def e
      using emits_from_exec_command_end[OF assms t] by (simp add: t)
  next
    case a
    show ?thesis unfolding handleCodexEvent_def Let_def
      using emits_from_agent_message_delta[OF t a] a by (auto simp: t)
  next
    case o
    show ?thesis unfolding handleCodexEvent_def Let_def
      using o by (simp add: t emits_from_refl)
  qed
qed

lemma emits_from_on_thread_started: "emits_from st (on_thread_started p st) ''thread/started'' p"
  unfolding on_thread_started_def Let_def emitThreadStarted_def
  by (simp add: emits_from_emitEvent emits_from_refl payload_field_def
      emitted_threadId_def emitted_turnId_def notification_threadId_def passed_turnId_def truthy_not_nullish)

lemma emits_from_on_turn_started: "emits_from st (on_turn_started p st) ''turn/started'' p"
  unfolding on_turn_started_def Let_def
  by (simp add: emits_from_emitEvent emits_from_refl payload_field_def
      emitted_threadId_def emitted_turnId_def notification_threadId_def notification_turnId_def
      passed_turnId_def truthy_not_nullish)

lemma emits_from_on_turn_completed: "emits_from st (on_turn_completed p st) ''turn/completed'' p"
  unfolding on_turn_completed_def Let_def
  by (simp add: emits_from_emitEvent emits_from_refl payload_field_def
      emitted_threadId_def emitted_turnId_def notification_threadId_def notification_turnId_def
      passed_turnId_def truthy_not_nullish)

lemma emits_from_on_item:
  "m = ''item/started'' \<or> m = ''item/completed'' \<Longrightarrow> emits_from st (on_item m p st) m p"
  unfolding on_item_def Let_def
  by (auto simp: emits_from_emitEvent emits_from_refl payload_field_def
      emitted_threadId_def emitted_turnId_def notification_threadId_def notification_turnId_def
      passed_turnId_def truthy_not_nullish)

lemma emits_from_on_agent_message_delta:
  "emits_from st (on_agent_message_delta p st) ''item/agentMessage/delta'' p"
  unfolding on_agent_message_delta_def Let_def
  by (simp add: emits_from_emitEvent emits_from_refl payload_field_def
      emitted_threadId_def emitted_turnId_def notification_threadId_def notification_turnId_def
      passed_turnId_def truthy_not_nullish)

lemma emits_from_on_command_output_delta:
  "emits_from st (on_command_output_delta p st) ''item/commandExecution/outputDelta'' p"
  unfolding on_command_output_delta_def Let_def
  by (simp add: emits_from_emitEvent emits_from_refl payload_field_def
      emitted_threadId_def emitted_turnId_def notification_threadId_def notification_turnId_def
      passed_turnId_def truthy_not_nullish)

lemma emits_from_on_reasoning_summary_delta:
  "emits_from st (on_reasoning_summary_delta p st) ''item/reasoning/summaryTextDelta'' p"
  unfolding on_reasoning_summary_delta_def Let_def
  by (simp add: emits_from_emitEvent emits_from_refl payload_field_def
      emitted_threadId_def emitted_turnId_def notification_threadId_def notification_turnId_def
      passed_turnId_def truthy_not_nullish)

lemma emits_from_handleNotification:
  assumes "exec_ok st" "plain_notification m"
  shows "emits_from st (handleNotification dec now m p st) m p"
proof (cases "startsWith m ''codex/event/''")
  case True
  then show ?thesis
    unfolding handleNotification_def using emits_from_handleCodexEvent[OF assms(1)] by simp
next
  case False
  consider (ts) "m = ''thread/started''" | (us) "m = ''turn/started''" | (uc) "m = ''turn/completed''"
    | (it) "m = ''item/started'' \<or> m = ''item/completed''"
    | (ad) "m = ''item/agentMessage/delta''" | (cd) "m = ''item/commandExecution/outputDelta''"
    | (rd) "m = ''item/reasoning/summaryTextDelta''"
    | (o) "m \<noteq> ''thread/started''" "m \<noteq> ''turn/started''" "m \<noteq> ''turn/completed''"
          "m \<noteq> ''item/started''" "m \<noteq> ''item/completed''" "m \<noteq> ''item/agentMessage/delta''"
          "m \<noteq> ''item/commandExecution/outputDelta''" "m \<noteq> ''item/reasoning/summaryTextDelta''"
    by blast
  then show ?thesis
  proof cases
    case ts
    show ?thesis unfolding handleNotification_def ts
      using emits_from_on_thread_started by simp
  next
    case us
    show ?thesis unfolding handleNotification_def us
      using emits_from_on_turn_started by simp
  next
    case uc
    show ?thesis unfolding handleNotification_def uc
      using emits_from_on_turn_completed by simp
  next
    case it
    show ?thesis unfolding handleNotification_def
      using emits_from_on_item[OF it] it False by auto
  next
    case ad
    show ?thesis unfolding handleNotification_def ad
      using emits_from_on_agent_message_delta by simp
  next
    case cd
    show ?thesis unfolding handleNotification_def cd
      using emits_from_on_command_output_delta by simp
  next
    case rd
    show ?thesis unfolding handleNotification_def rd
      using emits_from_on_reasoning_summary_delta by simp
  next
    case o
    show ?thesis unfolding handleNotification_def
      using o False assms(2) by (simp add: emits_from_refl plain_notification_def)
  qed
qed


lemma emitApprovalRequest_event:
  "\<exists>a. events (emitApprovalRequest now m p r st) =
               events st @ [\<lparr>ev_type = ''approval.request'', ev_sessionId = ap_sessionId a,
                             ev_turnId = ap_turnId a, ev_payload = ApprovalPayload a\<rparr>]
           \<and> ap_turnId a = nc (resolveTurnId p) (JStr ''unknown'')
           \<and> ap_sessionId a = resolveSessionId st (resolveThreadId p) (nc (resolveTurnId p) (JStr ''unknown''))"
  by (cases "nullish (extractApprovalId p)"; cases "truthy r")
     (simp_all add: emitApprovalRequest_def Let_def emitEvent_def)


section \<open>Cancellation\<close>

lemma names_settle [simp]: "names (settle h out st) = names st"
  by (simp add: names_def settle_def map_update list_update_same_conv)

lemma names_new_call [simp]: "names (new_call n st) = names st @ [n]"
  by (simp add: names_def)




lemma cancel_rejected_new_call [simp]: "cancel_rejected (new_call n st) h e = cancel_rejected st h e"
  by (auto simp: cancel_rejected_def nth_append less_Suc_eq)







lemma names_rpc [simp]: "names (snd (rpc m p k st)) = names st"
  by (simp add: names_def)



lemma names_rpcD: "rpc m p k st = (r, st') \<Longrightarrow> names st' = names st"
  using names_rpc[of m p k st] by simp

lemma names_bodies [simp]:
  "names (createThread_body h c st) = names st"
  "names (sendUserMessage_body h t x a st) = names st"
  "names (cancel_body h t st) = names st"
  by (auto simp: createThread_body_def sendUserMessage_body_def cancel_body_def Let_def
      dest: names_rpcD split: prod.splits option.splits)



lemma names_run_waiter [simp]: "names (run_waiter w st) = names st"
  by (cases w) simp_all







lemma names_resume_Inl [simp]: "names (resume k (Inl e) st) = names st"
  by (cases k) simp_all


lemma names_reject_pending [simp]: "names (reject_pending e p st) = names st"
  by (simp add: reject_pending_def) (simp add: names_def)


lemma names_readyReject [simp]: "names (readyReject e st) = names st"
proof -
  have "names (fold (\<lambda>w. settle (waiter_call w) (Rejected e)) ws s) = names s" for ws s
    by (induction ws arbitrary: s) simp_all
  then show ?thesis by (simp add: readyReject_def) (simp add: names_def)
qed






















section \<open>Unaddressed notifications\<close>




section \<open>The session id of an event\<close>

lemma spec_thread_alone:
  assumes "ids_ok st" "truthy t"
  shows "spec_resolveSessionId st t JUndefined
           = (case threadContexts st t of Some c \<Rightarrow> sessionId c | None \<Rightarrow> t)"
proof -
  have "turnToThread st JUndefined = None"
  proof (rule ccontr)
    assume "turnToThread st JUndefined \<noteq> None"
    then obtain v where "turnToThread st JUndefined = Some v" by auto
    then have "truthy JUndefined" using assms(1) unfolding ids_ok_def by blast
    then show False by simp
  qed
  then show ?thesis
    using truthy_not_nullish[OF assms(2)]
    by (simp add: spec_resolveSessionId_def split: option.splits)
qed

lemma approval_session_turn:
  assumes "resolveThreadId p = JUndefined" "\<not> nullish (resolveTurnId p)"
    "turnToThread st (resolveTurnId p) = None"
  shows "resolveSessionId st (resolveThreadId p) (nc (resolveTurnId p) (JStr ''unknown'')) = resolveTurnId p"
  using assms by (simp add: resolveSessionId_def nc_def)

text \<open>
  C2, as the code has it. In every state a bridge can reach, and for ids that are
  primitive values, \<^verbatim>\<open>resolveSessionId\<close> is the precedence of the specification: the
  recorded session of the thread when the thread id is registered; else, when the turn
  id is registered, the session of the thread that owns the turn (its recorded session,
  or the thread itself when none is recorded); else the raw thread id; else the raw turn
  id; else "unknown". The session id of an event is that precedence at the ids that the
  handler passes. The handler of a low-level event passes the thread id and the turn id
  of the event. Every other notification that is not an approval request passes the
  thread id alone: the session id of its event is the recorded session of the thread
  when the thread is registered and the thread id otherwise, whatever the turn id. An
  approval request passes the thread id and the turn id it resolves, "unknown" for a
  turn id that does not resolve; when no thread id resolves and the turn id is not
  registered, its session id is the turn id.
\<close>

theorem session_id_precedence:
  assumes "construct options w = Inr st0" and "st = run dec ins st0"
  shows "(primitive_lookup st threadId turnId
            \<longrightarrow> resolveSessionId st threadId turnId = spec_resolveSessionId st threadId turnId)
       \<and> (plain_notification method
            \<longrightarrow> (\<exists>es. events (handleNotification dec now method params st) = events st @ es
                   \<and> (\<forall>e\<in>set es.
                         primitive_lookup (handleNotification dec now method params st)
                            (payload_field e ''threadId'') (passed_turnId method e)
                         \<longrightarrow> ev_sessionId e
                               = spec_resolveSessionId (handleNotification dec now method params st)
                                   (payload_field e ''threadId'') (passed_turnId method e)
                             \<and> (\<not> startsWith method ''codex/event/''
                                  \<longrightarrow> ev_sessionId e
                                        = (case threadContexts st (payload_field e ''threadId'') of
                                             Some c \<Rightarrow> sessionId c
                                           | None \<Rightarrow> payload_field e ''threadId'')))))
       \<and> (\<exists>a. events (emitApprovalRequest now method params requestId st)
                 = events st @ [\<lparr>ev_type = ''approval.request'', ev_sessionId = ap_sessionId a,
                                  ev_turnId = ap_turnId a, ev_payload = ApprovalPayload a\<rparr>]
               \<and> (primitive_lookup st (resolveThreadId params) (nc (resolveTurnId params) (JStr ''unknown''))
                    \<longrightarrow> ap_sessionId a
                          = spec_resolveSessionId st (resolveThreadId params)
                              (nc (resolveTurnId params) (JStr ''unknown'')))
               \<and> (resolveThreadId params = JUndefined \<and> \<not> nullish (resolveTurnId params)
                     \<and> turnToThread st (resolveTurnId params) = None
                    \<longrightarrow> ap_sessionId a = resolveTurnId params))
       \<and> (\<forall>s. turnToThread s turnId = None \<and> \<not> nullish turnId
              \<longrightarrow> resolveSessionId s JUndefined turnId = turnId)"
proof -
  let ?st' = "handleNotification dec now method params st"
  have ok: "exec_ok st" unfolding assms(2) by (rule exec_ok_reachable[OF assms(1)])
  have ids: "ids_ok st" unfolding assms(2) by (rule ids_ok_reachable[OF assms(1)])
  have ids': "ids_ok ?st'" by (rule ids_ok_handleNotification[OF ids])
  have 1: "primitive_lookup st threadId turnId
            \<longrightarrow> resolveSessionId st threadId turnId = spec_resolveSessionId st threadId turnId"
    using resolveSessionId_spec[OF ids] by simp
  have 2: "plain_notification method
            \<longrightarrow> (\<exists>es. events ?st' = events st @ es
                   \<and> (\<forall>e\<in>set es.
                         primitive_lookup ?st' (payload_field e ''threadId'') (passed_turnId method e)
                         \<longrightarrow> ev_sessionId e
                               = spec_resolveSessionId ?st' (payload_field e ''threadId'') (passed_turnId method e)
                             \<and> (\<not> startsWith method ''codex/event/''
                                  \<longrightarrow> ev_sessionId e
                                        = (case threadContexts st (payload_field e ''threadId'') of
                                             Some c \<Rightarrow> sessionId c
                                           | None \<Rightarrow> payload_field e ''threadId''))))"
  proof
    assume "plain_notification method"
    from emits_from_handleNotification[OF ok this, of dec now params]
    obtain es where es: "events ?st' = events st @ es"
      and all: "\<forall>e\<in>set es. truthy (payload_field e ''threadId'')
                  \<and> ev_sessionId e = resolveSessionId ?st' (payload_field e ''threadId'') (passed_turnId method e)"
      unfolding emits_from_def by blast
    have "ev_sessionId e = spec_resolveSessionId ?st' (payload_field e ''threadId'') (passed_turnId method e)
          \<and> (\<not> startsWith method ''codex/event/''
               \<longrightarrow> ev_sessionId e = (case threadContexts st (payload_field e ''threadId'') of
                                       Some c \<Rightarrow> sessionId c
                                     | None \<Rightarrow> payload_field e ''threadId''))"
      if e: "e \<in> set es" for e
    proof -
      have t: "truthy (payload_field e ''threadId'')"
        and s: "ev_sessionId e = resolveSessionId ?st' (payload_field e ''threadId'') (passed_turnId method e)"
        using all e by blast+
      have a: "ev_sessionId e = spec_resolveSessionId ?st' (payload_field e ''threadId'') (passed_turnId method e)"
        unfolding s by (rule resolveSessionId_spec[OF ids'])
      have b: "ev_sessionId e = (case threadContexts st (payload_field e ''threadId'') of
                                   Some c \<Rightarrow> sessionId c
                                 | None \<Rightarrow> payload_field e ''threadId'')"
        if "\<not> startsWith method ''codex/event/''"
      proof -
        have "passed_turnId method e = JUndefined" using that by (simp add: passed_turnId_def)
        then show ?thesis
          using a spec_thread_alone[OF ids' t] by simp
      qed
      show ?thesis using a b by blast
    qed
    with es show "\<exists>es. events ?st' = events st @ es
                   \<and> (\<forall>e\<in>set es.
                         primitive_lookup ?st' (payload_field e ''threadId'') (passed_turnId method e)
                         \<longrightarrow> ev_sessionId e
                               = spec_resolveSessionId ?st' (payload_field e ''threadId'') (passed_turnId method e)
                             \<and> (\<not> startsWith method ''codex/event/''
                                  \<longrightarrow> ev_sessionId e
                                        = (case threadContexts st (payload_field e ''threadId'') of
                                             Some c \<Rightarrow> sessionId c
                                           | None \<Rightarrow> payload_field e ''threadId'')))"
      by blast
  qed
  have 3: "\<exists>a. events (emitApprovalRequest now method params requestId st)
                 = events st @ [\<lparr>ev_type = ''approval.request'', ev_sessionId = ap_sessionId a,
                                  ev_turnId = ap_turnId a, ev_payload = ApprovalPayload a\<rparr>]
               \<and> (primitive_lookup st (resolveThreadId params) (nc (resolveTurnId params) (JStr ''unknown''))
                    \<longrightarrow> ap_sessionId a
                          = spec_resolveSessionId st (resolveThreadId params)
                              (nc (resolveTurnId params) (JStr ''unknown'')))
               \<and> (resolveThreadId params = JUndefined \<and> \<not> nullish (resolveTurnId params)
                     \<and> turnToThread st (resolveTurnId params) = None
                    \<longrightarrow> ap_sessionId a = resolveTurnId params)"
  proof -
    from emitApprovalRequest_event[of now "method" params requestId st]
    obtain a :: ApprovalRequestWithResponder
      where e: "events (emitApprovalRequest now method params requestId st)
                 = events st @ [\<lparr>ev_type = ''approval.request'', ev_sessionId = ap_sessionId a,
                                  ev_turnId = ap_turnId a, ev_payload = ApprovalPayload a\<rparr>]"
        and s: "ap_sessionId a = resolveSessionId st (resolveThreadId params)
                                     (nc (resolveTurnId params) (JStr ''unknown''))"
      by blast
    have x: "ap_sessionId a = spec_resolveSessionId st (resolveThreadId params)
                              (nc (resolveTurnId params) (JStr ''unknown''))"
      unfolding s by (rule resolveSessionId_spec[OF ids])
    have y: "resolveThreadId params = JUndefined \<and> \<not> nullish (resolveTurnId params)
                     \<and> turnToThread st (resolveTurnId params) = None
                    \<longrightarrow> ap_sessionId a = resolveTurnId params"
      unfolding s using approval_session_turn by blast
    show ?thesis using e x y by blast
  qed
  have 4: "\<forall>s. turnToThread s turnId = None \<and> \<not> nullish turnId
              \<longrightarrow> resolveSessionId s JUndefined turnId = turnId"
    by (simp add: resolveSessionId_def nc_def)
  show ?thesis by (rule conjI[OF 1 conjI[OF 2 conjI[OF 3 4]]])
qed

theorem session_id_precedence_witness:
  "construct default_options True = Inr fresh_state
   \<and> primitive_lookup (run id turn_registered fresh_state) (JStr ''T9'') (JStr ''u1'')
   \<and> resolveSessionId (run id turn_registered fresh_state) (JStr ''T9'') (JStr ''u1'') = JStr ''S1''
   \<and> ev_sessionId (last (events (handleNotification id 0 ''codex/event/exec_command_begin''
         exec_begin_other_thread (run id turn_registered fresh_state)))) = JStr ''S1''
   \<and> ev_sessionId (last (events (handleNotification id 0 ''item/started''
         item_other_thread (run id turn_registered fresh_state)))) = JStr ''T9''
   \<and> ev_sessionId (last (events (emitApprovalRequest 0 ''item/commandExecution/requestApproval''
         approval_turn_only JUndefined (run id turn_registered fresh_state)))) = JStr ''u9''"
proof -
  let ?S = "run id turn_registered fresh_state"
  let ?m1 = "''codex/event/exec_command_begin''"
  let ?s1 = "handleNotification id 0 ?m1 exec_begin_other_thread ?S"
  let ?e1 = "last (events ?s1)"
  let ?m2 = "''item/started''"
  let ?s2 = "handleNotification id 0 ?m2 item_other_thread ?S"
  let ?e2 = "last (events ?s2)"
  let ?m3 = "''item/commandExecution/requestApproval''"
  have pl: "plain_notification ?m1" "plain_notification ?m2"
    by (simp_all add: plain_notification_def)
  note w0 = session_id_precedence[OF construct_default refl, of id turn_registered "JStr ''T9''" "JStr ''u1''"]
  note w1 = session_id_precedence[OF construct_default refl, of id turn_registered _ _ ?m1 0 exec_begin_other_thread]
  note w2 = session_id_precedence[OF construct_default refl, of id turn_registered _ _ ?m2 0 item_other_thread]
  note w3 = session_id_precedence[OF construct_default refl, of id turn_registered _ _ ?m3 0 approval_turn_only JUndefined]
  have g0: "primitive_lookup ?S (JStr ''T9'') (JStr ''u1'')" by code_simp
  have v0: "spec_resolveSessionId ?S (JStr ''T9'') (JStr ''u1'') = JStr ''S1''" by code_simp
  have a: "resolveSessionId ?S (JStr ''T9'') (JStr ''u1'') = JStr ''S1''"
    using mp[OF w0[THEN conjunct1] g0] v0 by simp
  have ev1: "events ?s1 = events ?S @ [?e1]" by code_simp
  obtain es1 where es1: "events ?s1 = events ?S @ es1"
    and all1: "\<forall>e\<in>set es1.
                 primitive_lookup ?s1 (payload_field e ''threadId'') (passed_turnId ?m1 e)
                 \<longrightarrow> ev_sessionId e = spec_resolveSessionId ?s1 (payload_field e ''threadId'') (passed_turnId ?m1 e)
                     \<and> (\<not> startsWith ?m1 ''codex/event/''
                          \<longrightarrow> ev_sessionId e = (case threadContexts ?S (payload_field e ''threadId'') of
                                                  Some c \<Rightarrow> sessionId c
                                                | None \<Rightarrow> payload_field e ''threadId''))"
    using mp[OF w1[THEN conjunct2, THEN conjunct1] pl(1)] by blast
  have "es1 = [?e1]" using es1 ev1 by simp
  then have i1: "primitive_lookup ?s1 (payload_field ?e1 ''threadId'') (passed_turnId ?m1 ?e1)
                 \<longrightarrow> ev_sessionId ?e1 = spec_resolveSessionId ?s1 (payload_field ?e1 ''threadId'') (passed_turnId ?m1 ?e1)"
    using all1 by simp
  have g1: "primitive_lookup ?s1 (payload_field ?e1 ''threadId'') (passed_turnId ?m1 ?e1)" by code_simp
  have v1: "spec_resolveSessionId ?s1 (payload_field ?e1 ''threadId'') (passed_turnId ?m1 ?e1) = JStr ''S1''"
    by code_simp
  have b: "ev_sessionId ?e1 = JStr ''S1''" using mp[OF i1 g1] v1 by simp
  have ev2: "events ?s2 = events ?S @ [?e2]" by code_simp
  obtain es2 where es2: "events ?s2 = events ?S @ es2"
    and all2: "\<forall>e\<in>set es2.
                 primitive_lookup ?s2 (payload_field e ''threadId'') (passed_turnId ?m2 e)
                 \<longrightarrow> ev_sessionId e = spec_resolveSessionId ?s2 (payload_field e ''threadId'') (passed_turnId ?m2 e)
                     \<and> (\<not> startsWith ?m2 ''codex/event/''
                          \<longrightarrow> ev_sessionId e = (case threadContexts ?S (payload_field e ''threadId'') of
                                                  Some c \<Rightarrow> sessionId c
                                                | None \<Rightarrow> payload_field e ''threadId''))"
    using mp[OF w2[THEN conjunct2, THEN conjunct1] pl(2)] by blast
  have "es2 = [?e2]" using es2 ev2 by simp
  then have m2: "?e2 \<in> set es2" by simp
  note i2 = bspec[OF all2 m2]
  have g2: "primitive_lookup ?s2 (payload_field ?e2 ''threadId'') (passed_turnId ?m2 ?e2)" by code_simp
  have n2: "\<not> startsWith ?m2 ''codex/event/''" by simp
  have v2: "(case threadContexts ?S (payload_field ?e2 ''threadId'') of
               Some c \<Rightarrow> sessionId c
             | None \<Rightarrow> payload_field ?e2 ''threadId'') = JStr ''T9''"
    by code_simp
  have c: "ev_sessionId ?e2 = JStr ''T9''"
    using mp[OF mp[OF i2 g2, THEN conjunct2] n2] v2 by simp
  obtain x :: ApprovalRequestWithResponder
    where x: "events (emitApprovalRequest 0 ?m3 approval_turn_only JUndefined ?S)
                = events ?S @ [\<lparr>ev_type = ''approval.request'', ev_sessionId = ap_sessionId x,
                                  ev_turnId = ap_turnId x, ev_payload = ApprovalPayload x\<rparr>]"
      and y: "resolveThreadId approval_turn_only = JUndefined \<and> \<not> nullish (resolveTurnId approval_turn_only)
                     \<and> turnToThread ?S (resolveTurnId approval_turn_only) = None
                    \<longrightarrow> ap_sessionId x = resolveTurnId approval_turn_only"
    using w3[THEN conjunct2, THEN conjunct2, THEN conjunct1] by blast
  have h: "resolveThreadId approval_turn_only = JUndefined \<and> \<not> nullish (resolveTurnId approval_turn_only)
           \<and> turnToThread ?S (resolveTurnId approval_turn_only) = None"
    by code_simp
  have u: "resolveTurnId approval_turn_only = JStr ''u9''" by code_simp
  have "ap_sessionId x = JStr ''u9''" using mp[OF y h] u by simp
  then have d: "ev_sessionId (last (events (emitApprovalRequest 0 ?m3 approval_turn_only JUndefined ?S)))
                  = JStr ''u9''"
    unfolding x by simp
  show ?thesis using construct_default g0 a b c d by simp
qed

text \<open>
  C2, as the claim states it, fails at an \<^verbatim>\<open>item/started\<close> notification that names the
  turn \<open>u1\<close> of the thread \<open>T1\<close>, whose session is \<open>S1\<close>, and a thread \<open>T9\<close> that is not
  registered: the session id of the event is \<open>T9\<close>, where the precedence gives \<open>S1\<close>.
\<close>

theorem item_started_ignores_turn_owner:
  "ev_type (last (events (run id turn_of_other_thread fresh_state))) = ''item.started''
   \<and> ev_turnId (last (events (run id turn_of_other_thread fresh_state))) = JStr ''u1''
   \<and> payload_field (last (events (run id turn_of_other_thread fresh_state))) ''threadId'' = JStr ''T9''
   \<and> ev_sessionId (last (events (run id turn_of_other_thread fresh_state))) = JStr ''T9''
   \<and> threadContexts (run id turn_of_other_thread fresh_state) (JStr ''T9'') = None
   \<and> turnToThread (run id turn_of_other_thread fresh_state) (JStr ''u1'') = Some (JStr ''T1'')
   \<and> spec_resolveSessionId (run id turn_of_other_thread fresh_state) (JStr ''T9'') (JStr ''u1'') = JStr ''S1''"
  by code_simp


end
